theory Spec2Isabelle
  imports Main "HOL-Library.AList" "HOL-Library.Char_ord" "HOL-Library.List_Lexorder"
begin

section \<open>Values shared with the libraries the program calls\<close>

text \<open>
  A \<open>blob.Ref\<close> of the content store is a digest or the zero value; \<open>Valid\<close> is the
  library's test for a non-zero value. The digest is kept as an opaque string.
\<close>

datatype blob_Ref = ZeroRef | DigestRef string

definition Valid :: "blob_Ref \<Rightarrow> bool" where
  "Valid r = (r \<noteq> ZeroRef)"

text \<open>
  Every error value the program builds (\<open>errors.New\<close>, \<open>fmt.Errorf\<close>), one constructor
  for each message; \<open>StoreError\<close> for whatever a call to the content store returned, and
  \<open>JSONError\<close>, \<open>TimeError\<close> and \<open>Base64Error\<close> for the errors of \<open>encoding/json\<close>, of
  \<open>Time.MarshalText\<close> and of \<open>encoding/base64\<close>. The panic of a nil dereference is a value
  of its own.
\<close>

datatype error =
    StoreError string
  | JSONError string
  | TimeError string
  | Base64Error string
  | MissingTitle
  | MissingBagRecipe string
  | RecipeNotSupported string
  | UnsupportedRecipeName string
  | TiddlerNotFound string
  | RefTiddlerNotFound
  | ErrorSetting string error
  | LineTooBig
  | MalformattedField string
  | EOF
  | NilDereference

text \<open>
  The taxonomy of section 7 of the specification, read off the messages: a missing title and a
  missing bag/recipe are invalid references, the two recipe messages are unsupported recipes,
  the two "not found" messages are not-found failures, the failures of the text decoder are
  malformed input, as are the errors of the JSON, time and base64 libraries met while
  decoding; what the content store returned is a store failure.
\<close>

datatype error_kind =
  InvalidReference | UnsupportedRecipe | NotFound | MalformedInput | StoreFailure | Panic

fun kind :: "error \<Rightarrow> error_kind" where
  "kind (StoreError _) = StoreFailure"
| "kind (JSONError _) = MalformedInput"
| "kind (TimeError _) = MalformedInput"
| "kind (Base64Error _) = MalformedInput"
| "kind MissingTitle = InvalidReference"
| "kind (MissingBagRecipe _) = InvalidReference"
| "kind (RecipeNotSupported _) = UnsupportedRecipe"
| "kind (UnsupportedRecipeName _) = UnsupportedRecipe"
| "kind (TiddlerNotFound _) = NotFound"
| "kind RefTiddlerNotFound = NotFound"
| "kind (ErrorSetting _ _) = StoreFailure"
| "kind LineTooBig = MalformedInput"
| "kind (MalformattedField _) = MalformedInput"
| "kind EOF = MalformedInput"
| "kind NilDereference = Panic"

text \<open>
  The dynamic values a \<open>map[string]interface{}\<close> holds here: what \<open>encoding/json\<close>
  decodes (nil, bool, float64, string, \<open>[]interface{}\<close>, nested map) and the \<open>[]string\<close>
  the program itself stores under \<open>tags\<close>. The payload of a number is never computed with.
  A Go map is an association list with distinct keys; its order stands for the order in
  which \<open>range\<close> happens to visit it.
\<close>

datatype iface =
    VNil
  | VBool bool
  | VFloat64 int
  | VString string
  | VSlice "iface list"
  | VMap "(string \<times> iface) list"
  | VStrings "string list"

type_synonym gomap = "(string \<times> iface) list"

section \<open>The content store as the program sees it\<close>

datatype Constraint =
    Logical_and Constraint Constraint
  | Permanode_Value string string
  | Permanode_NumValue_Min string nat
  | Permanode_ValueMatches_HasPrefix string string

datatype claim =
    SetAttributeClaim blob_Ref string string
  | AddAttributeClaim blob_Ref string string
  | DelAttributeClaim blob_Ref string string
  | DeleteClaim blob_Ref

record 'tm DescribedPermanode =
  Attr :: "string \<Rightarrow> string list"
  ModTime :: 'tm

record 'tm DescribedBlob =
  Permanode :: "'tm DescribedPermanode option"

record 'tm DescribeResponse =
  Meta :: "string \<Rightarrow> 'tm DescribedBlob option"

record 'tm SearchResult =
  Blobs :: "blob_Ref list"
  Describe :: "'tm DescribeResponse option"

text \<open>
  Each call the program makes to the client is recorded; the history of calls is the whole
  state of the model. The client is a parameter: an arbitrary deterministic store is a
  family of functions from the history so far and the call's arguments to the call's result.
  \<open>FetchFile\<close> stands for \<open>FetchSchemaBlob\<close>, \<open>NewFileReader\<close> and \<open>ReadAll\<close> in a row, and
  \<open>Fetch\<close> for \<open>Fetch\<close> and \<open>ReadAll\<close>: the program returns the error of whichever fails.
\<close>

datatype call =
    Call_Query Constraint "string list"
  | Call_Describe blob_Ref "string list"
  | Call_UploadNewPermanode
  | Call_UploadAndSignBlob claim
  | Call_Upload blob_Ref string
  | Call_UploadFile string string
  | Call_Fetch blob_Ref
  | Call_FetchFile blob_Ref

record 'tm Client =
  Query :: "call list \<Rightarrow> Constraint \<Rightarrow> string list \<Rightarrow> error + 'tm SearchResult"
  DescribeBlob :: "call list \<Rightarrow> blob_Ref \<Rightarrow> string list \<Rightarrow> error + 'tm DescribeResponse"
  UploadNewPermanode :: "call list \<Rightarrow> error + blob_Ref"
  UploadAndSignBlob :: "call list \<Rightarrow> claim \<Rightarrow> error + unit"
  Upload :: "call list \<Rightarrow> blob_Ref \<Rightarrow> string \<Rightarrow> error + blob_Ref"
  UploadFile :: "call list \<Rightarrow> string \<Rightarrow> string \<Rightarrow> error + blob_Ref"
  Fetch :: "call list \<Rightarrow> blob_Ref \<Rightarrow> error + string"
  FetchFile :: "call list \<Rightarrow> blob_Ref \<Rightarrow> error + string"

type_synonym 'a io = "call list \<Rightarrow> (error + 'a) \<times> call list"

definition ret :: "'a \<Rightarrow> 'a io" where
  "ret a h = (Inr a, h)"

definition fail :: "error \<Rightarrow> 'a io" where
  "fail e h = (Inl e, h)"

text \<open>\<open>if err != nil { return err }\<close> after a call: the rest runs only on success.\<close>

definition bind :: "'a io \<Rightarrow> ('a \<Rightarrow> 'b io) \<Rightarrow> 'b io" where
  "bind m f h = (case m h of (Inl e, h') \<Rightarrow> (Inl e, h') | (Inr a, h') \<Rightarrow> f a h')"

definition do_Query :: "'tm Client \<Rightarrow> Constraint \<Rightarrow> string list \<Rightarrow> 'tm SearchResult io" where
  "do_Query c q attrs h = (Query c h q attrs, h @ [Call_Query q attrs])"

definition do_Describe :: "'tm Client \<Rightarrow> blob_Ref \<Rightarrow> string list \<Rightarrow> 'tm DescribeResponse io" where
  "do_Describe c r attrs h = (DescribeBlob c h r attrs, h @ [Call_Describe r attrs])"

definition do_UploadNewPermanode :: "'tm Client \<Rightarrow> blob_Ref io" where
  "do_UploadNewPermanode c h = (UploadNewPermanode c h, h @ [Call_UploadNewPermanode])"

definition do_UploadAndSignBlob :: "'tm Client \<Rightarrow> claim \<Rightarrow> unit io" where
  "do_UploadAndSignBlob c cl h = (UploadAndSignBlob c h cl, h @ [Call_UploadAndSignBlob cl])"

definition do_Upload :: "'tm Client \<Rightarrow> blob_Ref \<Rightarrow> string \<Rightarrow> blob_Ref io" where
  "do_Upload c r data h = (Upload c h r data, h @ [Call_Upload r data])"

definition do_UploadFile :: "'tm Client \<Rightarrow> string \<Rightarrow> string \<Rightarrow> blob_Ref io" where
  "do_UploadFile c name data h = (UploadFile c h name data, h @ [Call_UploadFile name data])"

definition do_Fetch :: "'tm Client \<Rightarrow> blob_Ref \<Rightarrow> string io" where
  "do_Fetch c r h = (Fetch c h r, h @ [Call_Fetch r])"

definition do_FetchFile :: "'tm Client \<Rightarrow> blob_Ref \<Rightarrow> string io" where
  "do_FetchFile c r h = (FetchFile c h r, h @ [Call_FetchFile r])"

section \<open>Tag reconciliation\<close>

text \<open>
  A \<open>stringset.Set\<close> is a finite set of strings. \<open>Elements\<close> lists it in increasing order;
  \<open>range\<close> over the set visits every element once in an order the language leaves open,
  which the model takes as the parameter \<open>rng\<close>.
\<close>

definition stringset_New :: "string list \<Rightarrow> string set" where
  "stringset_New ss = set ss"

definition Elements :: "string set \<Rightarrow> string list" where
  "Elements s = sorted_list_of_set s"

definition Diff :: "string set \<Rightarrow> string set \<Rightarrow> string set" where
  "Diff s t = s - t"

text \<open>The body of both loops of \<open>updateTags\<close>: one signed claim per element, stopping at the first error.\<close>

fun signEach :: "'tm Client \<Rightarrow> (string \<Rightarrow> claim) \<Rightarrow> string list \<Rightarrow> unit io" where
  "signEach c mk [] = ret ()"
| "signEach c mk (x # xs) = bind (do_UploadAndSignBlob c (mk x)) (\<lambda>_. signEach c mk xs)"

definition updateTags ::
  "(string set \<Rightarrow> string list) \<Rightarrow> 'tm Client \<Rightarrow> blob_Ref \<Rightarrow> string set \<Rightarrow> string set \<Rightarrow> unit io" where
  "updateTags rng c ref existing wanted =
     (if wanted = existing then ret ()
      else if card wanted = 1
        then do_UploadAndSignBlob c (SetAttributeClaim ref ''tag'' (hd (Elements wanted)))
      else bind (signEach c (AddAttributeClaim ref ''tag'') (rng (Diff wanted existing)))
             (\<lambda>_. signEach c (DelAttributeClaim ref ''tag'') (rng (Diff existing wanted))))"

text \<open>What \<open>range\<close> guarantees: each element of a finite set, once.\<close>

definition range_visits_once :: "(string set \<Rightarrow> string list) \<Rightarrow> bool" where
  "range_visits_once rng = (\<forall>s. finite s \<longrightarrow> set (rng s) = s \<and> distinct (rng s))"

text \<open>The calls that append one claim for each listed tag, in the order of the list.\<close>

definition add_calls :: "blob_Ref \<Rightarrow> string list \<Rightarrow> call list" where
  "add_calls ref xs = map (\<lambda>x. Call_UploadAndSignBlob (AddAttributeClaim ref ''tag'' x)) xs"

definition del_calls :: "blob_Ref \<Rightarrow> string list \<Rightarrow> call list" where
  "del_calls ref xs = map (\<lambda>x. Call_UploadAndSignBlob (DelAttributeClaim ref ''tag'' x)) xs"

text \<open>A call is a mutation of the tag \<open>x\<close> when it signs a set, add or delete claim with value \<open>x\<close>.\<close>

fun mutates_tag :: "call \<Rightarrow> string \<Rightarrow> bool" where
  "mutates_tag (Call_UploadAndSignBlob (SetAttributeClaim r a v)) x = (v = x)"
| "mutates_tag (Call_UploadAndSignBlob (AddAttributeClaim r a v)) x = (v = x)"
| "mutates_tag (Call_UploadAndSignBlob (DelAttributeClaim r a v)) x = (v = x)"
| "mutates_tag _ x = False"

section \<open>Tiddlers and their JSON form\<close>

text \<open>
  The library functions the codec and the store call, as parameters: \<open>time.Parse\<close> with the
  RFC 3339 layout and \<open>Time.MarshalText\<close>, \<open>Time.Unix\<close>, \<open>blob.Ref.String\<close>,
  \<open>blob.ParseOrZero\<close>, \<open>blob.RefFromHash\<close> of the hash of some bytes, \<open>json.Marshal\<close> and
  \<open>json.Unmarshal\<close> on a \<open>map[string]interface{}\<close>, \<open>fmt.Sprintf("%s", v)\<close>,
  \<open>url.QueryEscape\<close> and the standard base64 encoding. The zero \<open>time.Time\<close> is \<open>0\<close>.
\<close>

record 'tm extern =
  time_Parse :: "string \<Rightarrow> 'tm option"
  time_MarshalText :: "'tm \<Rightarrow> error + string"
  time_Unix :: "'tm \<Rightarrow> int"
  blob_String :: "blob_Ref \<Rightarrow> string"
  blob_ParseOrZero :: "string \<Rightarrow> blob_Ref"
  blob_RefFromHash :: "string \<Rightarrow> blob_Ref"
  json_Marshal :: "gomap \<Rightarrow> error + string"
  json_Unmarshal :: "string \<Rightarrow> error + gomap"
  fmt_Sprintf_s :: "iface \<Rightarrow> string"
  url_QueryEscape :: "string \<Rightarrow> string"
  base64_DecodeString :: "string \<Rightarrow> error + string"
  base64_EncodeToString :: "string \<Rightarrow> string"

record 'tm TiddlerRef =
  Ref :: blob_Ref
  TextRef :: blob_Ref
  MetaRef :: blob_Ref
  Title :: string
  Bag :: string
  Recipe :: string
  Tags :: "string list"
  Revision :: 'tm

record 'tm TiddlerMeta = "'tm TiddlerRef" +
  Fields :: gomap
  Type :: string
  Permissions :: string
  Created :: string
  Creator :: string
  Modified :: string
  Modifier :: string

record 'tm Tiddler = "'tm TiddlerMeta" +
  Text :: string

definition TiddlerRef_zero :: "('tm::zero) TiddlerRef" where
  "TiddlerRef_zero = \<lparr> Ref = ZeroRef, TextRef = ZeroRef, MetaRef = ZeroRef, Title = [], Bag = [],
     Recipe = [], Tags = [], Revision = 0 \<rparr>"

text \<open>\<open>Tiddler{TiddlerMeta: TiddlerMeta{TiddlerRef: ref}}\<close>: every other field zero.\<close>

definition Tiddler_of_ref :: "'tm TiddlerRef \<Rightarrow> 'tm Tiddler" where
  "Tiddler_of_ref r = \<lparr> Ref = Ref r, TextRef = TextRef r, MetaRef = MetaRef r, Title = Title r,
     Bag = Bag r, Recipe = Recipe r, Tags = Tags r, Revision = Revision r,
     Fields = [], Type = [], Permissions = [], Created = [], Creator = [], Modified = [],
     Modifier = [], Text = [] \<rparr>"

definition Tiddler_zero :: "('tm::zero) Tiddler" where
  "Tiddler_zero = Tiddler_of_ref TiddlerRef_zero"

definition toString :: "'tm extern \<Rightarrow> iface \<Rightarrow> string" where
  "toString ext v = (case v of VString s \<Rightarrow> s | _ \<Rightarrow> fmt_Sprintf_s ext v)"

text \<open>One round of the loop of \<open>TiddlerMeta.MergeFrom\<close>: the \<open>switch\<close> on the key.\<close>

definition merge_entry ::
  "'tm extern \<Rightarrow> string \<times> iface \<Rightarrow> ('tm, 'z) TiddlerMeta_scheme \<Rightarrow> ('tm, 'z) TiddlerMeta_scheme" where
  "merge_entry ext e t = (let f = fst e; v = snd e in
     if f = ''title'' then t\<lparr>Title := toString ext v\<rparr>
     else if f = ''revision'' then
       (case time_Parse ext (toString ext v) of Some r \<Rightarrow> t\<lparr>Revision := r\<rparr> | None \<Rightarrow> t)
     else if f = ''tags'' then
       (case v of
          VStrings tags \<Rightarrow> t\<lparr>Tags := tags\<rparr>
        | VSlice tags \<Rightarrow> t\<lparr>Tags := map (toString ext) tags\<rparr>
        | _ \<Rightarrow> t)
     else if f = ''type'' then t\<lparr>Type := toString ext v\<rparr>
     else if f = ''bag'' then t\<lparr>Bag := toString ext v\<rparr>
     else if f = ''recipe'' then t\<lparr>Recipe := toString ext v\<rparr>
     else if f = ''permissions'' then t\<lparr>Permissions := toString ext v\<rparr>
     else if f = ''creator'' then t\<lparr>Creator := toString ext v\<rparr>
     else if f = ''created'' then t\<lparr>Created := toString ext v\<rparr>
     else if f = ''modifier'' then t\<lparr>Modifier := toString ext v\<rparr>
     else if f = ''modified'' then t\<lparr>Modified := toString ext v\<rparr>
     else if f = ''text'' then t
     else if f = ''fields'' then t
     else t\<lparr>Fields := AList.update f v (Fields t)\<rparr>)"

definition TiddlerMeta_MergeFrom ::
  "'tm extern \<Rightarrow> gomap \<Rightarrow> ('tm, 'z) TiddlerMeta_scheme \<Rightarrow> ('tm, 'z) TiddlerMeta_scheme" where
  "TiddlerMeta_MergeFrom ext tiddlerMeta t =
     fold (merge_entry ext) tiddlerMeta
       (t\<lparr>Fields := (case map_of tiddlerMeta ''fields'' of Some (VMap fs) \<Rightarrow> fs | _ \<Rightarrow> [])\<rparr>)"

definition MergeFrom :: "'tm extern \<Rightarrow> gomap \<Rightarrow> 'tm Tiddler \<Rightarrow> 'tm Tiddler" where
  "MergeFrom ext tiddlerMeta t = (let t' = TiddlerMeta_MergeFrom ext tiddlerMeta t in
     case map_of tiddlerMeta ''text'' of Some tx \<Rightarrow> t'\<lparr>Text := toString ext tx\<rparr> | None \<Rightarrow> t')"

definition addIfNonEmpty :: "string \<Rightarrow> string \<Rightarrow> gomap \<Rightarrow> gomap" where
  "addIfNonEmpty field val obj = (if val \<noteq> [] then AList.update field (VString val) obj else obj)"

definition ToJSONObject :: "'tm extern \<Rightarrow> 'tm Tiddler \<Rightarrow> error + gomap" where
  "ToJSONObject ext t =
     (let obj = fold (\<lambda>e. AList.update (fst e) (snd e)) (Fields t) [];
          obj = AList.update ''title'' (VString (Title t)) obj
      in case time_MarshalText ext (Revision t) of
           Inl err \<Rightarrow> Inl err
         | Inr revtext \<Rightarrow>
            (let obj = AList.update ''revision'' (VString revtext) obj;
                 obj = addIfNonEmpty ''tiddlykeep-ref'' (blob_String ext (Ref t)) obj;
                 obj = addIfNonEmpty ''bag'' (Bag t) obj;
                 obj = addIfNonEmpty ''recipe'' (Recipe t) obj;
                 obj = addIfNonEmpty ''type'' (Type t) obj;
                 obj = addIfNonEmpty ''text'' (Text t) obj;
                 obj = addIfNonEmpty ''permissions'' (Permissions t) obj;
                 obj = addIfNonEmpty ''created'' (Created t) obj;
                 obj = addIfNonEmpty ''creator'' (Creator t) obj;
                 obj = addIfNonEmpty ''modified'' (Modified t) obj;
                 obj = addIfNonEmpty ''modifier'' (Modifier t) obj
             in Inr (if Tags t \<noteq> [] then AList.update ''tags'' (VStrings (Tags t)) obj else obj)))"

definition MarshalJSON :: "'tm extern \<Rightarrow> 'tm Tiddler \<Rightarrow> error + string" where
  "MarshalJSON ext t = (case ToJSONObject ext t of Inl err \<Rightarrow> Inl err | Inr obj \<Rightarrow> json_Marshal ext obj)"

text \<open>\<open>UnmarshalJSON\<close> merges into its receiver \<open>t\<close>; decoding afresh starts from \<open>Tiddler_zero\<close>.\<close>

definition UnmarshalJSON :: "'tm extern \<Rightarrow> string \<Rightarrow> 'tm Tiddler \<Rightarrow> error + 'tm Tiddler" where
  "UnmarshalJSON ext data t =
     (case json_Unmarshal ext data of Inl err \<Rightarrow> Inl err | Inr tiddlerMeta \<Rightarrow> Inr (MergeFrom ext tiddlerMeta t))"

section \<open>Keys and values of the JSON form\<close>

text \<open>
  The keys \<open>MergeFrom\<close> never stores among the fields, and what \<open>encoding/json\<close> gives back
  for a value it wrote: a \<open>[]string\<close> comes back as a \<open>[]interface{}\<close> of strings, slices and
  maps element by element, anything else as itself. \<open>json_entries\<close> are the entries of an
  object with each value as it comes back.
\<close>

definition reserved_keys :: "string set" where
  "reserved_keys = set [''title'', ''revision'', ''tags'', ''type'', ''bag'', ''recipe'',
     ''permissions'', ''creator'', ''created'', ''modifier'', ''modified'', ''text'', ''fields'']"

fun json_view :: "iface \<Rightarrow> iface" where
  "json_view (VStrings ss) = VSlice (map VString ss)"
| "json_view (VSlice vs) = VSlice (map json_view vs)"
| "json_view (VMap kvs) = VMap (map (\<lambda>kv. (fst kv, json_view (snd kv))) kvs)"
| "json_view v = v"

definition json_entries :: "gomap \<Rightarrow> gomap" where
  "json_entries obj = map (\<lambda>kv. (fst kv, json_view (snd kv))) obj"

text \<open>
  The object \<open>ToJSONObject\<close> builds, as a map: the fields, then the title and the text of the
  revision, then each string that is written only when it is not empty, then the tags.
\<close>

definition put_nonempty :: "string \<Rightarrow> string \<Rightarrow> (string \<rightharpoonup> iface) \<Rightarrow> (string \<rightharpoonup> iface)" where
  "put_nonempty f v m = (if v \<noteq> [] then m(f \<mapsto> VString v) else m)"

definition encoded_map :: "'tm extern \<Rightarrow> 'tm Tiddler \<Rightarrow> string \<Rightarrow> (string \<rightharpoonup> iface)" where
  "encoded_map ext t revtext =
     (let m = (map_of (Fields t))(''title'' \<mapsto> VString (Title t), ''revision'' \<mapsto> VString revtext);
          m = put_nonempty ''tiddlykeep-ref'' (blob_String ext (Ref t)) m;
          m = put_nonempty ''bag'' (Bag t) m;
          m = put_nonempty ''recipe'' (Recipe t) m;
          m = put_nonempty ''type'' (Type t) m;
          m = put_nonempty ''text'' (Text t) m;
          m = put_nonempty ''permissions'' (Permissions t) m;
          m = put_nonempty ''created'' (Created t) m;
          m = put_nonempty ''creator'' (Creator t) m;
          m = put_nonempty ''modified'' (Modified t) m;
          m = put_nonempty ''modifier'' (Modifier t) m
      in if Tags t \<noteq> [] then m(''tags'' \<mapsto> VStrings (Tags t)) else m)"

section \<open>The text form\<close>

text \<open>
  The functions of package \<open>strings\<close> the decoder uses, on byte strings. \<open>index_of sep s\<close>
  cuts \<open>s\<close> at the first occurrence of \<open>sep\<close>; \<open>SplitN2\<close> is \<open>strings.SplitN(s, sep, 2)\<close>
  and \<open>Split_on\<close> is \<open>strings.Split\<close> for a separator of one byte.
\<close>

definition HasPrefix :: "string \<Rightarrow> string \<Rightarrow> bool" where
  "HasPrefix s p = (take (length p) s = p)"

definition HasSuffix :: "string \<Rightarrow> string \<Rightarrow> bool" where
  "HasSuffix s p = (length p \<le> length s \<and> drop (length s - length p) s = p)"

definition TrimPrefix :: "string \<Rightarrow> string \<Rightarrow> string" where
  "TrimPrefix s p = (if HasPrefix s p then drop (length p) s else s)"

definition TrimSuffix :: "string \<Rightarrow> string \<Rightarrow> string" where
  "TrimSuffix s p = (if HasSuffix s p then take (length s - length p) s else s)"

text \<open>
  \<open>strings.TrimSpace\<close> removes from both ends the runes for which \<open>unicode.IsSpace\<close> holds,
  decoding the bytes as UTF-8: a rune is removed at an end exactly when the string begins or
  ends with its encoding, and bytes that are no valid encoding decode to \<open>U+FFFD\<close>, which is
  no space. \<open>space_runes\<close> lists the encodings: the six of one byte (tab, line feed, vertical
  tab, form feed, carriage return, space), \<open>U+0085\<close>, \<open>U+00A0\<close>, \<open>U+1680\<close>, \<open>U+2000\<close> to
  \<open>U+200A\<close>, \<open>U+2028\<close>, \<open>U+2029\<close>, \<open>U+202F\<close>, \<open>U+205F\<close> and \<open>U+3000\<close>.
\<close>

definition space_runes :: "string list" where
  "space_runes =
     map (\<lambda>c. [c]) [CHR 0x09, CHR 0x0A, CHR 0x0B, CHR 0x0C, CHR 0x0D, CHR 0x20] @
     [[CHR 0xC2, CHR 0x85], [CHR 0xC2, CHR 0xA0], [CHR 0xE1, CHR 0x9A, CHR 0x80]] @
     map (\<lambda>c. [CHR 0xE2, CHR 0x80, c])
       [CHR 0x80, CHR 0x81, CHR 0x82, CHR 0x83, CHR 0x84, CHR 0x85, CHR 0x86, CHR 0x87,
        CHR 0x88, CHR 0x89, CHR 0x8A, CHR 0xA8, CHR 0xA9, CHR 0xAF] @
     [[CHR 0xE2, CHR 0x81, CHR 0x9F], [CHR 0xE3, CHR 0x80, CHR 0x80]]"

function TrimLeftSpace :: "string \<Rightarrow> string" where
  "TrimLeftSpace s = (case find (HasPrefix s) space_runes of
       None \<Rightarrow> s
     | Some p \<Rightarrow> TrimLeftSpace (drop (length p) s))"
  by pat_completeness auto
termination
proof (relation "measure length")
  show "wf (measure length)" by simp
next
  fix s p
  assume "find (HasPrefix s) space_runes = Some p"
  then have "p \<in> set space_runes" and "HasPrefix s p"
    by (auto simp: find_Some_iff)
  then have "p \<noteq> []" and "take (length p) s = p"
    by (auto simp: space_runes_def HasPrefix_def)
  then have "s \<noteq> []" by auto
  with \<open>p \<noteq> []\<close> show "(drop (length p) s, s) \<in> measure length" by simp
qed

function TrimRightSpace :: "string \<Rightarrow> string" where
  "TrimRightSpace s = (case find (HasSuffix s) space_runes of
       None \<Rightarrow> s
     | Some p \<Rightarrow> TrimRightSpace (take (length s - length p) s))"
  by pat_completeness auto
termination
proof (relation "measure length")
  show "wf (measure length)" by simp
next
  fix s p
  assume "find (HasSuffix s) space_runes = Some p"
  then have "p \<in> set space_runes" and "HasSuffix s p"
    by (auto simp: find_Some_iff)
  then have "p \<noteq> []" and "length p \<le> length s"
    by (auto simp: space_runes_def HasSuffix_def)
  then show "(take (length s - length p) s, s) \<in> measure length" by (cases s) auto
qed

definition TrimSpace :: "string \<Rightarrow> string" where
  "TrimSpace s = TrimRightSpace (TrimLeftSpace s)"

fun index_of :: "string \<Rightarrow> string \<Rightarrow> (string \<times> string) option" where
  "index_of sep [] = (if sep = [] then Some ([], []) else None)"
| "index_of sep (c # cs) =
     (if HasPrefix (c # cs) sep then Some ([], drop (length sep) (c # cs))
      else (case index_of sep cs of None \<Rightarrow> None | Some (a, b) \<Rightarrow> Some (c # a, b)))"

definition SplitN2 :: "string \<Rightarrow> string \<Rightarrow> string list" where
  "SplitN2 s sep = (case index_of sep s of None \<Rightarrow> [s] | Some (a, b) \<Rightarrow> [a, b])"

fun Split_on :: "char \<Rightarrow> string \<Rightarrow> string list" where
  "Split_on d [] = [[]]"
| "Split_on d (c # cs) =
     (if c = d then [] # Split_on d cs
      else (case Split_on d cs of [] \<Rightarrow> [[c]] | w # ws \<Rightarrow> (c # w) # ws))"

text \<open>
  \<open>bufio.Reader.ReadLine\<close> on a reader of the default size (4096 bytes) over the bytes still
  unread: end of input is \<open>io.EOF\<close>; a line feed among the next 4096 bytes ends the line,
  which is returned without it and without a carriage return before it; with no line feed
  there, a full buffer is returned as a prefix and a shorter rest as the last line. The
  result is the line with the prefix flag, or the error, and the bytes left unread.
\<close>

definition ReadLine :: "string \<Rightarrow> (error + string \<times> bool) \<times> string" where
  "ReadLine s =
     (if s = [] then (Inl EOF, s)
      else let buf = take 4096 s; line = takeWhile (\<lambda>c. c \<noteq> CHR 0x0A) buf in
        if length line < length buf then
          (Inr (if line \<noteq> [] \<and> last line = CHR 0x0D then butlast line else line, False),
           drop (Suc (length line)) s)
        else if length buf = 4096 then
          (if last buf = CHR 0x0D then (Inr (butlast buf, True), drop 4095 s)
           else (Inr (buf, True), drop 4096 s))
        else (Inr (buf, False), []))"

text \<open>The loop over the tokens of a \<open>tags\<close> header: the state is \<open>tags\<close> and the open span \<open>tag\<close>.\<close>

definition tags_token :: "string \<Rightarrow> string list \<times> string \<Rightarrow> string list \<times> string" where
  "tags_token t st = (let tags = fst st; tag = snd st; trimmed = TrimSpace t in
     if tag = [] \<and> \<not> HasPrefix trimmed ''[['' then (tags @ [trimmed], tag)
     else let tag = tag @ '' '' @ t in
       if HasSuffix trimmed '']]''
       then (tags @ [TrimSuffix (TrimPrefix (TrimSpace tag) ''[['') '']]''], [])
       else (tags, tag))"

definition parse_tags :: "string \<Rightarrow> string list" where
  "parse_tags p1 = (let st = fold tags_token (Split_on CHR 0x20 p1) ([], []) in
     if snd st \<noteq> [] then fst st @ [TrimPrefix (TrimSpace (snd st)) ''[['']
     else fst st)"

text \<open>
  The loop over the header lines of \<open>UnmarshalText\<close>: it returns the object built and the
  bytes after the blank line, or the error that ends decoding.
\<close>

function read_headers :: "gomap \<Rightarrow> string \<Rightarrow> error + gomap \<times> string" where
  "read_headers obj s =
     (case ReadLine s of
        (Inl err, rest) \<Rightarrow> Inl err
      | (Inr (b, isPrefix), rest) \<Rightarrow>
          if isPrefix then Inl LineTooBig
          else if b = [] then Inr (obj, rest)
          else (case SplitN2 b '': '' of
                  [p0, p1] \<Rightarrow>
                    if p0 = ''tags''
                    then read_headers (AList.update ''tags'' (VStrings (parse_tags p1)) obj) rest
                    else read_headers (AList.update p0 (VString p1) obj) rest
                | _ \<Rightarrow> Inl (MalformattedField b)))"
  by pat_completeness auto
termination
proof (relation "measure (\<lambda>(obj, s). length s)")
  show "wf (measure (\<lambda>(obj, s). length s))" by simp
next
  fix obj s x1 rest x1a b isPrefix
  assume "(x1, rest) = ReadLine s" and "x1 = Inr x1a" and "(b, isPrefix) = x1a"
  then have "ReadLine s = (Inr (b, isPrefix), rest)" by simp
  then have "length rest < length s"
    by (auto simp: ReadLine_def Let_def split: if_splits)
  then show "((AList.update ''tags'' (VStrings (parse_tags p1)) obj, rest), (obj, s))
      \<in> measure (\<lambda>(obj, s). length s)" for p1
    by simp
  from \<open>length rest < length s\<close>
  show "((AList.update p0 (VString p1) obj, rest), (obj, s)) \<in> measure (\<lambda>(obj, s). length s)" for p0 p1
    by simp
qed

definition UnmarshalText :: "'tm extern \<Rightarrow> string \<Rightarrow> 'tm Tiddler \<Rightarrow> error + 'tm Tiddler" where
  "UnmarshalText ext data t =
     (case read_headers [] data of
        Inl err \<Rightarrow> Inl err
      | Inr (obj, rest) \<Rightarrow> Inr (MergeFrom ext (AList.update ''text'' (VString rest) obj) t))"

section \<open>Resolving references\<close>

record 'tm TiddlyKeep =
  Client :: "'tm Client"
  HideTiddlers :: string
  EmbedTiddlers :: string

definition systemTiddlerPrefix :: string where
  "systemTiddlerPrefix = ''$:/''"

definition tiddlerPermanodeAttrs :: "string list" where
  "tiddlerPermanodeAttrs = [''title'', ''tiddlerBag'', ''tiddlerMeta'', ''camliContent'', ''tag'']"

definition getFirst :: "string list \<Rightarrow> string" where
  "getFirst ss = (case ss of [] \<Rightarrow> [] | x # _ \<Rightarrow> x)"

text \<open>\<open>search.MetaMap.Get\<close>: the entry under the string of a valid ref.\<close>

definition MetaMap_Get ::
  "'tm extern \<Rightarrow> (string \<Rightarrow> 'tm DescribedBlob option) \<Rightarrow> blob_Ref \<Rightarrow> 'tm DescribedBlob option" where
  "MetaMap_Get ext m br = (if Valid br then m (blob_String ext br) else None)"

definition searchTiddlers :: "'tm TiddlyKeep \<Rightarrow> Constraint \<Rightarrow> bool \<Rightarrow> 'tm SearchResult io" where
  "searchTiddlers k c includeMissingMeta =
     do_Query (Client k)
       (if \<not> includeMissingMeta then Logical_and (Permanode_NumValue_Min ''tiddlerMeta'' 1) c else c)
       tiddlerPermanodeAttrs"

definition constructTiddlerRef ::
  "('tm::zero) extern \<Rightarrow> blob_Ref \<Rightarrow> 'tm DescribedBlob option \<Rightarrow> 'tm TiddlerRef" where
  "constructTiddlerRef ext ref d = (let t = TiddlerRef_zero\<lparr>Ref := ref\<rparr> in
     case d of
       None \<Rightarrow> t
     | Some db \<Rightarrow>
        (case Permanode db of
           None \<Rightarrow> t
         | Some pn \<Rightarrow>
             t\<lparr>Revision := ModTime pn,
               Title := getFirst (Attr pn ''title''),
               Bag := getFirst (Attr pn ''tiddlerBag''),
               MetaRef := blob_ParseOrZero ext (getFirst (Attr pn ''tiddlerMeta'')),
               TextRef := blob_ParseOrZero ext (getFirst (Attr pn ''camliContent'')),
               Tags := Attr pn ''tag''\<rparr>))"

text \<open>\<open>fmt.Errorf("error setting ...: %v", err)\<close> around a failed call.\<close>

definition wrap_error :: "(error \<Rightarrow> error) \<Rightarrow> 'a io \<Rightarrow> 'a io" where
  "wrap_error f m h = (case m h of (Inl e, h') \<Rightarrow> (Inl (f e), h') | (Inr a, h') \<Rightarrow> (Inr a, h'))"

text \<open>The tail of \<open>getTiddlerPermanode\<close>: a new node with its title, bag and visibility claims.\<close>

definition createPermanode ::
  "'tm TiddlyKeep \<Rightarrow> 'tm TiddlerRef \<Rightarrow> (blob_Ref \<times> 'tm DescribedBlob option) io" where
  "createPermanode k r0 = (let r = (if Bag r0 = [] then r0\<lparr>Bag := ''default''\<rparr> else r0) in
     bind (do_UploadNewPermanode (Client k)) (\<lambda>permaNode.
     bind (wrap_error (ErrorSetting ''title'')
            (do_UploadAndSignBlob (Client k) (SetAttributeClaim permaNode ''title'' (Title r)))) (\<lambda>_.
     bind (wrap_error (ErrorSetting ''tiddlerBag'')
            (do_UploadAndSignBlob (Client k) (SetAttributeClaim permaNode ''tiddlerBag'' (Bag r)))) (\<lambda>_.
     bind (if HideTiddlers k = ''system'' \<and> HasPrefix (Title r) systemTiddlerPrefix
              \<or> HideTiddlers k = ''all''
           then wrap_error (ErrorSetting ''camliDefVis'')
                  (do_UploadAndSignBlob (Client k) (SetAttributeClaim permaNode ''camliDefVis'' ''hide''))
           else ret ()) (\<lambda>_.
     ret (permaNode, None))))))"

text \<open>
  \<open>getTiddlerPermanode\<close> returns the node and its description, or the error; the ref it
  returns beside an error is dropped by its only caller. After the search, a result with
  an error or with no blob is one case: not found, or the creation of a node.
\<close>

definition bagConstraint :: "'tm TiddlerRef \<Rightarrow> error + Constraint" where
  "bagConstraint r =
     (if Bag r \<noteq> [] then Inr (Permanode_Value ''tiddlerBag'' (Bag r))
      else if Recipe r = ''all'' \<or> Recipe r = ''system''
        then Inr (Permanode_NumValue_Min ''tiddlerBag'' 1)
      else Inl (RecipeNotSupported (Recipe r)))"

definition getTiddlerPermanode ::
  "'tm extern \<Rightarrow> 'tm TiddlyKeep \<Rightarrow> 'tm TiddlerRef \<Rightarrow> bool \<Rightarrow> (blob_Ref \<times> 'tm DescribedBlob option) io" where
  "getTiddlerPermanode ext k r createMissing =
     (if Valid (Ref r) then
        bind (do_Describe (Client k) (Ref r) tiddlerPermanodeAttrs)
          (\<lambda>desc. ret (Ref r, MetaMap_Get ext (Meta desc) (Ref r)))
      else if Title r = [] then fail MissingTitle
      else if Bag r = [] \<and> Recipe r = [] then fail (MissingBagRecipe (Title r))
      else (case bagConstraint r of
         Inl err \<Rightarrow> fail err
       | Inr bc \<Rightarrow> (\<lambda>h.
          let q = searchTiddlers k (Logical_and (Permanode_Value ''title'' (Title r)) bc) True h;
              h' = snd q
          in case fst q of
               Inr res \<Rightarrow>
                 (case Blobs res of
                    b # _ \<Rightarrow>
                      (case Describe res of
                         None \<Rightarrow> fail NilDereference h'
                       | Some desc \<Rightarrow> ret (b, MetaMap_Get ext (Meta desc) b) h')
                  | [] \<Rightarrow>
                      if \<not> createMissing then fail (TiddlerNotFound (Title r)) h'
                      else createPermanode k r h')
             | Inl err \<Rightarrow>
                 if \<not> createMissing then fail (TiddlerNotFound (Title r)) h'
                 else createPermanode k r h')))"

text \<open>\<open>ResolveRef\<close> writes the resolved ref through its pointer; the model returns it.\<close>

definition ResolveRef ::
  "('tm::zero) extern \<Rightarrow> 'tm TiddlyKeep \<Rightarrow> 'tm TiddlerRef \<Rightarrow> bool \<Rightarrow> 'tm TiddlerRef io" where
  "ResolveRef ext k r createMissing =
     (if Valid (Ref r) \<and> Valid (TextRef r) \<and> Valid (MetaRef r) then ret r
      else bind (getTiddlerPermanode ext k r createMissing)
             (\<lambda>p. ret (constructTiddlerRef ext (fst p) (snd p))))"

definition resolveRef ::
  "('tm::zero) extern \<Rightarrow> 'tm TiddlyKeep \<Rightarrow> 'tm TiddlerRef \<Rightarrow> bool \<Rightarrow> 'tm TiddlerRef io" where
  "resolveRef ext k r createMissing = ResolveRef ext k r createMissing"

section \<open>The store operations\<close>

text \<open>The table \<open>textEncoding\<close>; a type that is not listed gives the empty string.\<close>

definition textEncoding :: "string \<Rightarrow> string" where
  "textEncoding ty = (case map_of
     [(''text/vnd.tiddlywiki'', ''utf8''),
      (''application/x-tiddler'', ''utf8''),
      (''application/x-tiddlers'', ''utf8''),
      (''application/x-tiddler-html-div'', ''utf8''),
      (''text/vnd.tiddlywiki2-recipe'', ''utf8''),
      (''text/plain'', ''utf8''),
      (''text/css'', ''utf8''),
      (''text/html'', ''utf8''),
      (''application/hta'', ''utf16le''),
      (''application/javascript'', ''utf8''),
      (''application/json'', ''utf8''),
      (''application/pdf'', ''base64''),
      (''application/zip'', ''base64''),
      (''image/jpeg'', ''base64''),
      (''image/png'', ''base64''),
      (''image/gif'', ''base64''),
      (''image/svg+xml'', ''utf8''),
      (''image/x-icon'', ''base64''),
      (''application/font-woff'', ''base64''),
      (''application/x-font-ttf'', ''base64''),
      (''audio/ogg'', ''base64''),
      (''video/mp4'', ''base64''),
      (''audio/mp3'', ''base64''),
      (''audio/mp4'', ''base64''),
      (''text/markdown'', ''utf8''),
      (''text/x-markdown'', ''utf8''),
      (''application/enex+xml'', ''utf8''),
      (''application/vnd.openxmlformats-officedocument.wordprocessingml.document'', ''base64''),
      (''application/vnd.openxmlformats-officedocument.spreadsheetml.sheet'', ''base64''),
      (''application/vnd.openxmlformats-officedocument.presentationml.presentation'', ''base64''),
      (''text/x-bibtex'', ''utf8''),
      (''application/x-bibtex'', ''utf8''),
      (''application/epub+zip'', ''base64''),
      (''application/octet-stream'', ''base64'')] ty
     of None \<Rightarrow> [] | Some enc \<Rightarrow> enc)"

text \<open>\<open>uploadBlob\<close>: the ref of the hash of the bytes goes into the upload handle.\<close>

definition uploadBlob :: "'tm extern \<Rightarrow> 'tm Client \<Rightarrow> string \<Rightarrow> blob_Ref io" where
  "uploadBlob ext c data = do_Upload c (blob_RefFromHash ext data) data"

text \<open>The two guarded content claims of \<open>PutTiddler\<close>.\<close>

definition claimIfChanged :: "'tm extern \<Rightarrow> 'tm Client \<Rightarrow> blob_Ref \<Rightarrow> string \<Rightarrow> blob_Ref \<Rightarrow> blob_Ref \<Rightarrow> unit io" where
  "claimIfChanged ext c node attr uploaded current =
     (if uploaded \<noteq> current
      then do_UploadAndSignBlob c (SetAttributeClaim node attr (blob_String ext uploaded))
      else ret ())"

text \<open>
  The steps of \<open>PutTiddler\<close> before its first call: the default bag, the object of the
  metadata blob (the JSON object without six of its keys), the bytes of the body and the ref
  to resolve.
\<close>

definition withDefaultBag :: "'tm Tiddler \<Rightarrow> 'tm Tiddler" where
  "withDefaultBag t = (if Bag t = [] then t\<lparr>Bag := ''default''\<rparr> else t)"

definition metaObject :: "gomap \<Rightarrow> gomap" where
  "metaObject obj =
     AList.delete ''tiddlykeep-ref'' (AList.delete ''text'' (AList.delete ''tags''
       (AList.delete ''revision'' (AList.delete ''recipe'' (AList.delete ''bag'' obj)))))"

definition decodedText :: "'tm extern \<Rightarrow> 'tm Tiddler \<Rightarrow> error + string" where
  "decodedText ext t =
     (if textEncoding (Type t) = ''base64'' then base64_DecodeString ext (Text t) else Inr (Text t))"

definition refToResolve :: "('tm::zero) Tiddler \<Rightarrow> 'tm TiddlerRef" where
  "refToResolve t = TiddlerRef_zero\<lparr>Ref := Ref t, Title := Title t, Bag := Bag t, Recipe := Recipe t\<rparr>"

text \<open>
  \<open>PutTiddler\<close> sets the bag of its argument through the pointer; the model returns the
  tiddler as the caller sees it afterwards.
\<close>

definition PutTiddler ::
  "('tm::zero) extern \<Rightarrow> (string set \<Rightarrow> string list) \<Rightarrow> 'tm TiddlyKeep \<Rightarrow> 'tm Tiddler \<Rightarrow> 'tm Tiddler io" where
  "PutTiddler ext rng k t0 = (let t = withDefaultBag t0 in
     case ToJSONObject ext t of
       Inl err \<Rightarrow> fail err
     | Inr obj \<Rightarrow>
        (case json_Marshal ext (metaObject obj) of
           Inl err \<Rightarrow> fail err
         | Inr meta \<Rightarrow>
            (case decodedText ext t of
               Inl err \<Rightarrow> fail err
             | Inr decoded \<Rightarrow>
                 bind (do_UploadFile (Client k) [] decoded) (\<lambda>textBlobRef.
                 bind (uploadBlob ext (Client k) meta) (\<lambda>metaBlobRef.
                 bind (resolveRef ext k (refToResolve t) True) (\<lambda>existing.
                 bind (claimIfChanged ext (Client k) (Ref existing) ''camliContent''
                        textBlobRef (TextRef existing)) (\<lambda>_.
                 bind (claimIfChanged ext (Client k) (Ref existing) ''tiddlerMeta''
                        metaBlobRef (MetaRef existing)) (\<lambda>_.
                 bind (updateTags rng (Client k) (Ref existing)
                        (stringset_New (Tags existing)) (stringset_New (Tags t))) (\<lambda>_.
                 ret t)))))))))"

definition DeleteTiddler :: "('tm::zero) extern \<Rightarrow> 'tm TiddlyKeep \<Rightarrow> 'tm TiddlerRef \<Rightarrow> unit io" where
  "DeleteTiddler ext k ref =
     bind (resolveRef ext k ref False) (\<lambda>r. do_UploadAndSignBlob (Client k) (DeleteClaim (Ref r)))"

definition AlwaysIncludeText :: "'tm Tiddler \<Rightarrow> bool" where
  "AlwaysIncludeText t = True"

definition NeverIncludeText :: "'tm Tiddler \<Rightarrow> bool" where
  "NeverIncludeText t = False"

definition GetTiddler ::
  "('tm::zero) extern \<Rightarrow> 'tm TiddlyKeep \<Rightarrow> 'tm TiddlerRef \<Rightarrow> ('tm Tiddler \<Rightarrow> bool) \<Rightarrow> 'tm Tiddler io" where
  "GetTiddler ext k ref0 textFilter =
     bind (resolveRef ext k ref0 False) (\<lambda>ref.
       if \<not> Valid (MetaRef ref) \<or> Title ref = [] then fail RefTiddlerNotFound
       else bind (do_Fetch (Client k) (MetaRef ref)) (\<lambda>data.
         case json_Unmarshal ext data of
           Inl err \<Rightarrow> fail err
         | Inr tiddlerMeta \<Rightarrow>
            (let tiddler = MergeFrom ext tiddlerMeta (Tiddler_of_ref ref) in
             if textFilter tiddler then
               bind (do_FetchFile (Client k) (TextRef ref)) (\<lambda>data.
                 ret (tiddler\<lparr>Text := (if textEncoding (Type tiddler) = ''base64''
                                          then base64_EncodeToString ext data else data)\<rparr>))
             else ret tiddler)))"

text \<open>The loop of \<open>listRefs\<close> over the blobs of a search result.\<close>

fun getEach ::
  "('tm::zero) extern \<Rightarrow> 'tm TiddlyKeep \<Rightarrow> (string \<Rightarrow> 'tm DescribedBlob option) \<Rightarrow> ('tm Tiddler \<Rightarrow> bool) \<Rightarrow>
     blob_Ref list \<Rightarrow> 'tm Tiddler list \<Rightarrow> 'tm Tiddler list io" where
  "getEach ext k meta textFilter [] tiddlers = ret tiddlers"
| "getEach ext k meta textFilter (b # bs) tiddlers =
     bind (GetTiddler ext k (constructTiddlerRef ext b (meta (blob_String ext b))) textFilter)
       (\<lambda>t. getEach ext k meta textFilter bs (tiddlers @ [t]))"

definition listRefs ::
  "('tm::zero) extern \<Rightarrow> 'tm TiddlyKeep \<Rightarrow> 'tm SearchResult \<Rightarrow> ('tm Tiddler \<Rightarrow> bool) \<Rightarrow> 'tm Tiddler list io" where
  "listRefs ext k res textFilter =
     getEach ext k (case Describe res of None \<Rightarrow> (\<lambda>_. None) | Some desc \<Rightarrow> Meta desc)
       textFilter (Blobs res) []"

definition ListBag ::
  "('tm::zero) extern \<Rightarrow> 'tm TiddlyKeep \<Rightarrow> string \<Rightarrow> ('tm Tiddler \<Rightarrow> bool) \<Rightarrow> 'tm Tiddler list io" where
  "ListBag ext k bag textFilter =
     bind (searchTiddlers k (Permanode_Value ''tiddlerBag'' bag) False)
       (\<lambda>res. listRefs ext k res textFilter)"

definition ListRecipe ::
  "('tm::zero) extern \<Rightarrow> 'tm TiddlyKeep \<Rightarrow> string \<Rightarrow> ('tm Tiddler \<Rightarrow> bool) \<Rightarrow> 'tm Tiddler list io" where
  "ListRecipe ext k recipe textFilter = (let anyBag = Permanode_NumValue_Min ''tiddlerBag'' 1 in
     case (if recipe = ''all'' then Inr anyBag
           else if recipe = ''system''
             then Inr (Logical_and anyBag (Permanode_ValueMatches_HasPrefix ''title'' systemTiddlerPrefix))
           else Inl (UnsupportedRecipeName recipe)) of
       Inl err \<Rightarrow> fail err
     | Inr recipeConstraint \<Rightarrow>
         bind (searchTiddlers k recipeConstraint False) (\<lambda>res. listRefs ext k res textFilter))"

section \<open>The handlers of a single tiddler\<close>

text \<open>\<open>%d\<close> of \<open>fmt.Sprintf\<close> on an \<open>int64\<close>: the decimal digits, with a sign when negative.\<close>

function digits :: "int \<Rightarrow> string" where
  "digits i = (if i < 10 then [''0123456789'' ! nat i]
               else digits (i div 10) @ [''0123456789'' ! nat (i mod 10)])"
  by pat_completeness auto
termination
  by (relation "measure nat") auto

definition fmt_d :: "int \<Rightarrow> string" where
  "fmt_d i = (if i < 0 then ''-'' @ digits (- i) else digits i)"

text \<open>The format string of \<open>constructETag\<close>, field by field.\<close>

definition etag_of :: "'tm extern \<Rightarrow> 'tm TiddlerRef \<Rightarrow> string" where
  "etag_of ext ref = [CHR 0x22] @ Bag ref @ ''/'' @ url_QueryEscape ext (Title ref) @ ''/'' @
     fmt_d (time_Unix ext (Revision ref)) @ '':'' @ blob_String ext (Ref ref) @ [CHR 0x22]"

text \<open>\<open>constructETag\<close> resolves through the pointer: the resolved ref is returned with the tag.\<close>

definition constructETag ::
  "('tm::zero) extern \<Rightarrow> 'tm TiddlyKeep \<Rightarrow> 'tm TiddlerRef \<Rightarrow> (string \<times> 'tm TiddlerRef) io" where
  "constructETag ext k ref0 =
     bind (ResolveRef ext k ref0 False) (\<lambda>ref. ret (etag_of ext ref, ref))"

text \<open>
  What a handler has written to the \<open>http.ResponseWriter\<close> when it returns \<open>nil\<close>: the status
  (200 when no header was written explicitly), the headers it set and the body.
\<close>

record response =
  status :: nat
  headers :: "(string \<times> string) list"
  body :: string

text \<open>
  The handler of \<open>GET /bags/:bag/tiddlers/*tiddler\<close>, from the route parameter, the path of
  the URL and the value of the \<open>If-None-Match\<close> header (empty when absent).
  \<open>Encoder.Encode\<close> writes the JSON of the tiddler and a line feed.
\<close>

definition getBagTiddler ::
  "('tm::zero) extern \<Rightarrow> 'tm TiddlyKeep \<Rightarrow> string \<Rightarrow> string \<Rightarrow> string \<Rightarrow> response io" where
  "getBagTiddler ext k bag path ifNoneMatch =
     (let title = TrimPrefix path (''/bags/'' @ bag @ ''/tiddlers/'');
          ref0 = TiddlerRef_zero\<lparr>Title := title, Bag := bag\<rparr>
      in bind (constructETag ext k ref0) (\<lambda>p.
           let etag = fst p; ref = snd p in
           if ifNoneMatch = etag then ret \<lparr> status = 304, headers = [], body = [] \<rparr>
           else bind (GetTiddler ext k ref AlwaysIncludeText) (\<lambda>t.
             case MarshalJSON ext t of
               Inl err \<Rightarrow> fail err
             | Inr data \<Rightarrow>
                 ret \<lparr> status = 200,
                       headers = [(''Etag'', etag), (''Content-Type'', ''application/json'')],
                       body = data @ [CHR 0x0A] \<rparr>)))"

text \<open>The handler of \<open>GET /recipes/:recipe/tiddlers/*tiddler\<close>.\<close>

definition getRecipeTiddler ::
  "('tm::zero) extern \<Rightarrow> 'tm TiddlyKeep \<Rightarrow> string \<Rightarrow> string \<Rightarrow> string \<Rightarrow> response io" where
  "getRecipeTiddler ext k recipe path ifNoneMatch =
     (let title = TrimPrefix path (''/recipes/'' @ recipe @ ''/tiddlers/'');
          ref0 = TiddlerRef_zero\<lparr>Title := title, Recipe := recipe\<rparr>
      in bind (constructETag ext k ref0) (\<lambda>p.
           let etag = fst p; ref = snd p in
           if ifNoneMatch = etag then ret \<lparr> status = 304, headers = [], body = [] \<rparr>
           else bind (GetTiddler ext k ref AlwaysIncludeText) (\<lambda>t.
             case MarshalJSON ext (t\<lparr>Recipe := recipe\<rparr>) of
               Inl err \<Rightarrow> fail err
             | Inr data \<Rightarrow>
                 ret \<lparr> status = 200,
                       headers = [(''Etag'', etag), (''Content-Type'', ''application/json'')],
                       body = data @ [CHR 0x0A] \<rparr>)))"

text \<open>The ref each of the two handlers builds from its route parameter and the path.\<close>

definition bagAsked :: "string \<Rightarrow> string \<Rightarrow> ('tm::zero) TiddlerRef" where
  "bagAsked bag path =
     TiddlerRef_zero\<lparr>Title := TrimPrefix path (''/bags/'' @ bag @ ''/tiddlers/''), Bag := bag\<rparr>"

definition recipeAsked :: "string \<Rightarrow> string \<Rightarrow> ('tm::zero) TiddlerRef" where
  "recipeAsked recipe path =
     TiddlerRef_zero\<lparr>Title := TrimPrefix path (''/recipes/'' @ recipe @ ''/tiddlers/''), Recipe := recipe\<rparr>"

section \<open>Calls that write\<close>

text \<open>
  The calls that create or change something in the store, and the histories that grow by
  other calls only.
\<close>

fun writes :: "call \<Rightarrow> bool" where
  "writes Call_UploadNewPermanode = True"
| "writes (Call_UploadAndSignBlob cl) = True"
| "writes (Call_Upload r data) = True"
| "writes (Call_UploadFile name data) = True"
| "writes _ = False"

text \<open>A call that signs a set, add or delete claim on the attribute \<open>a\<close>.\<close>

fun claims_attr :: "string \<Rightarrow> call \<Rightarrow> bool" where
  "claims_attr a (Call_UploadAndSignBlob (SetAttributeClaim n a' v)) = (a' = a)"
| "claims_attr a (Call_UploadAndSignBlob (AddAttributeClaim n a' v)) = (a' = a)"
| "claims_attr a (Call_UploadAndSignBlob (DelAttributeClaim n a' v)) = (a' = a)"
| "claims_attr a _ = False"

text \<open>A history that grows by calls none of which claims the attribute \<open>a\<close>.\<close>

definition grows_without :: "string \<Rightarrow> call list \<Rightarrow> call list \<Rightarrow> bool" where
  "grows_without a h h' = (\<exists>tr. h' = h @ tr \<and> (\<forall>c \<in> set tr. \<not> claims_attr a c))"

text \<open>
  The call that signs the claim setting \<open>a\<close> on a node, and the calls of one guarded content
  claim of \<open>PutTiddler\<close>: that call when the uploaded handle differs from the current one.
\<close>

definition content_call :: "string \<Rightarrow> blob_Ref \<Rightarrow> string \<Rightarrow> call" where
  "content_call a node s = Call_UploadAndSignBlob (SetAttributeClaim node a s)"

definition claim_calls :: "'tm extern \<Rightarrow> string \<Rightarrow> blob_Ref \<Rightarrow> blob_Ref \<Rightarrow> blob_Ref \<Rightarrow> call list" where
  "claim_calls ext a node up current =
     (if up \<noteq> current then [content_call a node (blob_String ext up)] else [])"

definition only_reads :: "call list \<Rightarrow> call list \<Rightarrow> bool" where
  "only_reads h h' = (\<exists>tr. h' = h @ tr \<and> (\<forall>c \<in> set tr. \<not> writes c))"

section \<open>A reference store and library values for the examples\<close>

text \<open>
  The examples run on a small store that answers from the history of calls, after section 6
  of the specification: uploads are content-addressed, a node's attributes are the replay of
  the claims signed on it, a query returns the nodes that are not deleted and satisfy the
  constraint, and a description lists the requested attributes. Digests are written as the
  prefix \<open>sha224-\<close> followed by the bytes they stand for, an injective stand-in for the hash.
  Times count seconds from the zero time; the store's clock shows 2019-03-04T05:06:07Z.
\<close>

definition node_ref :: "nat \<Rightarrow> blob_Ref" where
  "node_ref n = DigestRef (''sha224-node'' @ digits (int n))"

definition store_nodes :: "call list \<Rightarrow> blob_Ref list" where
  "store_nodes h = map node_ref [0 ..< length (filter (\<lambda>c. c = Call_UploadNewPermanode) h)]"

definition replay :: "blob_Ref \<Rightarrow> string \<Rightarrow> call \<Rightarrow> string list \<Rightarrow> string list" where
  "replay n a c vs = (case c of
       Call_UploadAndSignBlob (SetAttributeClaim n' a' v) \<Rightarrow> if n' = n \<and> a' = a then [v] else vs
     | Call_UploadAndSignBlob (AddAttributeClaim n' a' v) \<Rightarrow>
         if n' = n \<and> a' = a \<and> v \<notin> set vs then vs @ [v] else vs
     | Call_UploadAndSignBlob (DelAttributeClaim n' a' v) \<Rightarrow>
         if n' = n \<and> a' = a then filter (\<lambda>x. x \<noteq> v) vs else vs
     | _ \<Rightarrow> vs)"

definition store_attrs :: "call list \<Rightarrow> blob_Ref \<Rightarrow> string \<Rightarrow> string list" where
  "store_attrs h n a = fold (replay n a) h []"

definition store_deleted :: "call list \<Rightarrow> blob_Ref \<Rightarrow> bool" where
  "store_deleted h n = (Call_UploadAndSignBlob (DeleteClaim n) \<in> set h)"

fun matches :: "(string \<Rightarrow> string list) \<Rightarrow> Constraint \<Rightarrow> bool" where
  "matches attrs (Logical_and a b) = (matches attrs a \<and> matches attrs b)"
| "matches attrs (Permanode_Value a v) = (v \<in> set (attrs a))"
| "matches attrs (Permanode_NumValue_Min a m) = (m \<le> length (attrs a))"
| "matches attrs (Permanode_ValueMatches_HasPrefix a p) = list_ex (\<lambda>v. HasPrefix v p) (attrs a)"

definition ref_text :: "blob_Ref \<Rightarrow> string" where
  "ref_text r = (case r of ZeroRef \<Rightarrow> ''<invalid-blob.Ref>'' | DigestRef d \<Rightarrow> d)"

definition store_describe :: "call list \<Rightarrow> string list \<Rightarrow> string \<Rightarrow> int DescribedBlob option" where
  "store_describe h attrs s =
     (case find (\<lambda>n. ref_text n = s) (store_nodes h) of
        None \<Rightarrow> None
      | Some n \<Rightarrow> Some \<lparr> Permanode = Some \<lparr>
          Attr = (\<lambda>a. if a \<in> set attrs then store_attrs h n a else []),
          ModTime = 63687272767 \<rparr> \<rparr>)"

definition file_ref :: "string \<Rightarrow> blob_Ref" where
  "file_ref data = DigestRef (''sha224-file:'' @ data)"

definition uploaded :: "blob_Ref \<Rightarrow> call \<Rightarrow> string option" where
  "uploaded r c = (case c of
       Call_Upload r' data \<Rightarrow> if r' = r then Some data else None
     | Call_UploadFile name data \<Rightarrow> if file_ref data = r then Some data else None
     | _ \<Rightarrow> None)"

definition store_fetch :: "call list \<Rightarrow> blob_Ref \<Rightarrow> error + string" where
  "store_fetch h r = (case List.map_filter (uploaded r) h of
       [] \<Rightarrow> Inl (StoreError ''blob not found'')
     | data # _ \<Rightarrow> Inr data)"

definition memStore :: "int Client" where
  "memStore = \<lparr>
     Query = (\<lambda>h q attrs. Inr \<lparr>
        Blobs = filter (\<lambda>n. \<not> store_deleted h n \<and> matches (store_attrs h n) q) (store_nodes h),
        Describe = Some \<lparr> Meta = store_describe h attrs \<rparr> \<rparr>),
     DescribeBlob = (\<lambda>h r attrs. Inr \<lparr> Meta = store_describe h attrs \<rparr>),
     UploadNewPermanode = (\<lambda>h. Inr (node_ref (length (store_nodes h)))),
     UploadAndSignBlob = (\<lambda>h cl. Inr ()),
     Upload = (\<lambda>h r data. Inr r),
     UploadFile = (\<lambda>h name data. Inr (file_ref data)),
     Fetch = store_fetch,
     FetchFile = store_fetch \<rparr>"

text \<open>The reference store with a search that fails, as on a lost connection.\<close>

definition queryDown :: "int Client" where
  "queryDown = memStore\<lparr> Query := (\<lambda>h q attrs. Inl (StoreError ''connection refused'')) \<rparr>"

text \<open>
  The library functions on the values of the examples. The JSON functions are tabulated:
  \<open>marshal_table\<close> pairs a Go map with the text \<open>json.Marshal\<close> writes for it, and
  \<open>unmarshal_table\<close> a text with the map \<open>json.Unmarshal\<close> reads from it.
\<close>

definition marshal_table :: "(gomap \<times> string) list" where
  \<open>marshal_table =
     [([(''title'', VString ''Foo''), (''type'', VString ''text/plain'')],
       ''{"title":"Foo","type":"text/plain"}''),
      ([(''title'', VString ''Foo''), (''revision'', VString ''0001-01-01T00:00:00Z''),
        (''tiddlykeep-ref'', VString ''sha224-node0'')],
       ''{"revision":"0001-01-01T00:00:00Z","tiddlykeep-ref":"sha224-node0","title":"Foo"}''),
      ([(''title'', VString ''Foo''), (''revision'', VString ''2019-03-04T05:06:07Z''),
        (''tiddlykeep-ref'', VString ''sha224-node0''), (''bag'', VString ''default''),
        (''type'', VString ''text/plain''), (''text'', VString ''hello''),
        (''tags'', VStrings [''a'', ''b c''])],
       ''{"bag":"default","revision":"2019-03-04T05:06:07Z","tags":["a","b c"],"text":"hello","tiddlykeep-ref":"sha224-node0","title":"Foo","type":"text/plain"}''),
      ([(''title'', VString ''Foo''), (''revision'', VString ''2019-03-04T05:06:07Z''),
        (''tiddlykeep-ref'', VString ''sha224-node0''), (''bag'', VString ''default''),
        (''recipe'', VString ''all''),
        (''type'', VString ''text/plain''), (''text'', VString ''hello''),
        (''tags'', VStrings [''a'', ''b c''])],
       ''{"bag":"default","recipe":"all","revision":"2019-03-04T05:06:07Z","tags":["a","b c"],"text":"hello","tiddlykeep-ref":"sha224-node0","title":"Foo","type":"text/plain"}''),
      ([(''color'', VString ''red''), (''title'', VString ''Foo''),
        (''revision'', VString ''2019-03-04T05:06:07Z''),
        (''tiddlykeep-ref'', VString ''sha224-node0''), (''bag'', VString ''default''),
        (''type'', VString ''text/plain''), (''text'', VString ''hello''),
        (''tags'', VStrings [''a'', ''b c''])],
       ''{"bag":"default","color":"red","revision":"2019-03-04T05:06:07Z","tags":["a","b c"],"text":"hello","tiddlykeep-ref":"sha224-node0","title":"Foo","type":"text/plain"}'')]\<close>

definition unmarshal_table :: "(string \<times> gomap) list" where
  \<open>unmarshal_table =
     [(''{"title":"Foo","type":"text/plain"}'',
       [(''title'', VString ''Foo''), (''type'', VString ''text/plain'')]),
      (''{"revision":"0001-01-01T00:00:00Z","tiddlykeep-ref":"sha224-node0","title":"Foo"}'',
       [(''revision'', VString ''0001-01-01T00:00:00Z''),
        (''tiddlykeep-ref'', VString ''sha224-node0''), (''title'', VString ''Foo'')]),
      (''{"bag":"default","color":"red","revision":"2019-03-04T05:06:07Z","tags":["a","b c"],"text":"hello","tiddlykeep-ref":"sha224-node0","title":"Foo","type":"text/plain"}'',
       [(''bag'', VString ''default''), (''color'', VString ''red''),
        (''revision'', VString ''2019-03-04T05:06:07Z''),
        (''tags'', VSlice [VString ''a'', VString ''b c'']), (''text'', VString ''hello''),
        (''tiddlykeep-ref'', VString ''sha224-node0''), (''title'', VString ''Foo''),
        (''type'', VString ''text/plain'')]),
      (''{"title":"Foo","revision":"yesterday"}'',
       [(''title'', VString ''Foo''), (''revision'', VString ''yesterday'')])]\<close>

definition lib :: "int extern" where
  "lib = \<lparr>
     time_Parse = (\<lambda>s. if s = ''0001-01-01T00:00:00Z'' then Some 0
                       else if s = ''2019-03-04T05:06:07Z'' then Some 63687272767 else None),
     time_MarshalText = (\<lambda>t. if t = 0 then Inr ''0001-01-01T00:00:00Z''
                       else if t = 63687272767 then Inr ''2019-03-04T05:06:07Z''
                       else Inl (TimeError ''not tabulated'')),
     time_Unix = (\<lambda>t. t - 62135596800),
     blob_String = ref_text,
     blob_ParseOrZero = (\<lambda>s. if HasPrefix s ''sha224-'' then DigestRef s else ZeroRef),
     blob_RefFromHash = (\<lambda>data. DigestRef (''sha224-'' @ data)),
     json_Marshal = (\<lambda>obj. case map_of marshal_table obj of
                       Some s \<Rightarrow> Inr s | None \<Rightarrow> Inl (JSONError ''not tabulated'')),
     json_Unmarshal = (\<lambda>data. if data = ''{'' then Inl (JSONError ''unexpected end of JSON input'')
                       else case map_of unmarshal_table data of
                         Some obj \<Rightarrow> Inr obj | None \<Rightarrow> Inl (JSONError ''not tabulated'')),
     fmt_Sprintf_s = (\<lambda>v. ''%!s(<nil>)''),
     url_QueryEscape = (\<lambda>s. if s = ''Hello World'' then ''Hello+World'' else s),
     base64_DecodeString = (\<lambda>s. if s = ''aGVsbG8='' then Inr ''hello''
                       else Inl (Base64Error ''not tabulated'')),
     base64_EncodeToString = (\<lambda>s. if s = ''hello'' then ''aGVsbG8='' else []) \<rparr>"

definition keep :: "int TiddlyKeep" where
  "keep = \<lparr> Client = memStore, HideTiddlers = ''system'', EmbedTiddlers = [] \<rparr>"

definition foo :: "int Tiddler" where
  "foo = Tiddler_zero\<lparr>Title := ''Foo'', Text := ''hello'', Type := ''text/plain'', Tags := [''a'', ''b c'']\<rparr>"

text \<open>The calls of a first \<open>PutTiddler\<close> of \<open>foo\<close> on the empty store, and the ref of its node afterwards.\<close>

definition hput :: "call list" where
  \<open>hput = [Call_UploadFile [] ''hello'',
     Call_Upload (DigestRef ''sha224-{"title":"Foo","type":"text/plain"}'') ''{"title":"Foo","type":"text/plain"}'',
     Call_Query (Logical_and (Permanode_Value ''title'' ''Foo'') (Permanode_Value ''tiddlerBag'' ''default''))
       [''title'', ''tiddlerBag'', ''tiddlerMeta'', ''camliContent'', ''tag''],
     Call_UploadNewPermanode,
     Call_UploadAndSignBlob (SetAttributeClaim (DigestRef ''sha224-node0'') ''title'' ''Foo''),
     Call_UploadAndSignBlob (SetAttributeClaim (DigestRef ''sha224-node0'') ''tiddlerBag'' ''default''),
     Call_UploadAndSignBlob (SetAttributeClaim (DigestRef ''sha224-node0'') ''camliContent'' ''sha224-file:hello''),
     Call_UploadAndSignBlob (SetAttributeClaim (DigestRef ''sha224-node0'') ''tiddlerMeta'' ''sha224-{"title":"Foo","type":"text/plain"}''),
     Call_UploadAndSignBlob (AddAttributeClaim (DigestRef ''sha224-node0'') ''tag'' ''a''),
     Call_UploadAndSignBlob (AddAttributeClaim (DigestRef ''sha224-node0'') ''tag'' ''b c'')]\<close>

definition fooRef :: "int TiddlerRef" where
  \<open>fooRef = \<lparr> Ref = DigestRef ''sha224-node0'', TextRef = DigestRef ''sha224-file:hello'',
     MetaRef = DigestRef ''sha224-{"title":"Foo","type":"text/plain"}'', Title = ''Foo'', Bag = ''default'',
     Recipe = [], Tags = [''a'', ''b c''], Revision = 63687272767 \<rparr>\<close>

text \<open>
  A node that has a title and a bag and nothing else, the query and the ref that look for
  \<open>Foo\<close> in the bag \<open>default\<close>, and the tiddler read back after the first \<open>PutTiddler\<close>.
\<close>

definition hbare :: "call list" where
  "hbare = [Call_UploadNewPermanode,
     Call_UploadAndSignBlob (SetAttributeClaim (DigestRef ''sha224-node0'') ''title'' ''Foo''),
     Call_UploadAndSignBlob (SetAttributeClaim (DigestRef ''sha224-node0'') ''tiddlerBag'' ''default'')]"

definition fooQuery :: call where
  "fooQuery = Call_Query (Logical_and (Permanode_Value ''title'' ''Foo'')
     (Permanode_Value ''tiddlerBag'' ''default'')) tiddlerPermanodeAttrs"

definition fooAsked :: "int TiddlerRef" where
  "fooAsked = TiddlerRef_zero\<lparr>Title := ''Foo'', Bag := ''default''\<rparr>"

definition fooStored :: "int Tiddler" where
  "fooStored = (Tiddler_of_ref fooRef)\<lparr>Type := ''text/plain'', Text := ''hello''\<rparr>"

text \<open>The tag of that node and the JSON of the tiddler read back.\<close>

definition fooEtag :: string where
  \<open>fooEtag = ''"default/Foo/1551675967:sha224-node0"''\<close>

definition fooJSON :: string where
  \<open>fooJSON = ''{"bag":"default","revision":"2019-03-04T05:06:07Z","tags":["a","b c"],"text":"hello","tiddlykeep-ref":"sha224-node0","title":"Foo","type":"text/plain"}''\<close>

text \<open>
  The same through the recipe \<open>all\<close>: the query of the resolution and the JSON the handler
  of the recipe writes, which names the recipe.
\<close>

definition fooAllQuery :: call where
  "fooAllQuery = Call_Query (Logical_and (Permanode_Value ''title'' ''Foo'')
     (Permanode_NumValue_Min ''tiddlerBag'' 1)) tiddlerPermanodeAttrs"

definition fooAllJSON :: string where
  \<open>fooAllJSON = ''{"bag":"default","recipe":"all","revision":"2019-03-04T05:06:07Z","tags":["a","b c"],"text":"hello","tiddlykeep-ref":"sha224-node0","title":"Foo","type":"text/plain"}''\<close>

text \<open>The tag the node had at an earlier revision, as a client may still hold it.\<close>

definition staleEtag :: string where
  \<open>staleEtag = ''"default/Foo/1551675000:sha224-node0"''\<close>

text \<open>The store of the examples with a search that fails.\<close>

definition keepQueryDown :: "int TiddlyKeep" where
  "keepQueryDown = \<lparr> Client = queryDown, HideTiddlers = ''system'', EmbedTiddlers = [] \<rparr>"


text \<open>
  The metadata blob of \<open>foo\<close>, its JSON object before the six keys are removed, and the
  history after a second \<open>PutTiddler\<close> of it.
\<close>

definition fooMeta :: string where
  \<open>fooMeta = ''{"title":"Foo","type":"text/plain"}''\<close>

definition fooObject :: gomap where
  "fooObject = [(''title'', VString ''Foo''), (''revision'', VString ''0001-01-01T00:00:00Z''),
     (''tiddlykeep-ref'', VString ''<invalid-blob.Ref>''), (''bag'', VString ''default''),
     (''type'', VString ''text/plain''), (''text'', VString ''hello''),
     (''tags'', VStrings [''a'', ''b c''])]"

definition hput2 :: "call list" where
  "hput2 = hput @ [Call_UploadFile [] ''hello'',
     Call_Upload (DigestRef (''sha224-'' @ fooMeta)) fooMeta, fooQuery]"

text \<open>
  The history after a second \<open>PutTiddler\<close> of \<open>foo\<close> during which the search fails: the same
  three calls, then a new node with its title and bag, the two content claims and the tags.
\<close>

definition hputDown :: "call list" where
  "hputDown = hput @ [Call_UploadFile [] ''hello'',
     Call_Upload (DigestRef (''sha224-'' @ fooMeta)) fooMeta, fooQuery,
     Call_UploadNewPermanode,
     Call_UploadAndSignBlob (SetAttributeClaim (node_ref 1) ''title'' ''Foo''),
     Call_UploadAndSignBlob (SetAttributeClaim (node_ref 1) ''tiddlerBag'' ''default''),
     Call_UploadAndSignBlob (SetAttributeClaim (node_ref 1) ''camliContent'' ''sha224-file:hello''),
     Call_UploadAndSignBlob (SetAttributeClaim (node_ref 1) ''tiddlerMeta'' (''sha224-'' @ fooMeta)),
     Call_UploadAndSignBlob (AddAttributeClaim (node_ref 1) ''tag'' ''a''),
     Call_UploadAndSignBlob (AddAttributeClaim (node_ref 1) ''tag'' ''b c'')]"

text \<open>
  A JSON text whose revision is not a timestamp; a tiddler that carries a storage ref, its
  JSON and what decoding that JSON gives; and the same for a tiddler with a field, with the
  object written, the map read back and the tiddler decoded.
\<close>

definition badRevisionJSON :: string where
  \<open>badRevisionJSON = ''{"title":"Foo","revision":"yesterday"}''\<close>

definition refTiddler :: "int Tiddler" where
  "refTiddler = Tiddler_zero\<lparr>Ref := node_ref 0, Title := ''Foo''\<rparr>"

definition refJSON :: string where
  \<open>refJSON = ''{"revision":"0001-01-01T00:00:00Z","tiddlykeep-ref":"sha224-node0","title":"Foo"}''\<close>

definition refDecoded :: "int Tiddler" where
  "refDecoded = Tiddler_zero\<lparr>Title := ''Foo'', Fields := [(''tiddlykeep-ref'', VString ''sha224-node0'')]\<rparr>"

definition colorTiddler :: "int Tiddler" where
  "colorTiddler = fooStored\<lparr>Fields := [(''color'', VString ''red'')]\<rparr>"

definition colorJSON :: string where
  \<open>colorJSON = ''{"bag":"default","color":"red","revision":"2019-03-04T05:06:07Z","tags":["a","b c"],"text":"hello","tiddlykeep-ref":"sha224-node0","title":"Foo","type":"text/plain"}''\<close>

definition colorObject :: gomap where
  "colorObject = [(''color'', VString ''red''), (''title'', VString ''Foo''),
     (''revision'', VString ''2019-03-04T05:06:07Z''),
     (''tiddlykeep-ref'', VString ''sha224-node0''), (''bag'', VString ''default''),
     (''type'', VString ''text/plain''), (''text'', VString ''hello''),
     (''tags'', VStrings [''a'', ''b c''])]"

definition colorRead :: gomap where
  "colorRead = [(''bag'', VString ''default''), (''color'', VString ''red''),
     (''revision'', VString ''2019-03-04T05:06:07Z''),
     (''tags'', VSlice [VString ''a'', VString ''b c'']), (''text'', VString ''hello''),
     (''tiddlykeep-ref'', VString ''sha224-node0''), (''title'', VString ''Foo''),
     (''type'', VString ''text/plain'')]"

definition colorDecoded :: "int Tiddler" where
  "colorDecoded = colorTiddler\<lparr>Ref := ZeroRef, TextRef := ZeroRef, MetaRef := ZeroRef,
     Fields := [(''color'', VString ''red''), (''tiddlykeep-ref'', VString ''sha224-node0'')]\<rparr>"

section \<open>Tag reconciliation: what is signed\<close>

lemma signEach_ok:
  "fst (signEach c mk xs h) = Inr u \<Longrightarrow>
   snd (signEach c mk xs h) = h @ map (\<lambda>x. Call_UploadAndSignBlob (mk x)) xs"
proof (induction xs arbitrary: h)
  case Nil
  then show ?case by (simp add: ret_def)
next
  case (Cons x xs)
  then show ?case
    by (auto simp: bind_def do_UploadAndSignBlob_def split: sum.splits prod.splits)
qed

lemma signEach_prefix:
  "\<exists>n. snd (signEach c mk xs h) = h @ take n (map (\<lambda>x. Call_UploadAndSignBlob (mk x)) xs)"
proof (induction xs arbitrary: h)
  case Nil
  then show ?case by (simp add: ret_def)
next
  case (Cons x xs)
  show ?case
  proof (cases "UploadAndSignBlob c h (mk x)")
    case (Inl e)
    then have "snd (signEach c mk (x # xs) h) = h @ take 1 (map (\<lambda>x. Call_UploadAndSignBlob (mk x)) (x # xs))"
      by (simp add: bind_def do_UploadAndSignBlob_def)
    then show ?thesis by blast
  next
    case (Inr u)
    from Cons.IH [of "h @ [Call_UploadAndSignBlob (mk x)]"] obtain n where
      "snd (signEach c mk xs (h @ [Call_UploadAndSignBlob (mk x)])) =
         (h @ [Call_UploadAndSignBlob (mk x)]) @ take n (map (\<lambda>x. Call_UploadAndSignBlob (mk x)) xs)"
      by blast
    with Inr have "snd (signEach c mk (x # xs) h) = h @ take (Suc n) (map (\<lambda>x. Call_UploadAndSignBlob (mk x)) (x # xs))"
      by (simp add: bind_def do_UploadAndSignBlob_def)
    then show ?thesis by blast
  qed
qed

lemma updateTags_equal: "updateTags rng c ref s s h = (Inr (), h)"
  by (simp add: updateTags_def ret_def)

lemma updateTags_single:
  assumes "wanted \<noteq> existing" "wanted = {x}"
  shows "snd (updateTags rng c ref existing wanted h) =
           h @ [Call_UploadAndSignBlob (SetAttributeClaim ref ''tag'' x)]"
  using assms by (simp add: updateTags_def Elements_def do_UploadAndSignBlob_def)

lemma updateTags_diff_ok:
  assumes "wanted \<noteq> existing" "card wanted \<noteq> 1"
    and "fst (updateTags rng c ref existing wanted h) = Inr u"
  shows "snd (updateTags rng c ref existing wanted h) =
           h @ add_calls ref (rng (wanted - existing)) @ del_calls ref (rng (existing - wanted))"
proof -
  let ?A = "signEach c (AddAttributeClaim ref ''tag'') (rng (wanted - existing))"
  let ?D = "signEach c (DelAttributeClaim ref ''tag'') (rng (existing - wanted))"
  from assms have r: "fst (bind ?A (\<lambda>_. ?D) h) = Inr u"
    by (simp add: updateTags_def Diff_def)
  obtain ra ha where A: "?A h = (ra, ha)" by (cases "?A h")
  with r obtain ua where ra: "ra = Inr ua" by (cases ra) (auto simp: bind_def)
  from A ra have ha: "ha = h @ add_calls ref (rng (wanted - existing))"
    using signEach_ok [of c "AddAttributeClaim ref ''tag''" "rng (wanted - existing)" h ua]
    by (simp add: add_calls_def)
  from r A ra have "fst (?D ha) = Inr u" by (simp add: bind_def)
  then have "snd (?D ha) = ha @ del_calls ref (rng (existing - wanted))"
    using signEach_ok [of c "DelAttributeClaim ref ''tag''" "rng (existing - wanted)" ha u]
    by (simp add: del_calls_def)
  with A ra ha show ?thesis using assms(1,2)
    by (simp add: updateTags_def Diff_def bind_def)
qed

lemma updateTags_diff_prefix:
  assumes "wanted \<noteq> existing" "card wanted \<noteq> 1"
  shows "\<exists>n. snd (updateTags rng c ref existing wanted h) =
           h @ take n (add_calls ref (rng (wanted - existing)) @ del_calls ref (rng (existing - wanted)))"
proof -
  let ?as = "rng (wanted - existing)" and ?ds = "rng (existing - wanted)"
  let ?A = "signEach c (AddAttributeClaim ref ''tag'') ?as"
  let ?D = "signEach c (DelAttributeClaim ref ''tag'') ?ds"
  have u: "updateTags rng c ref existing wanted h = bind ?A (\<lambda>_. ?D) h"
    using assms by (simp add: updateTags_def Diff_def)
  obtain ra ha where A: "?A h = (ra, ha)" by (cases "?A h")
  from signEach_prefix [of c "AddAttributeClaim ref ''tag''" ?as h] A
  obtain n where n: "ha = h @ take n (add_calls ref ?as)" by (auto simp: add_calls_def)
  show ?thesis
  proof (cases ra)
    case (Inl e)
    with A u have "snd (updateTags rng c ref existing wanted h) = ha" by (simp add: bind_def)
    with n have "snd (updateTags rng c ref existing wanted h) =
       h @ take (min n (length (add_calls ref ?as))) (add_calls ref ?as @ del_calls ref ?ds)"
      by (simp add: min_def)
    then show ?thesis by blast
  next
    case (Inr ua)
    with A have full: "ha = h @ add_calls ref ?as"
      using signEach_ok [of c "AddAttributeClaim ref ''tag''" ?as h ua] by (simp add: add_calls_def)
    from signEach_prefix [of c "DelAttributeClaim ref ''tag''" ?ds ha]
    obtain m where "snd (?D ha) = ha @ take m (del_calls ref ?ds)" by (auto simp: del_calls_def)
    with A Inr u full have "snd (updateTags rng c ref existing wanted h) =
       h @ take (length (add_calls ref ?as) + m) (add_calls ref ?as @ del_calls ref ?ds)"
      by (simp add: bind_def)
    then show ?thesis by blast
  qed
qed

lemma singleton_list:
  assumes "set xs = {x}" "distinct xs"
  shows "xs = [x]"
proof (cases xs)
  case Nil
  with assms show ?thesis by simp
next
  case (Cons y ys)
  with assms have y: "y = x" and "set ys \<subseteq> {x}" and "x \<notin> set ys" by auto
  then have "ys = []" by (cases ys) auto
  with Cons y show ?thesis by simp
qed

lemma mutates_add_calls: "k \<in> set (add_calls ref xs) \<Longrightarrow> mutates_tag k x \<Longrightarrow> x \<in> set xs"
  by (auto simp: add_calls_def)

lemma mutates_del_calls: "k \<in> set (del_calls ref xs) \<Longrightarrow> mutates_tag k x \<Longrightarrow> x \<in> set xs"
  by (auto simp: del_calls_def)

text \<open>
  Claim C1. \<open>updateTags\<close> signs nothing when the wanted set equals the existing one. When
  they differ and the wanted set has one element \<open>x\<close>, the one call it makes signs the claim
  that sets the tag to \<open>x\<close>. Otherwise the calls it makes are a prefix of: one add claim for
  each element of wanted that is not in existing, each once, then one delete claim for each
  element of existing that is not in wanted, each once; they are all of them when no call
  fails, and none of them is about an element of both sets. For existing \<open>{a, b}\<close> and wanted
  \<open>{b, d}\<close> with three different tags, a run with no failure signs add \<open>d\<close>, then delete \<open>a\<close>.
\<close>

theorem updateTags_policy:
  assumes rng: "range_visits_once rng" and fin: "finite existing" "finite wanted"
  shows "(wanted = existing \<longrightarrow> updateTags rng c ref existing wanted h = (Inr (), h)) \<and>
    (wanted \<noteq> existing \<and> card wanted = 1 \<longrightarrow>
       (\<exists>x. wanted = {x} \<and> snd (updateTags rng c ref existing wanted h) =
          h @ [Call_UploadAndSignBlob (SetAttributeClaim ref ''tag'' x)])) \<and>
    (wanted \<noteq> existing \<and> card wanted \<noteq> 1 \<longrightarrow>
       (\<exists>adds dels. set adds = wanted - existing \<and> distinct adds \<and>
          set dels = existing - wanted \<and> distinct dels \<and>
          (\<exists>n. snd (updateTags rng c ref existing wanted h) =
                 h @ take n (add_calls ref adds @ del_calls ref dels)) \<and>
          (fst (updateTags rng c ref existing wanted h) = Inr () \<longrightarrow>
             snd (updateTags rng c ref existing wanted h) =
                 h @ add_calls ref adds @ del_calls ref dels) \<and>
          (\<forall>x \<in> wanted \<inter> existing.
             \<forall>k \<in> set (drop (length h) (snd (updateTags rng c ref existing wanted h))).
               \<not> mutates_tag k x))) \<and>
    (a \<noteq> b \<and> b \<noteq> d \<and> a \<noteq> d \<and> fst (updateTags rng c ref {a, b} {b, d} h) = Inr () \<longrightarrow>
       snd (updateTags rng c ref {a, b} {b, d} h) =
         h @ [Call_UploadAndSignBlob (AddAttributeClaim ref ''tag'' d),
              Call_UploadAndSignBlob (DelAttributeClaim ref ''tag'' a)])"
proof (intro conjI impI)
  assume "wanted = existing"
  then show "updateTags rng c ref existing wanted h = (Inr (), h)"
    by (simp add: updateTags_equal)
next
  assume a: "wanted \<noteq> existing \<and> card wanted = 1"
  then obtain x where x: "wanted = {x}" by (auto simp: card_1_singleton_iff)
  with a show "\<exists>x. wanted = {x} \<and> snd (updateTags rng c ref existing wanted h) =
          h @ [Call_UploadAndSignBlob (SetAttributeClaim ref ''tag'' x)]"
    using updateTags_single [of wanted existing x rng c ref h] by blast
next
  assume a: "wanted \<noteq> existing \<and> card wanted \<noteq> 1"
  let ?adds = "rng (wanted - existing)" and ?dels = "rng (existing - wanted)"
  let ?h' = "snd (updateTags rng c ref existing wanted h)"
  from rng fin have s: "set ?adds = wanted - existing" "distinct ?adds"
    "set ?dels = existing - wanted" "distinct ?dels"
    by (simp_all add: range_visits_once_def)
  from a obtain n where n: "?h' = h @ take n (add_calls ref ?adds @ del_calls ref ?dels)"
    using updateTags_diff_prefix [of wanted existing rng c ref h] by blast
  have ok: "fst (updateTags rng c ref existing wanted h) = Inr () \<longrightarrow>
      ?h' = h @ add_calls ref ?adds @ del_calls ref ?dels"
    using a updateTags_diff_ok [of wanted existing rng c ref h "()"] by blast
  have untouched: "\<forall>x \<in> wanted \<inter> existing. \<forall>k \<in> set (drop (length h) ?h'). \<not> mutates_tag k x"
  proof (intro ballI notI)
    fix x k
    assume x: "x \<in> wanted \<inter> existing" and k: "k \<in> set (drop (length h) ?h')"
      and m: "mutates_tag k x"
    from k n have "k \<in> set (take n (add_calls ref ?adds @ del_calls ref ?dels))" by simp
    then have "k \<in> set (add_calls ref ?adds) \<or> k \<in> set (del_calls ref ?dels)"
      by (auto dest: in_set_takeD)
    with m have "x \<in> set ?adds \<or> x \<in> set ?dels"
      by (auto dest: mutates_add_calls mutates_del_calls)
    with s x show False by auto
  qed
  from s n ok untouched
  show "\<exists>adds dels. set adds = wanted - existing \<and> distinct adds \<and>
          set dels = existing - wanted \<and> distinct dels \<and>
          (\<exists>n. ?h' = h @ take n (add_calls ref adds @ del_calls ref dels)) \<and>
          (fst (updateTags rng c ref existing wanted h) = Inr () \<longrightarrow>
             ?h' = h @ add_calls ref adds @ del_calls ref dels) \<and>
          (\<forall>x \<in> wanted \<inter> existing. \<forall>k \<in> set (drop (length h) ?h'). \<not> mutates_tag k x)"
    by blast
next
  assume a: "a \<noteq> b \<and> b \<noteq> d \<and> a \<noteq> d \<and> fst (updateTags rng c ref {a, b} {b, d} h) = Inr ()"
  then have ne: "{b, d} \<noteq> {a, b}" and c2: "card {b, d} \<noteq> 1" by auto
  from a have d1: "{b, d} - {a, b} = {d}" and d2: "{a, b} - {b, d} = {a}" by auto
  from rng have "set (rng {d}) = {d}" "distinct (rng {d})" "set (rng {a}) = {a}" "distinct (rng {a})"
    by (simp_all add: range_visits_once_def)
  then have r: "rng {d} = [d]" "rng {a} = [a]"
    by (simp_all add: singleton_list)
  from a ne c2 show "snd (updateTags rng c ref {a, b} {b, d} h) =
         h @ [Call_UploadAndSignBlob (AddAttributeClaim ref ''tag'' d),
              Call_UploadAndSignBlob (DelAttributeClaim ref ''tag'' a)]"
    using updateTags_diff_ok [of "{b, d}" "{a, b}" rng c ref h "()"]
    by (simp add: d1 d2 r add_calls_def del_calls_def)
qed

theorem updateTags_policy_witness:
  "range_visits_once sorted_list_of_set \<and> finite {''a'', ''b''} \<and> finite {''b'', ''c''} \<and>
   ''a'' \<noteq> ''b'' \<and> ''b'' \<noteq> ''c'' \<and> ''a'' \<noteq> ''c'' \<and>
   fst (updateTags sorted_list_of_set memStore (node_ref 0) {''a'', ''b''} {''b'', ''c''} []) = Inr () \<and>
   snd (updateTags sorted_list_of_set memStore (node_ref 0) {''a'', ''b''} {''b'', ''c''} []) =
     [Call_UploadAndSignBlob (AddAttributeClaim (node_ref 0) ''tag'' ''c''),
      Call_UploadAndSignBlob (DelAttributeClaim (node_ref 0) ''tag'' ''a'')]"
proof -
  have rng: "range_visits_once sorted_list_of_set"
    by (simp add: range_visits_once_def)
  have ok: "fst (updateTags sorted_list_of_set memStore (node_ref 0) {''a'', ''b''} {''b'', ''c''} []) = Inr ()"
    by code_simp
  from updateTags_policy [OF rng, where existing = "{''a'', ''b''}" and wanted = "{''b'', ''c''}"
      and a = "''a''" and b = "''b''" and d = "''c''" and c = memStore
      and ref = "node_ref 0" and h = "[]"] ok
  have "snd (updateTags sorted_list_of_set memStore (node_ref 0) {''a'', ''b''} {''b'', ''c''} []) =
     [Call_UploadAndSignBlob (AddAttributeClaim (node_ref 0) ''tag'' ''c''),
      Call_UploadAndSignBlob (DelAttributeClaim (node_ref 0) ''tag'' ''a'')]"
    by simp
  with ok rng show ?thesis by simp
qed

section \<open>The text form: the scenario of the specification\<close>

lemma read_headers_scenario:
  "read_headers [] (''tags: a [[b c]]'' @ [CHR 0x0A, CHR 0x0A] @ ''body'') =
     Inr ([(''tags'', VStrings [''a'', ''b c''])], ''body'')"
  by code_simp

text \<open>
  Claim C7. Decoding the text \<open>tags: a [[b c]]\<close>, a blank line, \<open>body\<close> into a fresh tiddler
  gives tags \<open>a\<close> and \<open>b c\<close> and the text \<open>body\<close>, every other field zero, whatever the
  library functions are. The header is split at spaces into three tokens; the token \<open>[[b\<close>
  opens a span that is kept until the token \<open>c]]\<close> closes it, and the span gives one tag
  without its brackets.
\<close>

theorem UnmarshalText_scenario:
  "UnmarshalText ext (''tags: a [[b c]]'' @ [CHR 0x0A, CHR 0x0A] @ ''body'') Tiddler_zero =
     Inr (Tiddler_zero\<lparr>Tags := [''a'', ''b c''], Text := ''body''\<rparr>) \<and>
   Split_on CHR 0x20 ''a [[b c]]'' = [''a'', ''[[b'', ''c]]''] \<and>
   fold tags_token [''a'', ''[[b''] ([], []) = ([''a''], '' [[b'') \<and>
   tags_token ''c]]'' ([''a''], '' [[b'') = ([''a'', ''b c''], [])"
proof -
  have "UnmarshalText ext (''tags: a [[b c]]'' @ [CHR 0x0A, CHR 0x0A] @ ''body'') Tiddler_zero =
     Inr (Tiddler_zero\<lparr>Tags := [''a'', ''b c''], Text := ''body''\<rparr>)"
    unfolding UnmarshalText_def read_headers_scenario
    by (simp add: MergeFrom_def TiddlerMeta_MergeFrom_def merge_entry_def toString_def
        Tiddler_zero_def Tiddler_of_ref_def TiddlerRef_zero_def)
  moreover have "Split_on CHR 0x20 ''a [[b c]]'' = [''a'', ''[[b'', ''c]]'']"
    by code_simp
  moreover have "fold tags_token [''a'', ''[[b''] ([], []) = ([''a''], '' [[b'')"
    by code_simp
  moreover have "tags_token ''c]]'' ([''a''], '' [[b'') = ([''a'', ''b c''], [])"
    by code_simp
  ultimately show ?thesis by simp
qed

section \<open>References that cannot be resolved\<close>

lemma getTiddlerPermanode_MissingTitle:
  "\<not> Valid (Ref r) \<Longrightarrow> Title r = [] \<Longrightarrow>
   getTiddlerPermanode ext k r cm h = (Inl MissingTitle, h)"
  by (simp add: getTiddlerPermanode_def fail_def)

lemma getTiddlerPermanode_MissingBagRecipe:
  "\<not> Valid (Ref r) \<Longrightarrow> Title r \<noteq> [] \<Longrightarrow> Bag r = [] \<Longrightarrow> Recipe r = [] \<Longrightarrow>
   getTiddlerPermanode ext k r cm h = (Inl (MissingBagRecipe (Title r)), h)"
  by (simp add: getTiddlerPermanode_def fail_def)

lemma getTiddlerPermanode_RecipeNotSupported:
  "\<not> Valid (Ref r) \<Longrightarrow> Title r \<noteq> [] \<Longrightarrow> Bag r = [] \<Longrightarrow> Recipe r \<noteq> [] \<Longrightarrow>
   Recipe r \<noteq> ''all'' \<Longrightarrow> Recipe r \<noteq> ''system'' \<Longrightarrow>
   getTiddlerPermanode ext k r cm h = (Inl (RecipeNotSupported (Recipe r)), h)"
  by (simp add: getTiddlerPermanode_def bagConstraint_def fail_def)

lemma ResolveRef_error:
  "\<not> Valid (Ref r) \<Longrightarrow> getTiddlerPermanode ext k r cm h = (Inl e, h') \<Longrightarrow>
   ResolveRef ext k r cm h = (Inl e, h')"
  by (simp add: ResolveRef_def bind_def)

text \<open>
  Claim C4. For a ref whose \<open>Ref\<close> is not valid, resolution fails before any call to the
  store: with an invalid-reference error when the title is empty or when bag and recipe are
  both empty, and, for a ref with a title, no bag and a recipe that is neither empty nor
  \<open>all\<close> nor \<open>system\<close>, with an unsupported-recipe error. \<open>ListRecipe\<close> fails with an
  unsupported-recipe error, before any call, for every recipe other than \<open>all\<close> and \<open>system\<close>.
\<close>

theorem resolve_rejects_invalid_refs:
  assumes "\<not> Valid (Ref r)"
  shows "(Title r = [] \<or> (Bag r = [] \<and> Recipe r = []) \<longrightarrow>
           (\<exists>e. getTiddlerPermanode ext k r cm h = (Inl e, h) \<and>
                ResolveRef ext k r cm h = (Inl e, h) \<and> kind e = InvalidReference)) \<and>
         (Title r \<noteq> [] \<and> Bag r = [] \<and> Recipe r \<noteq> [] \<and> Recipe r \<notin> {''all'', ''system''} \<longrightarrow>
           (\<exists>e. getTiddlerPermanode ext k r cm h = (Inl e, h) \<and>
                ResolveRef ext k r cm h = (Inl e, h) \<and> kind e = UnsupportedRecipe)) \<and>
         (recipe \<notin> {''all'', ''system''} \<longrightarrow>
           (\<exists>e. ListRecipe ext k recipe textFilter h = (Inl e, h) \<and> kind e = UnsupportedRecipe))"
proof (intro conjI impI)
  assume a: "Title r = [] \<or> (Bag r = [] \<and> Recipe r = [])"
  show "\<exists>e. getTiddlerPermanode ext k r cm h = (Inl e, h) \<and>
            ResolveRef ext k r cm h = (Inl e, h) \<and> kind e = InvalidReference"
  proof (cases "Title r = []")
    case True
    with assms have g: "getTiddlerPermanode ext k r cm h = (Inl MissingTitle, h)"
      by (rule getTiddlerPermanode_MissingTitle)
    with assms show ?thesis by (auto dest: ResolveRef_error)
  next
    case False
    with a assms have g: "getTiddlerPermanode ext k r cm h = (Inl (MissingBagRecipe (Title r)), h)"
      by (simp add: getTiddlerPermanode_MissingBagRecipe)
    with assms show ?thesis by (auto dest: ResolveRef_error)
  qed
next
  assume "Title r \<noteq> [] \<and> Bag r = [] \<and> Recipe r \<noteq> [] \<and> Recipe r \<notin> {''all'', ''system''}"
  with assms have g: "getTiddlerPermanode ext k r cm h = (Inl (RecipeNotSupported (Recipe r)), h)"
    by (simp add: getTiddlerPermanode_RecipeNotSupported)
  with assms show "\<exists>e. getTiddlerPermanode ext k r cm h = (Inl e, h) \<and>
            ResolveRef ext k r cm h = (Inl e, h) \<and> kind e = UnsupportedRecipe"
    by (auto dest: ResolveRef_error)
next
  assume "recipe \<notin> {''all'', ''system''}"
  then have "ListRecipe ext k recipe textFilter h = (Inl (UnsupportedRecipeName recipe), h)"
    by (simp add: ListRecipe_def fail_def)
  then show "\<exists>e. ListRecipe ext k recipe textFilter h = (Inl e, h) \<and> kind e = UnsupportedRecipe"
    by simp
qed

theorem resolve_rejects_invalid_refs_witness:
  "\<not> Valid (Ref (TiddlerRef_zero :: int TiddlerRef)) \<and>
   ResolveRef lib keep TiddlerRef_zero False [] = (Inl MissingTitle, []) \<and>
   ResolveRef lib keep (TiddlerRef_zero\<lparr>Title := ''Foo''\<rparr>) False [] = (Inl (MissingBagRecipe ''Foo''), []) \<and>
   ResolveRef lib keep (TiddlerRef_zero\<lparr>Title := ''Foo'', Recipe := ''bogus''\<rparr>) False [] =
     (Inl (RecipeNotSupported ''bogus''), []) \<and>
   ListRecipe lib keep ''bogus'' AlwaysIncludeText [] = (Inl (UnsupportedRecipeName ''bogus''), [])"
proof -
  have v: "\<not> Valid (Ref (TiddlerRef_zero :: int TiddlerRef))"
    by (simp add: Valid_def TiddlerRef_zero_def)
  have v1: "\<not> Valid (Ref (TiddlerRef_zero\<lparr>Title := ''Foo''\<rparr> :: int TiddlerRef))"
    by (simp add: Valid_def TiddlerRef_zero_def)
  have v2: "\<not> Valid (Ref (TiddlerRef_zero\<lparr>Title := ''Foo'', Recipe := ''bogus''\<rparr> :: int TiddlerRef))"
    by (simp add: Valid_def TiddlerRef_zero_def)
  have t0: "Title (TiddlerRef_zero :: int TiddlerRef) = []" by (simp add: TiddlerRef_zero_def)
  from resolve_rejects_invalid_refs [OF v, where ext = lib and k = keep and cm = False and h = "[]"
      and recipe = "''bogus''" and textFilter = AlwaysIncludeText] t0
  obtain e where e: "getTiddlerPermanode lib keep TiddlerRef_zero False [] = (Inl e, [])"
      "ResolveRef lib keep TiddlerRef_zero False [] = (Inl e, [])"
    and l: "\<exists>e. ListRecipe lib keep ''bogus'' AlwaysIncludeText [] = (Inl e, []) \<and> kind e = UnsupportedRecipe"
    by auto
  from e(1) v t0 have "e = MissingTitle" by (simp add: getTiddlerPermanode_def fail_def)
  with e have r0: "ResolveRef lib keep TiddlerRef_zero False [] = (Inl MissingTitle, [])" by simp
  from l have r3: "ListRecipe lib keep ''bogus'' AlwaysIncludeText [] = (Inl (UnsupportedRecipeName ''bogus''), [])"
    by (simp add: ListRecipe_def fail_def)
  from resolve_rejects_invalid_refs [OF v1, where ext = lib and k = keep and cm = False and h = "[]"]
  obtain e1 where e1: "getTiddlerPermanode lib keep (TiddlerRef_zero\<lparr>Title := ''Foo''\<rparr>) False [] = (Inl e1, [])"
      "ResolveRef lib keep (TiddlerRef_zero\<lparr>Title := ''Foo''\<rparr>) False [] = (Inl e1, [])"
    by (auto simp: TiddlerRef_zero_def)
  from e1(1) have "e1 = MissingBagRecipe ''Foo''"
    by (simp add: getTiddlerPermanode_def fail_def TiddlerRef_zero_def Valid_def)
  with e1 have r1: "ResolveRef lib keep (TiddlerRef_zero\<lparr>Title := ''Foo''\<rparr>) False [] = (Inl (MissingBagRecipe ''Foo''), [])"
    by simp
  from resolve_rejects_invalid_refs [OF v2, where ext = lib and k = keep and cm = False and h = "[]"]
  obtain e2 where e2: "getTiddlerPermanode lib keep (TiddlerRef_zero\<lparr>Title := ''Foo'', Recipe := ''bogus''\<rparr>) False [] = (Inl e2, [])"
      "ResolveRef lib keep (TiddlerRef_zero\<lparr>Title := ''Foo'', Recipe := ''bogus''\<rparr>) False [] = (Inl e2, [])"
    by (auto simp: TiddlerRef_zero_def)
  from e2(1) have "e2 = RecipeNotSupported ''bogus''"
    by (simp add: getTiddlerPermanode_def fail_def TiddlerRef_zero_def Valid_def bagConstraint_def)
  with e2 have r2: "ResolveRef lib keep (TiddlerRef_zero\<lparr>Title := ''Foo'', Recipe := ''bogus''\<rparr>) False [] =
     (Inl (RecipeNotSupported ''bogus''), [])" by simp
  from v r0 r1 r2 r3 show ?thesis by simp
qed

section \<open>What resolution leaves in the ref\<close>

lemma constructTiddlerRef_Recipe: "Recipe (constructTiddlerRef ext b d) = []"
  by (simp add: constructTiddlerRef_def TiddlerRef_zero_def Let_def split: option.splits)

text \<open>
  Claim C10. When the \<open>Ref\<close> of a ref is not valid and \<open>ResolveRef\<close> succeeds, the ref it
  leaves is \<open>constructTiddlerRef\<close> of the node and description that \<open>getTiddlerPermanode\<close>
  returned, so nothing of the input ref is kept, and its \<open>Recipe\<close> is empty;
  \<open>constructTiddlerRef\<close> never fills \<open>Recipe\<close>.
\<close>

theorem ResolveRef_rebuilds_ref:
  assumes "\<not> Valid (Ref r)" and "ResolveRef ext k r cm h = (Inr r', h')"
  shows "(\<exists>b d. getTiddlerPermanode ext k r cm h = (Inr (b, d), h') \<and>
            r' = constructTiddlerRef ext b d) \<and>
         Recipe r' = [] \<and>
         (\<forall>b d. Recipe (constructTiddlerRef ext b d) = [])"
proof -
  from assms have b: "bind (getTiddlerPermanode ext k r cm)
      (\<lambda>p. ret (constructTiddlerRef ext (fst p) (snd p))) h = (Inr r', h')"
    by (simp add: ResolveRef_def)
  then obtain p where p: "getTiddlerPermanode ext k r cm h = (Inr p, h')"
    and r': "r' = constructTiddlerRef ext (fst p) (snd p)"
    by (auto simp: bind_def ret_def split: prod.splits sum.splits)
  from p have "getTiddlerPermanode ext k r cm h = (Inr (fst p, snd p), h')" by simp
  with r' have "\<exists>b d. getTiddlerPermanode ext k r cm h = (Inr (b, d), h') \<and>
      r' = constructTiddlerRef ext b d"
    by blast
  moreover from r' have "Recipe r' = []" by (simp add: constructTiddlerRef_Recipe)
  ultimately show ?thesis by (simp add: constructTiddlerRef_Recipe)
qed

theorem ResolveRef_rebuilds_ref_witness:
  "\<not> Valid (Ref (TiddlerRef_zero\<lparr>Title := ''Foo'', Recipe := ''all''\<rparr> :: int TiddlerRef)) \<and>
   fst (ResolveRef lib keep (TiddlerRef_zero\<lparr>Title := ''Foo'', Recipe := ''all''\<rparr>) False hput) = Inr fooRef \<and>
   Recipe fooRef = []"
proof -
  have v: "\<not> Valid (Ref (TiddlerRef_zero\<lparr>Title := ''Foo'', Recipe := ''all''\<rparr> :: int TiddlerRef))"
    by (simp add: Valid_def TiddlerRef_zero_def)
  have r: "ResolveRef lib keep (TiddlerRef_zero\<lparr>Title := ''Foo'', Recipe := ''all''\<rparr>) False hput =
    (Inr fooRef, hput @ [Call_Query (Logical_and (Permanode_Value ''title'' ''Foo'')
        (Permanode_NumValue_Min ''tiddlerBag'' 1)) tiddlerPermanodeAttrs])"
    by code_simp
  from ResolveRef_rebuilds_ref [OF v r] have "Recipe fooRef = []" by simp
  with v r show ?thesis by simp
qed

section \<open>Reading a tiddler\<close>

lemma only_reads_refl: "only_reads h h"
  by (simp add: only_reads_def)

lemma only_reads_trans: "only_reads h h1 \<Longrightarrow> only_reads h1 h2 \<Longrightarrow> only_reads h h2"
  by (auto simp: only_reads_def)

lemma only_reads_bind:
  assumes "only_reads h (snd (m h))" and "\<And>a h1. only_reads h1 (snd (f a h1))"
  shows "only_reads h (snd (bind m f h))"
proof (cases "m h")
  case (Pair r h1)
  show ?thesis
  proof (cases r)
    case (Inl e)
    with Pair assms(1) show ?thesis by (simp add: bind_def)
  next
    case (Inr a)
    with Pair have "snd (bind m f h) = snd (f a h1)" by (simp add: bind_def)
    with assms(1) assms(2) [of h1 a] Pair show ?thesis
      by (auto intro: only_reads_trans)
  qed
qed

lemma only_reads_ret: "only_reads h (snd (ret a h))"
  by (simp add: ret_def only_reads_refl)

lemma only_reads_fail: "only_reads h (snd (fail e h))"
  by (simp add: fail_def only_reads_refl)

lemma only_reads_Query: "only_reads h (snd (do_Query c q attrs h))"
  by (simp add: do_Query_def only_reads_def)

lemma only_reads_Describe: "only_reads h (snd (do_Describe c r attrs h))"
  by (simp add: do_Describe_def only_reads_def)

lemma only_reads_Fetch: "only_reads h (snd (do_Fetch c r h))"
  by (simp add: do_Fetch_def only_reads_def)

lemma only_reads_FetchFile: "only_reads h (snd (do_FetchFile c r h))"
  by (simp add: do_FetchFile_def only_reads_def)

lemma only_reads_getTiddlerPermanode:
  "only_reads h (snd (getTiddlerPermanode ext k r False h))"
proof -
  have q: "only_reads h (snd (searchTiddlers k c True h))" for c
    by (simp add: searchTiddlers_def only_reads_Query)
  show ?thesis
    unfolding getTiddlerPermanode_def
    by (auto simp: Let_def fail_def ret_def q only_reads_refl
        intro!: only_reads_bind only_reads_Describe only_reads_ret
        split: sum.splits list.splits option.splits)
qed

lemma only_reads_ResolveRef: "only_reads h (snd (ResolveRef ext k r False h))"
  unfolding ResolveRef_def
  by (auto intro!: only_reads_bind only_reads_ret only_reads_getTiddlerPermanode)

lemma only_reads_GetTiddler: "only_reads h (snd (GetTiddler ext k ref0 textFilter h))"
  unfolding GetTiddler_def resolveRef_def
  by (auto simp: Let_def intro!: only_reads_bind only_reads_ret only_reads_fail only_reads_ResolveRef
      only_reads_Fetch only_reads_FetchFile split: sum.splits)

lemma GetTiddler_NotFound:
  assumes "ResolveRef ext k ref0 False h = (Inr ref, h1)"
    and "\<not> Valid (MetaRef ref) \<or> Title ref = []"
  shows "GetTiddler ext k ref0 textFilter h = (Inl RefTiddlerNotFound, h1)"
  using assms by (auto simp: GetTiddler_def resolveRef_def bind_def fail_def)

lemma GetTiddler_success:
  assumes "GetTiddler ext k ref0 textFilter h = (Inr t, h')"
  shows "\<exists>ref h1. ResolveRef ext k ref0 False h = (Inr ref, h1) \<and> Valid (MetaRef ref) \<and> Title ref \<noteq> []"
proof (cases "ResolveRef ext k ref0 False h")
  case (Pair r h1)
  show ?thesis
  proof (cases r)
    case (Inl e)
    with Pair assms show ?thesis by (simp add: GetTiddler_def resolveRef_def bind_def)
  next
    case (Inr ref)
    show ?thesis
    proof (cases "\<not> Valid (MetaRef ref) \<or> Title ref = []")
      case True
      with Pair Inr have "GetTiddler ext k ref0 textFilter h = (Inl RefTiddlerNotFound, h1)"
        by (simp add: GetTiddler_NotFound)
      with assms show ?thesis by simp
    next
      case False
      with Pair Inr show ?thesis by simp
    qed
  qed
qed

text \<open>
  Claim C8. \<open>GetTiddler\<close> resolves without creating: every call it makes is a query, a
  description or a fetch. When resolution succeeds and the resolved ref has no valid
  \<open>MetaRef\<close> or has an empty title, it fails with the not-found error, after the calls of the
  resolution only. When it returns a tiddler, resolution had succeeded with a valid \<open>MetaRef\<close>
  and a title.
\<close>

theorem GetTiddler_requires_meta_and_title:
  "only_reads h (snd (GetTiddler ext k ref0 textFilter h)) \<and>
   (\<forall>ref h1. ResolveRef ext k ref0 False h = (Inr ref, h1) \<and>
        (\<not> Valid (MetaRef ref) \<or> Title ref = []) \<longrightarrow>
      GetTiddler ext k ref0 textFilter h = (Inl RefTiddlerNotFound, h1) \<and>
      kind RefTiddlerNotFound = NotFound) \<and>
   (\<forall>t h'. GetTiddler ext k ref0 textFilter h = (Inr t, h') \<longrightarrow>
      (\<exists>ref h1. ResolveRef ext k ref0 False h = (Inr ref, h1) \<and>
         Valid (MetaRef ref) \<and> Title ref \<noteq> []))"
  by (auto simp: only_reads_GetTiddler GetTiddler_NotFound dest: GetTiddler_success)

theorem GetTiddler_requires_meta_and_title_witness:
  "ResolveRef lib keep fooAsked False hbare =
     (Inr (TiddlerRef_zero\<lparr>Ref := node_ref 0, Title := ''Foo'', Bag := ''default'', Revision := 63687272767\<rparr>),
      hbare @ [fooQuery]) \<and>
   GetTiddler lib keep fooAsked AlwaysIncludeText hbare = (Inl RefTiddlerNotFound, hbare @ [fooQuery]) \<and>
   GetTiddler lib keep fooAsked AlwaysIncludeText hput =
     (Inr fooStored, hput @ [fooQuery, Call_Fetch (MetaRef fooRef), Call_FetchFile (TextRef fooRef)]) \<and>
   ResolveRef lib keep fooAsked False hput = (Inr fooRef, hput @ [fooQuery]) \<and>
   Valid (MetaRef fooRef) \<and> Title fooRef \<noteq> [] \<and>
   only_reads hput (hput @ [fooQuery, Call_Fetch (MetaRef fooRef), Call_FetchFile (TextRef fooRef)])"
proof -
  let ?bare = "TiddlerRef_zero\<lparr>Ref := node_ref 0, Title := ''Foo'', Bag := ''default'',
     Revision := 63687272767\<rparr> :: int TiddlerRef"
  have r0: "ResolveRef lib keep fooAsked False hbare = (Inr ?bare, hbare @ [fooQuery])"
    by code_simp
  have m0: "\<not> Valid (MetaRef ?bare)"
    by (simp add: TiddlerRef_zero_def Valid_def)
  have g1: "GetTiddler lib keep fooAsked AlwaysIncludeText hput =
     (Inr fooStored, hput @ [fooQuery, Call_Fetch (MetaRef fooRef), Call_FetchFile (TextRef fooRef)])"
    by code_simp
  have r1: "ResolveRef lib keep fooAsked False hput = (Inr fooRef, hput @ [fooQuery])"
    by code_simp
  note thm0 = GetTiddler_requires_meta_and_title [where ext = lib and k = keep and ?ref0.0 = fooAsked
      and textFilter = AlwaysIncludeText and h = hbare]
  note thm1 = GetTiddler_requires_meta_and_title [where ext = lib and k = keep and ?ref0.0 = fooAsked
      and textFilter = AlwaysIncludeText and h = hput]
  from thm0 r0 m0
  have g0: "GetTiddler lib keep fooAsked AlwaysIncludeText hbare = (Inl RefTiddlerNotFound, hbare @ [fooQuery])"
    by blast
  from thm1 g1 r1 have v: "Valid (MetaRef fooRef) \<and> Title fooRef \<noteq> []"
    by auto
  from thm1 g1 have "only_reads hput (hput @ [fooQuery, Call_Fetch (MetaRef fooRef), Call_FetchFile (TextRef fooRef)])"
    by simp
  with r0 g0 g1 r1 v show ?thesis by simp
qed

section \<open>The tag of a single tiddler\<close>

lemma constructETag_resolved:
  "ResolveRef ext k ref0 False h = (Inr ref, h1) \<Longrightarrow>
   constructETag ext k ref0 h = (Inr (etag_of ext ref, ref), h1)"
  by (simp add: constructETag_def bind_def ret_def)

lemma constructETag_failed:
  "ResolveRef ext k ref0 False h = (Inl e, h1) \<Longrightarrow>
   constructETag ext k ref0 h = (Inl e, h1)"
  by (simp add: constructETag_def bind_def)

lemma getBagTiddler_304:
  assumes "ResolveRef ext k (bagAsked bag path) False h = (Inr ref, h1)"
    and "ifNoneMatch = etag_of ext ref"
  shows "getBagTiddler ext k bag path ifNoneMatch h = (Inr \<lparr> status = 304, headers = [], body = [] \<rparr>, h1)"
  using assms
  by (simp add: getBagTiddler_def bagAsked_def Let_def bind_def ret_def constructETag_resolved)

lemma getRecipeTiddler_304:
  assumes "ResolveRef ext k (recipeAsked recipe path) False h = (Inr ref, h1)"
    and "ifNoneMatch = etag_of ext ref"
  shows "getRecipeTiddler ext k recipe path ifNoneMatch h = (Inr \<lparr> status = 304, headers = [], body = [] \<rparr>, h1)"
  using assms
  by (simp add: getRecipeTiddler_def recipeAsked_def Let_def bind_def ret_def constructETag_resolved)

lemma getBagTiddler_200:
  assumes "getBagTiddler ext k bag path ifNoneMatch h = (Inr resp, h')" and "status resp \<noteq> 304"
  shows "\<exists>ref h1. ResolveRef ext k (bagAsked bag path) False h = (Inr ref, h1) \<and>
           status resp = 200 \<and> map_of (headers resp) ''Etag'' = Some (etag_of ext ref)"
proof (cases "ResolveRef ext k (bagAsked bag path) False h")
  case (Pair r h1)
  show ?thesis
  proof (cases r)
    case (Inl e)
    with Pair assms show ?thesis
      by (simp add: getBagTiddler_def bagAsked_def Let_def bind_def constructETag_failed)
  next
    case (Inr ref)
    with Pair have c: "constructETag ext k (bagAsked bag path) h = (Inr (etag_of ext ref, ref), h1)"
      by (simp add: constructETag_resolved)
    from assms c have "status resp = 200 \<and> map_of (headers resp) ''Etag'' = Some (etag_of ext ref)"
      by (auto simp: getBagTiddler_def bagAsked_def Let_def bind_def ret_def fail_def
          split: if_splits sum.splits prod.splits)
    with Pair Inr show ?thesis by simp
  qed
qed

lemma getRecipeTiddler_200:
  assumes "getRecipeTiddler ext k recipe path ifNoneMatch h = (Inr resp, h')" and "status resp \<noteq> 304"
  shows "\<exists>ref h1. ResolveRef ext k (recipeAsked recipe path) False h = (Inr ref, h1) \<and>
           status resp = 200 \<and> map_of (headers resp) ''Etag'' = Some (etag_of ext ref)"
proof (cases "ResolveRef ext k (recipeAsked recipe path) False h")
  case (Pair r h1)
  show ?thesis
  proof (cases r)
    case (Inl e)
    with Pair assms show ?thesis
      by (simp add: getRecipeTiddler_def recipeAsked_def Let_def bind_def constructETag_failed)
  next
    case (Inr ref)
    with Pair have c: "constructETag ext k (recipeAsked recipe path) h = (Inr (etag_of ext ref, ref), h1)"
      by (simp add: constructETag_resolved)
    from assms c have "status resp = 200 \<and> map_of (headers resp) ''Etag'' = Some (etag_of ext ref)"
      by (auto simp: getRecipeTiddler_def recipeAsked_def Let_def bind_def ret_def fail_def
          split: if_splits sum.splits prod.splits)
    with Pair Inr show ?thesis by simp
  qed
qed

lemma getBagTiddler_tiddler:
  assumes "ResolveRef ext k (bagAsked bag path) False h = (Inr ref, h1)"
    and "ifNoneMatch \<noteq> etag_of ext ref"
    and "GetTiddler ext k ref AlwaysIncludeText h1 = (Inr t, h2)"
    and "MarshalJSON ext t = Inr data"
  shows "getBagTiddler ext k bag path ifNoneMatch h =
    (Inr \<lparr> status = 200,
           headers = [(''Etag'', etag_of ext ref), (''Content-Type'', ''application/json'')],
           body = data @ [CHR 0x0A] \<rparr>, h2)"
  using assms
  by (simp add: getBagTiddler_def bagAsked_def Let_def bind_def ret_def constructETag_resolved)

lemma getRecipeTiddler_tiddler:
  assumes "ResolveRef ext k (recipeAsked recipe path) False h = (Inr ref, h1)"
    and "ifNoneMatch \<noteq> etag_of ext ref"
    and "GetTiddler ext k ref AlwaysIncludeText h1 = (Inr t, h2)"
    and "MarshalJSON ext (t\<lparr>Recipe := recipe\<rparr>) = Inr data"
  shows "getRecipeTiddler ext k recipe path ifNoneMatch h =
    (Inr \<lparr> status = 200,
           headers = [(''Etag'', etag_of ext ref), (''Content-Type'', ''application/json'')],
           body = data @ [CHR 0x0A] \<rparr>, h2)"
  using assms
  by (simp add: getRecipeTiddler_def recipeAsked_def Let_def bind_def ret_def constructETag_resolved)

text \<open>
  Claim C9. The tag of a ref is the quoted string of its bag, a slash, its URL-escaped
  title, a slash, its revision in Unix seconds in decimal, a colon and the string of its
  node. Whenever one of the two handlers that read a single tiddler answers with a tiddler,
  the status is 200 and the \<open>Etag\<close> header is the tag of the ref as resolved for this
  request; when the \<open>If-None-Match\<close> header of the request equals that tag, the answer
  is status 304 with no header set and an empty body, after the calls of the resolution only;
  and when the header differs from that tag or is absent, and the tiddler of the resolved ref
  is read and encoded, the answer is status 200 with the tag in the \<open>Etag\<close> header, the
  content type of JSON, and the JSON of the tiddler and a line feed as the body (the handler of
  a recipe writes the name of the recipe into the tiddler first).
\<close>

theorem single_tiddler_etag:
  "etag_of ext r = [CHR 0x22] @ Bag r @ ''/'' @ url_QueryEscape ext (Title r) @ ''/'' @
      fmt_d (time_Unix ext (Revision r)) @ '':'' @ blob_String ext (Ref r) @ [CHR 0x22] \<and>
   (\<forall>resp h'. getBagTiddler ext k bag path ifNoneMatch h = (Inr resp, h') \<and> status resp \<noteq> 304 \<longrightarrow>
      (\<exists>ref h1. ResolveRef ext k (bagAsked bag path) False h = (Inr ref, h1) \<and>
         status resp = 200 \<and> map_of (headers resp) ''Etag'' = Some (etag_of ext ref))) \<and>
   (\<forall>resp h'. getRecipeTiddler ext k recipe path ifNoneMatch h = (Inr resp, h') \<and> status resp \<noteq> 304 \<longrightarrow>
      (\<exists>ref h1. ResolveRef ext k (recipeAsked recipe path) False h = (Inr ref, h1) \<and>
         status resp = 200 \<and> map_of (headers resp) ''Etag'' = Some (etag_of ext ref))) \<and>
   (\<forall>ref h1. ResolveRef ext k (bagAsked bag path) False h = (Inr ref, h1) \<and>
         ifNoneMatch = etag_of ext ref \<longrightarrow>
      getBagTiddler ext k bag path ifNoneMatch h =
        (Inr \<lparr> status = 304, headers = [], body = [] \<rparr>, h1)) \<and>
   (\<forall>ref h1. ResolveRef ext k (recipeAsked recipe path) False h = (Inr ref, h1) \<and>
         ifNoneMatch = etag_of ext ref \<longrightarrow>
      getRecipeTiddler ext k recipe path ifNoneMatch h =
        (Inr \<lparr> status = 304, headers = [], body = [] \<rparr>, h1)) \<and>
   (\<forall>ref h1 t h2 data. ResolveRef ext k (bagAsked bag path) False h = (Inr ref, h1) \<and>
         ifNoneMatch \<noteq> etag_of ext ref \<and>
         GetTiddler ext k ref AlwaysIncludeText h1 = (Inr t, h2) \<and>
         MarshalJSON ext t = Inr data \<longrightarrow>
      getBagTiddler ext k bag path ifNoneMatch h =
        (Inr \<lparr> status = 200,
               headers = [(''Etag'', etag_of ext ref), (''Content-Type'', ''application/json'')],
               body = data @ [CHR 0x0A] \<rparr>, h2)) \<and>
   (\<forall>ref h1 t h2 data. ResolveRef ext k (recipeAsked recipe path) False h = (Inr ref, h1) \<and>
         ifNoneMatch \<noteq> etag_of ext ref \<and>
         GetTiddler ext k ref AlwaysIncludeText h1 = (Inr t, h2) \<and>
         MarshalJSON ext (t\<lparr>Recipe := recipe\<rparr>) = Inr data \<longrightarrow>
      getRecipeTiddler ext k recipe path ifNoneMatch h =
        (Inr \<lparr> status = 200,
               headers = [(''Etag'', etag_of ext ref), (''Content-Type'', ''application/json'')],
               body = data @ [CHR 0x0A] \<rparr>, h2))"
proof (intro conjI allI impI)
  show "etag_of ext r = [CHR 0x22] @ Bag r @ ''/'' @ url_QueryEscape ext (Title r) @ ''/'' @
      fmt_d (time_Unix ext (Revision r)) @ '':'' @ blob_String ext (Ref r) @ [CHR 0x22]"
    by (simp add: etag_of_def)
next
  fix resp h'
  assume "getBagTiddler ext k bag path ifNoneMatch h = (Inr resp, h') \<and> status resp \<noteq> 304"
  then show "\<exists>ref h1. ResolveRef ext k (bagAsked bag path) False h = (Inr ref, h1) \<and>
         status resp = 200 \<and> map_of (headers resp) ''Etag'' = Some (etag_of ext ref)"
    using getBagTiddler_200 by blast
next
  fix resp h'
  assume "getRecipeTiddler ext k recipe path ifNoneMatch h = (Inr resp, h') \<and> status resp \<noteq> 304"
  then show "\<exists>ref h1. ResolveRef ext k (recipeAsked recipe path) False h = (Inr ref, h1) \<and>
         status resp = 200 \<and> map_of (headers resp) ''Etag'' = Some (etag_of ext ref)"
    using getRecipeTiddler_200 by blast
next
  fix ref h1
  assume "ResolveRef ext k (bagAsked bag path) False h = (Inr ref, h1) \<and> ifNoneMatch = etag_of ext ref"
  then show "getBagTiddler ext k bag path ifNoneMatch h =
        (Inr \<lparr> status = 304, headers = [], body = [] \<rparr>, h1)"
    using getBagTiddler_304 by blast
next
  fix ref h1
  assume "ResolveRef ext k (recipeAsked recipe path) False h = (Inr ref, h1) \<and> ifNoneMatch = etag_of ext ref"
  then show "getRecipeTiddler ext k recipe path ifNoneMatch h =
        (Inr \<lparr> status = 304, headers = [], body = [] \<rparr>, h1)"
    using getRecipeTiddler_304 by blast
next
  fix ref h1 t h2 data
  assume "ResolveRef ext k (bagAsked bag path) False h = (Inr ref, h1) \<and>
         ifNoneMatch \<noteq> etag_of ext ref \<and>
         GetTiddler ext k ref AlwaysIncludeText h1 = (Inr t, h2) \<and>
         MarshalJSON ext t = Inr data"
  then show "getBagTiddler ext k bag path ifNoneMatch h =
        (Inr \<lparr> status = 200,
               headers = [(''Etag'', etag_of ext ref), (''Content-Type'', ''application/json'')],
               body = data @ [CHR 0x0A] \<rparr>, h2)"
    using getBagTiddler_tiddler by blast
next
  fix ref h1 t h2 data
  assume "ResolveRef ext k (recipeAsked recipe path) False h = (Inr ref, h1) \<and>
         ifNoneMatch \<noteq> etag_of ext ref \<and>
         GetTiddler ext k ref AlwaysIncludeText h1 = (Inr t, h2) \<and>
         MarshalJSON ext (t\<lparr>Recipe := recipe\<rparr>) = Inr data"
  then show "getRecipeTiddler ext k recipe path ifNoneMatch h =
        (Inr \<lparr> status = 200,
               headers = [(''Etag'', etag_of ext ref), (''Content-Type'', ''application/json'')],
               body = data @ [CHR 0x0A] \<rparr>, h2)"
    using getRecipeTiddler_tiddler by blast
qed

theorem single_tiddler_etag_witness:
  "ResolveRef lib keep (bagAsked ''default'' ''/bags/default/tiddlers/Foo'') False hput =
     (Inr fooRef, hput @ [fooQuery]) \<and>
   ResolveRef lib keep (recipeAsked ''all'' ''/recipes/all/tiddlers/Foo'') False hput =
     (Inr fooRef, hput @ [fooAllQuery]) \<and>
   etag_of lib fooRef = fooEtag \<and>
   getBagTiddler lib keep ''default'' ''/bags/default/tiddlers/Foo'' [] hput =
     (Inr \<lparr> status = 200, headers = [(''Etag'', fooEtag), (''Content-Type'', ''application/json'')],
            body = fooJSON @ [CHR 0x0A] \<rparr>,
      hput @ [fooQuery, Call_Fetch (MetaRef fooRef), Call_FetchFile (TextRef fooRef)]) \<and>
   getBagTiddler lib keep ''default'' ''/bags/default/tiddlers/Foo'' fooEtag hput =
     (Inr \<lparr> status = 304, headers = [], body = [] \<rparr>, hput @ [fooQuery]) \<and>
   getRecipeTiddler lib keep ''all'' ''/recipes/all/tiddlers/Foo'' staleEtag hput =
     (Inr \<lparr> status = 200, headers = [(''Etag'', fooEtag), (''Content-Type'', ''application/json'')],
            body = fooAllJSON @ [CHR 0x0A] \<rparr>,
      hput @ [fooAllQuery, Call_Fetch (MetaRef fooRef), Call_FetchFile (TextRef fooRef)]) \<and>
   getRecipeTiddler lib keep ''all'' ''/recipes/all/tiddlers/Foo'' fooEtag hput =
     (Inr \<lparr> status = 304, headers = [], body = [] \<rparr>, hput @ [fooAllQuery])"
proof -
  note main = single_tiddler_etag [where ext = lib and k = keep and bag = "''default''"
      and path = "''/bags/default/tiddlers/Foo''" and recipe = "''all''" and h = hput]
  note mainR = single_tiddler_etag [where ext = lib and k = keep and recipe = "''all''"
      and path = "''/recipes/all/tiddlers/Foo''" and h = hput]
  have rb: "ResolveRef lib keep (bagAsked ''default'' ''/bags/default/tiddlers/Foo'') False hput =
     (Inr fooRef, hput @ [fooQuery])"
    by code_simp
  have rr: "ResolveRef lib keep (recipeAsked ''all'' ''/recipes/all/tiddlers/Foo'') False hput =
     (Inr fooRef, hput @ [fooAllQuery])"
    by code_simp
  have gb: "GetTiddler lib keep fooRef AlwaysIncludeText (hput @ [fooQuery]) =
     (Inr fooStored, hput @ [fooQuery, Call_Fetch (MetaRef fooRef), Call_FetchFile (TextRef fooRef)])"
    by code_simp
  have gr: "GetTiddler lib keep fooRef AlwaysIncludeText (hput @ [fooAllQuery]) =
     (Inr fooStored, hput @ [fooAllQuery, Call_Fetch (MetaRef fooRef), Call_FetchFile (TextRef fooRef)])"
    by code_simp
  have mb: "MarshalJSON lib fooStored = Inr fooJSON"
    by code_simp
  have mr: "MarshalJSON lib (fooStored\<lparr>Recipe := ''all''\<rparr>) = Inr fooAllJSON"
    by code_simp
  have e: "etag_of lib fooRef = fooEtag"
    by code_simp
  have absent: "[] \<noteq> etag_of lib fooRef" and stale: "staleEtag \<noteq> etag_of lib fooRef"
    unfolding e by code_simp+
  from main [where ifNoneMatch = "[]"] rb absent gb mb
  have b200: "getBagTiddler lib keep ''default'' ''/bags/default/tiddlers/Foo'' [] hput =
     (Inr \<lparr> status = 200,
            headers = [(''Etag'', etag_of lib fooRef), (''Content-Type'', ''application/json'')],
            body = fooJSON @ [CHR 0x0A] \<rparr>,
      hput @ [fooQuery, Call_Fetch (MetaRef fooRef), Call_FetchFile (TextRef fooRef)])"
    by blast
  from main [where ifNoneMatch = fooEtag] rb e [symmetric]
  have b304: "getBagTiddler lib keep ''default'' ''/bags/default/tiddlers/Foo'' fooEtag hput =
     (Inr \<lparr> status = 304, headers = [], body = [] \<rparr>, hput @ [fooQuery])"
    by blast
  from mainR [where ifNoneMatch = staleEtag] rr stale gr mr
  have r200: "getRecipeTiddler lib keep ''all'' ''/recipes/all/tiddlers/Foo'' staleEtag hput =
     (Inr \<lparr> status = 200,
            headers = [(''Etag'', etag_of lib fooRef), (''Content-Type'', ''application/json'')],
            body = fooAllJSON @ [CHR 0x0A] \<rparr>,
      hput @ [fooAllQuery, Call_Fetch (MetaRef fooRef), Call_FetchFile (TextRef fooRef)])"
    by blast
  from mainR [where ifNoneMatch = fooEtag] rr e [symmetric]
  have r304: "getRecipeTiddler lib keep ''all'' ''/recipes/all/tiddlers/Foo'' fooEtag hput =
     (Inr \<lparr> status = 304, headers = [], body = [] \<rparr>, hput @ [fooAllQuery])"
    by blast
  from rb rr e b200 b304 r200 r304 show ?thesis by simp
qed

section \<open>Writing a tiddler: the content claims\<close>

lemma grows_without_refl: "grows_without a h h"
  by (simp add: grows_without_def)

lemma grows_without_trans: "grows_without a h h1 \<Longrightarrow> grows_without a h1 h2 \<Longrightarrow> grows_without a h h2"
  by (auto simp: grows_without_def)

lemma grows_without_bind:
  assumes "grows_without a h (snd (m h))" and "\<And>x h1. grows_without a h1 (snd (f x h1))"
  shows "grows_without a h (snd (bind m f h))"
proof (cases "m h")
  case (Pair r h1)
  show ?thesis
  proof (cases r)
    case (Inl e)
    with Pair assms(1) show ?thesis by (simp add: bind_def)
  next
    case (Inr x)
    with Pair have "snd (bind m f h) = snd (f x h1)" by (simp add: bind_def)
    with assms(1) assms(2) [of h1 x] Pair show ?thesis
      by (auto intro: grows_without_trans)
  qed
qed

lemma grows_without_wrap:
  "grows_without a h (snd (m h)) \<Longrightarrow> grows_without a h (snd (wrap_error f m h))"
  by (auto simp: wrap_error_def split: prod.splits sum.splits)

lemma grows_without_sign:
  "\<not> claims_attr a (Call_UploadAndSignBlob cl) \<Longrightarrow>
   grows_without a h (snd (do_UploadAndSignBlob c cl h))"
  by (simp add: do_UploadAndSignBlob_def grows_without_def)

lemma grows_without_signEach:
  assumes "\<And>x. \<not> claims_attr a (Call_UploadAndSignBlob (mk x))"
  shows "grows_without a h (snd (signEach c mk xs h))"
proof (induction xs arbitrary: h)
  case Nil
  show ?case by (simp add: ret_def grows_without_refl)
next
  case (Cons x xs)
  have "grows_without a h (snd (do_UploadAndSignBlob c (mk x) h))"
    by (rule grows_without_sign) (rule assms)
  then have "grows_without a h
      (snd (bind (do_UploadAndSignBlob c (mk x)) (\<lambda>_. signEach c mk xs) h))"
    by (rule grows_without_bind) (rule Cons.IH)
  then show ?case by simp
qed

lemma grows_without_updateTags:
  assumes "a \<noteq> ''tag''"
  shows "grows_without a h (snd (updateTags rng c ref existing wanted h))"
  unfolding updateTags_def using assms
  by (auto simp: ret_def grows_without_refl
      intro!: grows_without_bind grows_without_signEach grows_without_sign)

lemma grows_without_createPermanode:
  assumes "a \<noteq> ''title''" "a \<noteq> ''tiddlerBag''" "a \<noteq> ''camliDefVis''"
  shows "grows_without a h (snd (createPermanode k r h))"
proof -
  have n: "grows_without a h' (snd (do_UploadNewPermanode c h'))" for c :: "'a Client" and h'
    by (simp add: do_UploadNewPermanode_def grows_without_def)
  show ?thesis
    unfolding createPermanode_def Let_def using assms
    by (intro grows_without_bind grows_without_wrap n)
       (auto simp: ret_def grows_without_refl intro!: grows_without_wrap grows_without_sign)
qed

lemma grows_without_getTiddlerPermanode:
  assumes "a \<noteq> ''title''" "a \<noteq> ''tiddlerBag''" "a \<noteq> ''camliDefVis''"
  shows "grows_without a h (snd (getTiddlerPermanode ext k r cm h))"
proof -
  have q: "grows_without a h (snd (searchTiddlers k c True h))" for c
    by (simp add: searchTiddlers_def do_Query_def grows_without_def)
  have d: "grows_without a h' (snd (do_Describe c r' attrs h'))" for c :: "'a Client" and r' attrs h'
    by (simp add: do_Describe_def grows_without_def)
  have cr: "grows_without a h (snd (createPermanode k r (snd (searchTiddlers k c True h))))" for c
    using q grows_without_createPermanode [OF assms] by (rule grows_without_trans)
  show ?thesis
    unfolding getTiddlerPermanode_def
    by (auto simp: Let_def fail_def ret_def q cr grows_without_refl
        intro!: grows_without_bind d split: sum.splits list.splits option.splits)
qed

lemma grows_without_resolveRef:
  assumes "a \<noteq> ''title''" "a \<noteq> ''tiddlerBag''" "a \<noteq> ''camliDefVis''"
  shows "grows_without a h (snd (resolveRef ext k r cm h))"
  unfolding resolveRef_def ResolveRef_def
  by (auto simp: ret_def grows_without_refl
      intro!: grows_without_bind grows_without_getTiddlerPermanode assms)

lemma claimIfChanged_same:
  "claimIfChanged ext c n a r r h = (Inr (), h)"
  by (simp add: claimIfChanged_def ret_def)

lemma claimIfChanged_differs:
  "up \<noteq> current \<Longrightarrow>
   claimIfChanged ext c n a up current h =
     (UploadAndSignBlob c h (SetAttributeClaim n a (blob_String ext up)),
      h @ [Call_UploadAndSignBlob (SetAttributeClaim n a (blob_String ext up))])"
  by (simp add: claimIfChanged_def do_UploadAndSignBlob_def)

lemma PutTiddler_after_resolve:
  assumes "ToJSONObject ext (withDefaultBag t0) = Inr obj"
    and "json_Marshal ext (metaObject obj) = Inr meta"
    and "decodedText ext (withDefaultBag t0) = Inr decoded"
    and "do_UploadFile (Client k) [] decoded h = (Inr textBlobRef, h1)"
    and "uploadBlob ext (Client k) meta h1 = (Inr metaBlobRef, h2)"
    and "resolveRef ext k (refToResolve (withDefaultBag t0)) True h2 = (Inr existing, h3)"
  shows "PutTiddler ext rng k t0 h =
     bind (claimIfChanged ext (Client k) (Ref existing) ''camliContent'' textBlobRef (TextRef existing)) (\<lambda>_.
     bind (claimIfChanged ext (Client k) (Ref existing) ''tiddlerMeta'' metaBlobRef (MetaRef existing)) (\<lambda>_.
     bind (updateTags rng (Client k) (Ref existing)
            (stringset_New (Tags existing)) (stringset_New (Tags (withDefaultBag t0)))) (\<lambda>_.
     ret (withDefaultBag t0)))) h3"
  using assms by (simp add: PutTiddler_def Let_def bind_def)

lemma PutTiddler_before_claims:
  assumes "do_UploadFile (Client k) [] decoded h = (Inr textBlobRef, h1)"
    and "uploadBlob ext (Client k) meta h1 = (Inr metaBlobRef, h2)"
    and "resolveRef ext k r True h2 = (Inr existing, h3)"
    and "a = ''camliContent'' \<or> a = ''tiddlerMeta''"
  shows "grows_without a h h3"
proof -
  from assms(1) have "grows_without a h h1"
    by (auto simp: do_UploadFile_def grows_without_def)
  moreover from assms(2) have "grows_without a h1 h2"
    by (auto simp: uploadBlob_def do_Upload_def grows_without_def)
  moreover from assms(4) have "grows_without a h2 (snd (resolveRef ext k r True h2))"
    by (auto intro: grows_without_resolveRef)
  with assms(3) have "grows_without a h2 h3" by simp
  ultimately show ?thesis by (blast intro: grows_without_trans)
qed

lemma grows_without_both:
  assumes "grows_without a h h'" "grows_without b h h'"
  shows "\<exists>tr. h' = h @ tr \<and> (\<forall>c \<in> set tr. \<not> claims_attr a c \<and> \<not> claims_attr b c)"
  using assms by (auto simp: grows_without_def)

lemma claimIfChanged_calls:
  "\<exists>r. claimIfChanged ext c n a up current h = (r, h @ claim_calls ext a n up current) \<and>
       (up = current \<longrightarrow> r = Inr ()) \<and>
       (up \<noteq> current \<longrightarrow> r = UploadAndSignBlob c h (SetAttributeClaim n a (blob_String ext up)))"
  by (cases "up = current")
     (simp_all add: claimIfChanged_same claimIfChanged_differs claim_calls_def content_call_def)

lemma claims_attr_content_call: "claims_attr b (content_call a n s) = (a = b)"
  by (simp add: content_call_def)

lemma claim_calls_attr:
  "x \<in> set (claim_calls ext a n up current) \<Longrightarrow>
     up \<noteq> current \<and> x = content_call a n (blob_String ext up)"
  by (auto simp: claim_calls_def split: if_splits)

lemma claim_calls_differs:
  "up \<noteq> current \<Longrightarrow> content_call a n (blob_String ext up) \<in> set (claim_calls ext a n up current)"
  by (simp add: claim_calls_def)

lemma claim_calls_same: "claim_calls ext a n r r = []"
  by (simp add: claim_calls_def)

text \<open>The shape of what the tail of \<open>PutTiddler\<close> appends.\<close>

lemma content_claims_shape:
  assumes run: "bind (claimIfChanged ext c n ''camliContent'' tb cur_t) (\<lambda>_.
     bind (claimIfChanged ext c n ''tiddlerMeta'' mb cur_m) (\<lambda>_.
     bind (updateTags rng c n E W) (\<lambda>_. ret t))) h3 = (res, h')"
  shows "\<exists>B T. h' = h3 @ claim_calls ext ''camliContent'' n tb cur_t @ B @ T \<and>
     (B = [] \<or> B = claim_calls ext ''tiddlerMeta'' n mb cur_m) \<and>
     (\<forall>x \<in> set T. \<not> claims_attr ''camliContent'' x \<and> \<not> claims_attr ''tiddlerMeta'' x) \<and>
     (tb = cur_t \<or> UploadAndSignBlob c h3 (SetAttributeClaim n ''camliContent'' (blob_String ext tb)) = Inr ()
        \<longrightarrow> B = claim_calls ext ''tiddlerMeta'' n mb cur_m) \<and>
     (tb = cur_t \<and> mb = cur_m \<and> W = E \<longrightarrow> T = [] \<and> res = Inr t)"
proof -
  let ?A = "claim_calls ext ''camliContent'' n tb cur_t"
  let ?B = "claim_calls ext ''tiddlerMeta'' n mb cur_m"
  from claimIfChanged_calls [of ext c n "''camliContent''" tb cur_t h3]
  obtain r1 where m1: "claimIfChanged ext c n ''camliContent'' tb cur_t h3 = (r1, h3 @ ?A)"
    and r1s: "tb = cur_t \<longrightarrow> r1 = Inr ()"
    and r1d: "tb \<noteq> cur_t \<longrightarrow> r1 = UploadAndSignBlob c h3 (SetAttributeClaim n ''camliContent'' (blob_String ext tb))"
    by blast
  from claimIfChanged_calls [of ext c n "''tiddlerMeta''" mb cur_m "h3 @ ?A"]
  obtain r2 where m2: "claimIfChanged ext c n ''tiddlerMeta'' mb cur_m (h3 @ ?A) = (r2, (h3 @ ?A) @ ?B)"
    and r2s: "mb = cur_m \<longrightarrow> r2 = Inr ()"
    by blast
  have "grows_without ''camliContent'' ((h3 @ ?A) @ ?B) (snd (updateTags rng c n E W ((h3 @ ?A) @ ?B)))"
    and "grows_without ''tiddlerMeta'' ((h3 @ ?A) @ ?B) (snd (updateTags rng c n E W ((h3 @ ?A) @ ?B)))"
    by (rule grows_without_updateTags, simp)+
  then obtain tr3 where m3: "snd (updateTags rng c n E W ((h3 @ ?A) @ ?B)) = ((h3 @ ?A) @ ?B) @ tr3"
    and t3: "\<forall>x \<in> set tr3. \<not> claims_attr ''camliContent'' x \<and> \<not> claims_attr ''tiddlerMeta'' x"
    using grows_without_both by blast
  have eq: "W = E \<longrightarrow> updateTags rng c n E W ((h3 @ ?A) @ ?B) = (Inr (), (h3 @ ?A) @ ?B)"
    by (simp add: updateTags_def ret_def)
  show ?thesis
  proof (cases r1)
    case (Inl e)
    with run m1 have h': "h' = h3 @ ?A @ [] @ []" by (simp add: bind_def)
    from Inl r1s r1d have "tb \<noteq> cur_t"
      and "UploadAndSignBlob c h3 (SetAttributeClaim n ''camliContent'' (blob_String ext tb)) \<noteq> Inr ()"
      by auto
    with h' show ?thesis
      by (intro exI [of _ "[]"] conjI) simp_all
  next
    case a: (Inr u1)
    show ?thesis
    proof (cases r2)
      case (Inl e)
      with a run m1 m2 have h': "h' = h3 @ ?A @ ?B @ []" by (simp add: bind_def)
      from Inl r2s have "mb \<noteq> cur_m" by auto
      with h' show ?thesis
        by (intro exI [of _ ?B] exI [of _ "[]"] conjI) simp_all
    next
      case b: (Inr u2)
      obtain r3 where u: "updateTags rng c n E W ((h3 @ ?A) @ ?B) = (r3, ((h3 @ ?A) @ ?B) @ tr3)"
        using m3 by (cases "updateTags rng c n E W ((h3 @ ?A) @ ?B)") auto
      with a b run m1 m2 have h': "h' = h3 @ ?A @ ?B @ tr3"
        and res: "res = (case r3 of Inl e \<Rightarrow> Inl e | Inr _ \<Rightarrow> Inr t)"
        by (auto simp: bind_def ret_def split: sum.splits)
      from eq u have "W = E \<longrightarrow> tr3 = [] \<and> r3 = Inr ()" by auto
      with res have "W = E \<longrightarrow> tr3 = [] \<and> res = Inr t" by simp
      with h' t3 show ?thesis
        by (intro exI [of _ ?B] exI [of _ tr3] conjI) simp_all
    qed
  qed
qed

text \<open>
  The guard of the content claims. Take a \<open>PutTiddler\<close> whose two uploads returned the handles \<open>textBlobRef\<close> and
  \<open>metaBlobRef\<close> and whose resolution returned the node \<open>existing\<close>. Up to there no claim on
  \<open>camliContent\<close> or \<open>tiddlerMeta\<close> was signed. Of the calls after the resolution, one
  claims \<open>camliContent\<close> only if \<open>textBlobRef\<close> differs from the node's \<open>TextRef\<close>, and it is
  then the claim that sets it to \<open>textBlobRef\<close>, which is indeed signed; one claims
  \<open>tiddlerMeta\<close> only if \<open>metaBlobRef\<close> differs from the node's \<open>MetaRef\<close>, and it is the
  claim that sets it to \<open>metaBlobRef\<close>, signed unless the body claim failed. So when the store
  hands back the same two handles and the node already carries them, as on a second
  \<open>PutTiddler\<close> of the same tiddler, and the tags agree, nothing at all is signed after the
  resolution and the call succeeds.
\<close>

lemma PutTiddler_content_claims:
  assumes "ToJSONObject ext (withDefaultBag t0) = Inr obj"
    and "json_Marshal ext (metaObject obj) = Inr meta"
    and "decodedText ext (withDefaultBag t0) = Inr decoded"
    and "do_UploadFile (Client k) [] decoded h = (Inr textBlobRef, h1)"
    and "uploadBlob ext (Client k) meta h1 = (Inr metaBlobRef, h2)"
    and "resolveRef ext k (refToResolve (withDefaultBag t0)) True h2 = (Inr existing, h3)"
  shows "grows_without ''camliContent'' h h3 \<and> grows_without ''tiddlerMeta'' h h3 \<and>
    (\<exists>tr. snd (PutTiddler ext rng k t0 h) = h3 @ tr \<and>
      (\<forall>x \<in> set tr. claims_attr ''camliContent'' x \<longrightarrow>
          textBlobRef \<noteq> TextRef existing \<and>
          x = content_call ''camliContent'' (Ref existing) (blob_String ext textBlobRef)) \<and>
      (\<forall>x \<in> set tr. claims_attr ''tiddlerMeta'' x \<longrightarrow>
          metaBlobRef \<noteq> MetaRef existing \<and>
          x = content_call ''tiddlerMeta'' (Ref existing) (blob_String ext metaBlobRef)) \<and>
      (textBlobRef \<noteq> TextRef existing \<longrightarrow>
          content_call ''camliContent'' (Ref existing) (blob_String ext textBlobRef) \<in> set tr) \<and>
      (metaBlobRef \<noteq> MetaRef existing \<and>
         (textBlobRef = TextRef existing \<or>
          UploadAndSignBlob (Client k) h3
            (SetAttributeClaim (Ref existing) ''camliContent'' (blob_String ext textBlobRef)) = Inr ()) \<longrightarrow>
          content_call ''tiddlerMeta'' (Ref existing) (blob_String ext metaBlobRef) \<in> set tr) \<and>
      (textBlobRef = TextRef existing \<and> metaBlobRef = MetaRef existing \<and>
         set (Tags existing) = set (Tags t0) \<longrightarrow>
          tr = [] \<and> fst (PutTiddler ext rng k t0 h) = Inr (withDefaultBag t0)))"
proof (intro conjI)
  show "grows_without ''camliContent'' h h3"
    using assms(4,5,6) by (rule PutTiddler_before_claims) simp
  show "grows_without ''tiddlerMeta'' h h3"
    using assms(4,5,6) by (rule PutTiddler_before_claims) simp
  let ?A = "claim_calls ext ''camliContent'' (Ref existing) textBlobRef (TextRef existing)"
  let ?M = "claim_calls ext ''tiddlerMeta'' (Ref existing) metaBlobRef (MetaRef existing)"
  obtain res h' where p: "PutTiddler ext rng k t0 h = (res, h')"
    by (cases "PutTiddler ext rng k t0 h")
  with PutTiddler_after_resolve [OF assms, of rng]
  have run: "bind (claimIfChanged ext (Client k) (Ref existing) ''camliContent'' textBlobRef (TextRef existing)) (\<lambda>_.
     bind (claimIfChanged ext (Client k) (Ref existing) ''tiddlerMeta'' metaBlobRef (MetaRef existing)) (\<lambda>_.
     bind (updateTags rng (Client k) (Ref existing)
            (stringset_New (Tags existing)) (stringset_New (Tags (withDefaultBag t0)))) (\<lambda>_.
     ret (withDefaultBag t0)))) h3 = (res, h')"
    by simp
  from content_claims_shape [OF run]
  obtain B T where h': "h' = h3 @ ?A @ B @ T"
    and B: "B = [] \<or> B = ?M"
    and T: "\<forall>x \<in> set T. \<not> claims_attr ''camliContent'' x \<and> \<not> claims_attr ''tiddlerMeta'' x"
    and Bfull: "textBlobRef = TextRef existing \<or>
        UploadAndSignBlob (Client k) h3
          (SetAttributeClaim (Ref existing) ''camliContent'' (blob_String ext textBlobRef)) = Inr ()
        \<longrightarrow> B = ?M"
    and same: "textBlobRef = TextRef existing \<and> metaBlobRef = MetaRef existing \<and>
        stringset_New (Tags (withDefaultBag t0)) = stringset_New (Tags existing) \<longrightarrow>
        T = [] \<and> res = Inr (withDefaultBag t0)"
    by blast
  have tags: "Tags (withDefaultBag t0) = Tags t0" by (simp add: withDefaultBag_def)
  have inA: "x \<in> set ?A \<Longrightarrow> textBlobRef \<noteq> TextRef existing \<and>
      x = content_call ''camliContent'' (Ref existing) (blob_String ext textBlobRef) \<and>
      claims_attr ''camliContent'' x \<and> \<not> claims_attr ''tiddlerMeta'' x" for x
    by (auto dest!: claim_calls_attr simp: claims_attr_content_call)
  have inB: "x \<in> set B \<Longrightarrow> metaBlobRef \<noteq> MetaRef existing \<and>
      x = content_call ''tiddlerMeta'' (Ref existing) (blob_String ext metaBlobRef) \<and>
      claims_attr ''tiddlerMeta'' x \<and> \<not> claims_attr ''camliContent'' x" for x
    using B by (auto dest!: claim_calls_attr simp: claims_attr_content_call)
  show "\<exists>tr. snd (PutTiddler ext rng k t0 h) = h3 @ tr \<and>
      (\<forall>x \<in> set tr. claims_attr ''camliContent'' x \<longrightarrow>
          textBlobRef \<noteq> TextRef existing \<and>
          x = content_call ''camliContent'' (Ref existing) (blob_String ext textBlobRef)) \<and>
      (\<forall>x \<in> set tr. claims_attr ''tiddlerMeta'' x \<longrightarrow>
          metaBlobRef \<noteq> MetaRef existing \<and>
          x = content_call ''tiddlerMeta'' (Ref existing) (blob_String ext metaBlobRef)) \<and>
      (textBlobRef \<noteq> TextRef existing \<longrightarrow>
          content_call ''camliContent'' (Ref existing) (blob_String ext textBlobRef) \<in> set tr) \<and>
      (metaBlobRef \<noteq> MetaRef existing \<and>
         (textBlobRef = TextRef existing \<or>
          UploadAndSignBlob (Client k) h3
            (SetAttributeClaim (Ref existing) ''camliContent'' (blob_String ext textBlobRef)) = Inr ()) \<longrightarrow>
          content_call ''tiddlerMeta'' (Ref existing) (blob_String ext metaBlobRef) \<in> set tr) \<and>
      (textBlobRef = TextRef existing \<and> metaBlobRef = MetaRef existing \<and>
         set (Tags existing) = set (Tags t0) \<longrightarrow>
          tr = [] \<and> fst (PutTiddler ext rng k t0 h) = Inr (withDefaultBag t0))"
  proof (intro exI [of _ "?A @ B @ T"] conjI ballI impI)
    show "snd (PutTiddler ext rng k t0 h) = h3 @ ?A @ B @ T"
      using p h' by simp
  next
    fix x assume "x \<in> set (?A @ B @ T)" and c: "claims_attr ''camliContent'' x"
    then have "x \<in> set ?A \<or> x \<in> set B \<or> x \<in> set T" by simp
    with c T inA inB
    show "textBlobRef \<noteq> TextRef existing"
      and "x = content_call ''camliContent'' (Ref existing) (blob_String ext textBlobRef)"
      by blast+
  next
    fix x assume "x \<in> set (?A @ B @ T)" and c: "claims_attr ''tiddlerMeta'' x"
    then have "x \<in> set ?A \<or> x \<in> set B \<or> x \<in> set T" by simp
    with c T inA inB
    show "metaBlobRef \<noteq> MetaRef existing"
      and "x = content_call ''tiddlerMeta'' (Ref existing) (blob_String ext metaBlobRef)"
      by blast+
  next
    assume "textBlobRef \<noteq> TextRef existing"
    then show "content_call ''camliContent'' (Ref existing) (blob_String ext textBlobRef) \<in> set (?A @ B @ T)"
      by (simp add: claim_calls_differs)
  next
    assume a: "metaBlobRef \<noteq> MetaRef existing \<and>
         (textBlobRef = TextRef existing \<or>
          UploadAndSignBlob (Client k) h3
            (SetAttributeClaim (Ref existing) ''camliContent'' (blob_String ext textBlobRef)) = Inr ())"
    with Bfull have "B = ?M" by blast
    with a show "content_call ''tiddlerMeta'' (Ref existing) (blob_String ext metaBlobRef) \<in> set (?A @ B @ T)"
      by (simp add: claim_calls_differs)
  next
    assume a: "textBlobRef = TextRef existing \<and> metaBlobRef = MetaRef existing \<and>
         set (Tags existing) = set (Tags t0)"
    with same tags have t: "T = []" and r: "res = Inr (withDefaultBag t0)"
      by (simp_all add: stringset_New_def)
    from a B have "?A = []" "B = []" by (auto simp: claim_calls_same)
    with t show "?A @ B @ T = []" by simp
    from r p show "fst (PutTiddler ext rng k t0 h) = Inr (withDefaultBag t0)" by simp
  qed
qed

text \<open>
  On the reference store: a first \<open>PutTiddler\<close> of \<open>foo\<close> makes the node and signs its
  claims, and a second one uploads, resolves and signs nothing; the node reads the same
  before and after.
\<close>

lemma PutTiddler_twice_on_reference_store:
  "PutTiddler lib sorted_list_of_set keep foo [] = (Inr (withDefaultBag foo), hput) \<and>
   ResolveRef lib keep fooAsked False hput = (Inr fooRef, hput @ [fooQuery]) \<and>
   PutTiddler lib sorted_list_of_set keep (withDefaultBag foo) hput = (Inr (withDefaultBag foo), hput2) \<and>
   ResolveRef lib keep fooAsked False hput2 = (Inr fooRef, hput2 @ [fooQuery])"
proof -
  let ?t = "withDefaultBag foo"
  have p1: "PutTiddler lib sorted_list_of_set keep foo [] = (Inr ?t, hput)"
    by code_simp
  have r1: "ResolveRef lib keep fooAsked False hput = (Inr fooRef, hput @ [fooQuery])"
    by code_simp
  have a1: "ToJSONObject lib (withDefaultBag ?t) = Inr fooObject"
    by code_simp
  have a2: "json_Marshal lib (metaObject fooObject) = Inr fooMeta"
    by code_simp
  have a3: "decodedText lib (withDefaultBag ?t) = Inr ''hello''"
    by code_simp
  have a4: "do_UploadFile (Client keep) [] ''hello'' hput =
      (Inr (TextRef fooRef), hput @ [Call_UploadFile [] ''hello''])"
    by code_simp
  have a5: "uploadBlob lib (Client keep) fooMeta (hput @ [Call_UploadFile [] ''hello'']) =
      (Inr (MetaRef fooRef), hput @ [Call_UploadFile [] ''hello'',
         Call_Upload (DigestRef (''sha224-'' @ fooMeta)) fooMeta])"
    by code_simp
  have a6: "resolveRef lib keep (refToResolve (withDefaultBag ?t)) True
      (hput @ [Call_UploadFile [] ''hello'', Call_Upload (DigestRef (''sha224-'' @ fooMeta)) fooMeta]) =
      (Inr fooRef, hput2)"
    by code_simp
  have tags: "set (Tags fooRef) = set (Tags ?t)"
    by code_simp
  from PutTiddler_content_claims [OF a1 a2 a3 a4 a5 a6, of sorted_list_of_set] tags
  have "snd (PutTiddler lib sorted_list_of_set keep ?t hput) = hput2"
    and "fst (PutTiddler lib sorted_list_of_set keep ?t hput) = Inr (withDefaultBag ?t)"
    by auto
  moreover have "withDefaultBag ?t = ?t" by (simp add: withDefaultBag_def)
  ultimately have p2: "PutTiddler lib sorted_list_of_set keep ?t hput = (Inr ?t, hput2)"
    by (simp add: prod_eq_iff)
  have r2: "ResolveRef lib keep fooAsked False hput2 = (Inr fooRef, hput2 @ [fooQuery])"
    by code_simp
  from p1 r1 p2 r2 show ?thesis by simp
qed

text \<open>
  Claim C3. The specification says that \<open>PutTiddler\<close> signs a claim on the body attribute or
  on the metadata attribute only when the handle just uploaded differs from the one the node
  carries, and that a second \<open>PutTiddler\<close> of an identical tiddler therefore signs no content
  claim. The guard is as stated, and with a search that answers the second call of \<open>foo\<close>
  signs nothing. When the search of the store fails during the second call and its other
  calls succeed, the second call succeeds all the same: the error of the search is taken for
  an empty result, a second node is made for the same title and bag, and both content claims
  are signed again, on that node, with the very handles the first node carries. The store
  then holds two nodes for \<open>Foo\<close> in the bag \<open>default\<close>.
\<close>

theorem PutTiddler_twice_search_fails:
  "PutTiddler lib sorted_list_of_set keep foo [] = (Inr (withDefaultBag foo), hput) \<and>
   PutTiddler lib sorted_list_of_set keep foo hput = (Inr (withDefaultBag foo), hput2) \<and>
   PutTiddler lib sorted_list_of_set keepQueryDown foo hput = (Inr (withDefaultBag foo), hputDown) \<and>
   TextRef fooRef = file_ref ''hello'' \<and> MetaRef fooRef = DigestRef (''sha224-'' @ fooMeta) \<and>
   (case Query memStore hputDown (Logical_and (Permanode_Value ''title'' ''Foo'')
       (Permanode_Value ''tiddlerBag'' ''default'')) tiddlerPermanodeAttrs of
      Inl err \<Rightarrow> [] | Inr res \<Rightarrow> Blobs res) = [node_ref 0, node_ref 1]"
proof (intro conjI)
  show "PutTiddler lib sorted_list_of_set keep foo [] = (Inr (withDefaultBag foo), hput)"
    by code_simp
  show "PutTiddler lib sorted_list_of_set keep foo hput = (Inr (withDefaultBag foo), hput2)"
    by code_simp
  show "PutTiddler lib sorted_list_of_set keepQueryDown foo hput = (Inr (withDefaultBag foo), hputDown)"
    by code_simp
  show "TextRef fooRef = file_ref ''hello''"
    by code_simp
  show "MetaRef fooRef = DigestRef (''sha224-'' @ fooMeta)"
    by code_simp
  show "(case Query memStore hputDown (Logical_and (Permanode_Value ''title'' ''Foo'')
       (Permanode_Value ''tiddlerBag'' ''default'')) tiddlerPermanodeAttrs of
      Inl err \<Rightarrow> [] | Inr res \<Rightarrow> Blobs res) = [node_ref 0, node_ref 1]"
    by code_simp
qed

section \<open>A search that fails\<close>

lemma search_error_dropped:
  assumes "\<not> Valid (Ref r)" "Title r \<noteq> []" "bagConstraint r = Inr bc"
    and "Query (Client k) h (Logical_and (Permanode_Value ''title'' (Title r)) bc) tiddlerPermanodeAttrs = Inl e"
  shows "getTiddlerPermanode ext k r False h =
           (Inl (TiddlerNotFound (Title r)),
            h @ [Call_Query (Logical_and (Permanode_Value ''title'' (Title r)) bc) tiddlerPermanodeAttrs])"
    and "getTiddlerPermanode ext k r True h =
           createPermanode k r
            (h @ [Call_Query (Logical_and (Permanode_Value ''title'' (Title r)) bc) tiddlerPermanodeAttrs])"
proof -
  from assms(3) have nb: "\<not> (Bag r = [] \<and> Recipe r = [])"
    by (auto simp: bagConstraint_def split: if_splits)
  from assms nb show "getTiddlerPermanode ext k r False h =
           (Inl (TiddlerNotFound (Title r)),
            h @ [Call_Query (Logical_and (Permanode_Value ''title'' (Title r)) bc) tiddlerPermanodeAttrs])"
    by (auto simp: getTiddlerPermanode_def searchTiddlers_def do_Query_def Let_def fail_def)
  from assms nb show "getTiddlerPermanode ext k r True h =
           createPermanode k r
            (h @ [Call_Query (Logical_and (Permanode_Value ''title'' (Title r)) bc) tiddlerPermanodeAttrs])"
    by (auto simp: getTiddlerPermanode_def searchTiddlers_def do_Query_def Let_def)
qed

text \<open>
  Claim C6. The specification says that every error of the store is propagated, the search
  query of resolve-or-create included. The search of \<open>getTiddlerPermanode\<close> does not do so.
  On a store that holds \<open>Foo\<close> in the bag \<open>default\<close> and whose query fails, resolving without
  creation answers with the not-found error in place of the store's error, and resolving with
  creation drops the error and makes a second node for the same title and bag.
\<close>

theorem search_failure_is_not_propagated:
  "Query queryDown hput (Logical_and (Permanode_Value ''title'' ''Foo'')
      (Permanode_Value ''tiddlerBag'' ''default'')) tiddlerPermanodeAttrs =
     Inl (StoreError ''connection refused'') \<and>
   ResolveRef lib keepQueryDown fooAsked False hput = (Inl (TiddlerNotFound ''Foo''), hput @ [fooQuery]) \<and>
   ResolveRef lib keepQueryDown fooAsked True hput =
     (Inr (TiddlerRef_zero\<lparr>Ref := node_ref 1\<rparr>),
      hput @ [fooQuery, Call_UploadNewPermanode,
        Call_UploadAndSignBlob (SetAttributeClaim (node_ref 1) ''title'' ''Foo''),
        Call_UploadAndSignBlob (SetAttributeClaim (node_ref 1) ''tiddlerBag'' ''default'')])"
proof (intro conjI)
  show "Query queryDown hput (Logical_and (Permanode_Value ''title'' ''Foo'')
      (Permanode_Value ''tiddlerBag'' ''default'')) tiddlerPermanodeAttrs =
     Inl (StoreError ''connection refused'')"
    by (simp add: queryDown_def)
  show "ResolveRef lib keepQueryDown fooAsked False hput = (Inl (TiddlerNotFound ''Foo''), hput @ [fooQuery])"
    by code_simp
  show "ResolveRef lib keepQueryDown fooAsked True hput =
     (Inr (TiddlerRef_zero\<lparr>Ref := node_ref 1\<rparr>),
      hput @ [fooQuery, Call_UploadNewPermanode,
        Call_UploadAndSignBlob (SetAttributeClaim (node_ref 1) ''title'' ''Foo''),
        Call_UploadAndSignBlob (SetAttributeClaim (node_ref 1) ''tiddlerBag'' ''default'')])"
    by code_simp
qed

section \<open>The JSON form: decoding and the round trip\<close>

lemma fold_by_key:
  assumes step: "\<And>e t. sel (step e t) = (if fst e = key then upd (snd e) (sel t) else sel t)"
    and d: "distinct (map fst m)"
  shows "sel (fold step m t) = (case map_of m key of Some v \<Rightarrow> upd v (sel t) | None \<Rightarrow> sel t)"
  using d
proof (induction m arbitrary: t)
  case Nil
  show ?case by simp
next
  case (Cons e m)
  from Cons.prems have d: "distinct (map fst m)" and n: "fst e \<notin> fst ` set m" by simp_all
  have ih: "sel (fold step m (step e t)) =
      (case map_of m key of Some v \<Rightarrow> upd v (sel (step e t)) | None \<Rightarrow> sel (step e t))"
    using d by (rule Cons.IH)
  have mo: "map_of (e # m) key = (if fst e = key then Some (snd e) else map_of m key)"
    by (cases e) simp
  show ?case
  proof (cases "fst e = key")
    case True
    with n have "map_of m key = None" by (simp add: map_of_eq_None_iff)
    with True ih mo show ?thesis by (simp add: step)
  next
    case False
    with ih mo show ?thesis by (simp add: step split: option.split)
  qed
qed

lemma fold_untouched:
  assumes "\<And>e t. sel (step e t) = sel t"
  shows "sel (fold step m t) = sel t"
  by (induction m arbitrary: t) (simp_all add: assms)

lemma merge_entry_Title:
  "Title (merge_entry ext e t) = (if fst e = ''title'' then toString ext (snd e) else Title t)"
  by (simp add: merge_entry_def Let_def split: option.split iface.split)

lemma merge_entry_Revision:
  "Revision (merge_entry ext e t) =
     (if fst e = ''revision''
      then (case time_Parse ext (toString ext (snd e)) of Some r \<Rightarrow> r | None \<Rightarrow> Revision t)
      else Revision t)"
  by (simp add: merge_entry_def Let_def split: option.split iface.split)

lemma merge_entry_Tags:
  "Tags (merge_entry ext e t) =
     (if fst e = ''tags''
      then (case snd e of VStrings tags \<Rightarrow> tags | VSlice tags \<Rightarrow> map (toString ext) tags | _ \<Rightarrow> Tags t)
      else Tags t)"
  by (simp add: merge_entry_def Let_def split: option.split iface.split)

lemma merge_entry_Type:
  "Type (merge_entry ext e t) = (if fst e = ''type'' then toString ext (snd e) else Type t)"
  by (simp add: merge_entry_def Let_def split: option.split iface.split)

lemma merge_entry_Bag:
  "Bag (merge_entry ext e t) = (if fst e = ''bag'' then toString ext (snd e) else Bag t)"
  by (simp add: merge_entry_def Let_def split: option.split iface.split)

lemma merge_entry_Recipe:
  "Recipe (merge_entry ext e t) = (if fst e = ''recipe'' then toString ext (snd e) else Recipe t)"
  by (simp add: merge_entry_def Let_def split: option.split iface.split)

lemma merge_entry_Permissions:
  "Permissions (merge_entry ext e t) = (if fst e = ''permissions'' then toString ext (snd e) else Permissions t)"
  by (simp add: merge_entry_def Let_def split: option.split iface.split)

lemma merge_entry_Creator:
  "Creator (merge_entry ext e t) = (if fst e = ''creator'' then toString ext (snd e) else Creator t)"
  by (simp add: merge_entry_def Let_def split: option.split iface.split)

lemma merge_entry_Created:
  "Created (merge_entry ext e t) = (if fst e = ''created'' then toString ext (snd e) else Created t)"
  by (simp add: merge_entry_def Let_def split: option.split iface.split)

lemma merge_entry_Modifier:
  "Modifier (merge_entry ext e t) = (if fst e = ''modifier'' then toString ext (snd e) else Modifier t)"
  by (simp add: merge_entry_def Let_def split: option.split iface.split)

lemma merge_entry_Modified:
  "Modified (merge_entry ext e t) = (if fst e = ''modified'' then toString ext (snd e) else Modified t)"
  by (simp add: merge_entry_def Let_def split: option.split iface.split)

lemma merge_entry_refs:
  "Ref (merge_entry ext e t) = Ref t"
  "TextRef (merge_entry ext e t) = TextRef t"
  "MetaRef (merge_entry ext e t) = MetaRef t"
  by (simp_all add: merge_entry_def Let_def split: option.split iface.split)

lemma merge_entry_more:
  "TiddlerMeta.more (merge_entry ext e t) = TiddlerMeta.more t"
  by (simp add: merge_entry_def Let_def split: option.split iface.split)

lemma merge_entry_Fields:
  "map_of (Fields (merge_entry ext e t)) k =
     (if fst e = k \<and> k \<notin> reserved_keys then Some (snd e) else map_of (Fields t) k)"
  by (auto simp: merge_entry_def Let_def reserved_keys_def AList.update_conv'
      split: option.split iface.split)

lemma MergeFrom_sel:
  assumes step: "\<And>e t. sel (merge_entry ext e t) = (if fst e = key then upd (snd e) (sel t) else sel t)"
    and frame: "\<And>F x (t :: 'tm Tiddler). sel (t\<lparr>Fields := F\<rparr>) = sel t \<and> sel (t\<lparr>Text := x\<rparr>) = sel t"
    and d: "distinct (map fst m)"
  shows "sel (MergeFrom ext m t) = (case map_of m key of Some v \<Rightarrow> upd v (sel t) | None \<Rightarrow> sel t)"
proof -
  have "sel (TiddlerMeta_MergeFrom ext m t) =
      (case map_of m key of Some v \<Rightarrow> upd v (sel t) | None \<Rightarrow> sel t)"
    unfolding TiddlerMeta_MergeFrom_def
    by (subst fold_by_key [where sel = sel and key = key and upd = upd, OF step d])
       (simp add: frame split: option.split)
  then show ?thesis
    by (simp add: MergeFrom_def Let_def frame split: option.split)
qed

lemma MergeFrom_Title:
  "distinct (map fst m) \<Longrightarrow>
   Title (MergeFrom ext m t) = (case map_of m ''title'' of Some v \<Rightarrow> toString ext v | None \<Rightarrow> Title t)"
  by (rule MergeFrom_sel [where upd = "\<lambda>v _. toString ext v"]) (simp_all add: merge_entry_Title)

lemma MergeFrom_Type:
  "distinct (map fst m) \<Longrightarrow>
   Type (MergeFrom ext m t) = (case map_of m ''type'' of Some v \<Rightarrow> toString ext v | None \<Rightarrow> Type t)"
  by (rule MergeFrom_sel [where upd = "\<lambda>v _. toString ext v"]) (simp_all add: merge_entry_Type)

lemma MergeFrom_Bag:
  "distinct (map fst m) \<Longrightarrow>
   Bag (MergeFrom ext m t) = (case map_of m ''bag'' of Some v \<Rightarrow> toString ext v | None \<Rightarrow> Bag t)"
  by (rule MergeFrom_sel [where upd = "\<lambda>v _. toString ext v"]) (simp_all add: merge_entry_Bag)

lemma MergeFrom_Recipe:
  "distinct (map fst m) \<Longrightarrow>
   Recipe (MergeFrom ext m t) = (case map_of m ''recipe'' of Some v \<Rightarrow> toString ext v | None \<Rightarrow> Recipe t)"
  by (rule MergeFrom_sel [where upd = "\<lambda>v _. toString ext v"]) (simp_all add: merge_entry_Recipe)

lemma MergeFrom_Permissions:
  "distinct (map fst m) \<Longrightarrow>
   Permissions (MergeFrom ext m t) =
     (case map_of m ''permissions'' of Some v \<Rightarrow> toString ext v | None \<Rightarrow> Permissions t)"
  by (rule MergeFrom_sel [where upd = "\<lambda>v _. toString ext v"]) (simp_all add: merge_entry_Permissions)

lemma MergeFrom_Creator:
  "distinct (map fst m) \<Longrightarrow>
   Creator (MergeFrom ext m t) = (case map_of m ''creator'' of Some v \<Rightarrow> toString ext v | None \<Rightarrow> Creator t)"
  by (rule MergeFrom_sel [where upd = "\<lambda>v _. toString ext v"]) (simp_all add: merge_entry_Creator)

lemma MergeFrom_Created:
  "distinct (map fst m) \<Longrightarrow>
   Created (MergeFrom ext m t) = (case map_of m ''created'' of Some v \<Rightarrow> toString ext v | None \<Rightarrow> Created t)"
  by (rule MergeFrom_sel [where upd = "\<lambda>v _. toString ext v"]) (simp_all add: merge_entry_Created)

lemma MergeFrom_Modifier:
  "distinct (map fst m) \<Longrightarrow>
   Modifier (MergeFrom ext m t) = (case map_of m ''modifier'' of Some v \<Rightarrow> toString ext v | None \<Rightarrow> Modifier t)"
  by (rule MergeFrom_sel [where upd = "\<lambda>v _. toString ext v"]) (simp_all add: merge_entry_Modifier)

lemma MergeFrom_Modified:
  "distinct (map fst m) \<Longrightarrow>
   Modified (MergeFrom ext m t) = (case map_of m ''modified'' of Some v \<Rightarrow> toString ext v | None \<Rightarrow> Modified t)"
  by (rule MergeFrom_sel [where upd = "\<lambda>v _. toString ext v"]) (simp_all add: merge_entry_Modified)

lemma MergeFrom_Revision:
  "distinct (map fst m) \<Longrightarrow>
   Revision (MergeFrom ext m t) =
     (case map_of m ''revision'' of
        Some v \<Rightarrow> (case time_Parse ext (toString ext v) of Some r \<Rightarrow> r | None \<Rightarrow> Revision t)
      | None \<Rightarrow> Revision t)"
  by (rule MergeFrom_sel [where upd = "\<lambda>v old. case time_Parse ext (toString ext v) of Some r \<Rightarrow> r | None \<Rightarrow> old"])
     (simp_all add: merge_entry_Revision)

lemma MergeFrom_Tags:
  "distinct (map fst m) \<Longrightarrow>
   Tags (MergeFrom ext m t) =
     (case map_of m ''tags'' of
        Some v \<Rightarrow> (case v of VStrings tags \<Rightarrow> tags | VSlice tags \<Rightarrow> map (toString ext) tags | _ \<Rightarrow> Tags t)
      | None \<Rightarrow> Tags t)"
  by (rule MergeFrom_sel [where upd = "\<lambda>v old. case v of VStrings tags \<Rightarrow> tags
        | VSlice tags \<Rightarrow> map (toString ext) tags | _ \<Rightarrow> old"])
     (simp_all add: merge_entry_Tags)

lemma MergeFrom_refs:
  "Ref (MergeFrom ext m t) = Ref t"
  "TextRef (MergeFrom ext m t) = TextRef t"
  "MetaRef (MergeFrom ext m t) = MetaRef t"
proof -
  have "Ref (fold (merge_entry ext) m t') = Ref t'"
    "TextRef (fold (merge_entry ext) m t') = TextRef t'"
    "MetaRef (fold (merge_entry ext) m t') = MetaRef t'" for t' :: "'a Tiddler"
    by (rule fold_untouched, simp add: merge_entry_refs)+
  then show "Ref (MergeFrom ext m t) = Ref t"
    "TextRef (MergeFrom ext m t) = TextRef t"
    "MetaRef (MergeFrom ext m t) = MetaRef t"
    by (simp_all add: MergeFrom_def TiddlerMeta_MergeFrom_def Let_def split: option.split)
qed

lemma MergeFrom_Text:
  "Text (MergeFrom ext m t) = (case map_of m ''text'' of Some v \<Rightarrow> toString ext v | None \<Rightarrow> Text t)"
proof -
  have "Text (fold (merge_entry ext) m t') = Text t'" for t' :: "'a Tiddler"
    by (rule fold_untouched) (simp add: merge_entry_def Let_def split: option.split iface.split)
  then show ?thesis
    by (simp add: MergeFrom_def TiddlerMeta_MergeFrom_def Let_def split: option.split)
qed

lemma MergeFrom_Fields:
  assumes "distinct (map fst m)"
  shows "map_of (Fields (MergeFrom ext m t)) k =
     (if k \<notin> reserved_keys
      then (case map_of m k of
              Some v \<Rightarrow> Some v
            | None \<Rightarrow> map_of (case map_of m ''fields'' of Some (VMap fs) \<Rightarrow> fs | _ \<Rightarrow> []) k)
      else map_of (case map_of m ''fields'' of Some (VMap fs) \<Rightarrow> fs | _ \<Rightarrow> []) k)"
proof -
  define F0 where "F0 = (case map_of m ''fields'' of Some (VMap fs) \<Rightarrow> fs | _ \<Rightarrow> [])"
  have step: "map_of (Fields (merge_entry ext e u)) k =
      (if fst e = k then (if k \<notin> reserved_keys then Some (snd e) else map_of (Fields u) k)
       else map_of (Fields u) k)" for e and u :: "'a Tiddler"
    by (simp add: merge_entry_Fields)
  have f: "map_of (Fields (fold (merge_entry ext) m (t\<lparr>Fields := F0\<rparr>))) k =
      (case map_of m k of
         Some v \<Rightarrow> (if k \<notin> reserved_keys then Some v else map_of (Fields (t\<lparr>Fields := F0\<rparr>)) k)
       | None \<Rightarrow> map_of (Fields (t\<lparr>Fields := F0\<rparr>)) k)"
    by (rule fold_by_key [where sel = "\<lambda>u. map_of (Fields u) k" and key = k and step = "merge_entry ext"
          and upd = "\<lambda>v old. if k \<notin> reserved_keys then Some v else old", OF step assms])
  have e: "Fields (MergeFrom ext m t) = Fields (fold (merge_entry ext) m (t\<lparr>Fields := F0\<rparr>))"
    by (cases "map_of m ''text''") (simp_all add: MergeFrom_def TiddlerMeta_MergeFrom_def Let_def F0_def)
  show ?thesis
    unfolding F0_def [symmetric] using f e
    by (cases "map_of m k"; cases "k \<in> reserved_keys") simp_all
qed

theorem UnmarshalJSON_bad_revision_counterexample:
  "json_Unmarshal lib badRevisionJSON =
     Inr [(''title'', VString ''Foo''), (''revision'', VString ''yesterday'')] \<and>
   time_Parse lib ''yesterday'' = None \<and>
   UnmarshalJSON lib badRevisionJSON Tiddler_zero = Inr (Tiddler_zero\<lparr>Title := ''Foo''\<rparr>)"
  by code_simp

text \<open>
  Claim C5, as amended. \<open>UnmarshalJSON\<close> fails exactly when \<open>json.Unmarshal\<close> rejects the
  bytes, and with that error; otherwise it succeeds with the receiver merged with the decoded
  map. A \<open>revision\<close> entry whose text does not parse as a timestamp is skipped: the decoding
  succeeds all the same and the revision of the receiver is kept.
\<close>

theorem UnmarshalJSON_fails_only_on_bad_json:
  "(\<forall>e. json_Unmarshal ext data = Inl e \<longrightarrow> UnmarshalJSON ext data t = Inl e) \<and>
   (\<forall>m. json_Unmarshal ext data = Inr m \<longrightarrow>
      UnmarshalJSON ext data t = Inr (MergeFrom ext m t) \<and>
      (distinct (map fst m) \<and>
       (\<exists>v. map_of m ''revision'' = Some v \<and> time_Parse ext (toString ext v) = None) \<longrightarrow>
         Revision (MergeFrom ext m t) = Revision t))"
  by (auto simp: UnmarshalJSON_def MergeFrom_Revision)

theorem UnmarshalJSON_fails_only_on_bad_json_witness:
  "UnmarshalJSON lib ''{'' Tiddler_zero = Inl (JSONError ''unexpected end of JSON input'') \<and>
   kind (JSONError ''unexpected end of JSON input'') = MalformedInput \<and>
   UnmarshalJSON lib badRevisionJSON Tiddler_zero =
     Inr (MergeFrom lib [(''title'', VString ''Foo''), (''revision'', VString ''yesterday'')] Tiddler_zero) \<and>
   Revision (MergeFrom lib [(''title'', VString ''Foo''), (''revision'', VString ''yesterday'')] Tiddler_zero) =
     Revision (Tiddler_zero :: int Tiddler)"
proof -
  let ?m = "[(''title'', VString ''Foo''), (''revision'', VString ''yesterday'')]"
  have u0: "json_Unmarshal lib ''{'' = Inl (JSONError ''unexpected end of JSON input'')"
    by code_simp
  have u1: "json_Unmarshal lib badRevisionJSON = Inr ?m"
    by code_simp
  have d: "distinct (map fst ?m)" by simp
  have r: "map_of ?m ''revision'' = Some (VString ''yesterday'')" by simp
  have p: "time_Parse lib (toString lib (VString ''yesterday'')) = None" by code_simp
  from UnmarshalJSON_fails_only_on_bad_json [where ext = lib and data = "''{''" and t = Tiddler_zero] u0
  have a: "UnmarshalJSON lib ''{'' Tiddler_zero = Inl (JSONError ''unexpected end of JSON input'')"
    by blast
  from UnmarshalJSON_fails_only_on_bad_json [where ext = lib and data = badRevisionJSON and t = Tiddler_zero]
    u1 d r p
  have b: "UnmarshalJSON lib badRevisionJSON Tiddler_zero = Inr (MergeFrom lib ?m Tiddler_zero)"
    and c: "Revision (MergeFrom lib ?m Tiddler_zero) = Revision (Tiddler_zero :: int Tiddler)"
    by blast+
  from a b c show ?thesis by simp
qed

lemma put_nonempty_apply:
  "put_nonempty f v m k = (if k = f \<and> v \<noteq> [] then Some (VString v) else m k)"
  by (simp add: put_nonempty_def)

lemma fold_update_map_of:
  "distinct (map fst xs) \<Longrightarrow>
   map_of (fold (\<lambda>e. AList.update (fst e) (snd e)) xs al) = map_of al ++ map_of xs"
proof (induction xs arbitrary: al)
  case Nil
  show ?case by simp
next
  case (Cons e xs)
  then have d: "distinct (map fst xs)" and n: "fst e \<notin> dom (map_of xs)"
    by (simp_all add: dom_map_of_conv_image_fst)
  have "map_of (fold (\<lambda>e. AList.update (fst e) (snd e)) (e # xs) al) =
      map_of (AList.update (fst e) (snd e) al) ++ map_of xs"
    using Cons.IH [OF d] by simp
  also have "\<dots> = (map_of al)(fst e \<mapsto> snd e) ++ map_of xs"
    by (simp only: AList.update_conv')
  also have "\<dots> = (map_of al ++ map_of xs)(fst e \<mapsto> snd e)"
    using n by (rule map_add_upd_left)
  also have "\<dots> = map_of al ++ map_of (e # xs)"
    by (cases e) simp
  finally show ?case .
qed

lemma addIfNonEmpty_map_of:
  "map_of (addIfNonEmpty f v obj) = put_nonempty f v (map_of obj)"
  by (simp add: addIfNonEmpty_def put_nonempty_def AList.update_conv')

lemma ToJSONObject_map_of:
  assumes "ToJSONObject ext t = Inr obj" and "distinct (map fst (Fields t))"
  shows "\<exists>revtext. time_MarshalText ext (Revision t) = Inr revtext \<and>
           map_of obj = encoded_map ext t revtext"
proof (cases "time_MarshalText ext (Revision t)")
  case (Inl e)
  with assms(1) show ?thesis by (simp add: ToJSONObject_def Let_def)
next
  case (Inr revtext)
  with assms(1) have "map_of obj = encoded_map ext t revtext"
    by (auto simp: ToJSONObject_def Let_def encoded_map_def addIfNonEmpty_map_of
        AList.update_conv' fold_update_map_of [OF assms(2)])
  with Inr show ?thesis by simp
qed

lemma fold_update_distinct:
  "distinct (map fst al) \<Longrightarrow>
   distinct (map fst (fold (\<lambda>e. AList.update (fst e) (snd e)) xs al))"
  by (induction xs arbitrary: al) (simp_all add: AList.distinct_update)

lemma addIfNonEmpty_distinct:
  "distinct (map fst obj) \<Longrightarrow> distinct (map fst (addIfNonEmpty f v obj))"
  by (simp add: addIfNonEmpty_def AList.distinct_update)

lemma ToJSONObject_distinct:
  assumes "ToJSONObject ext t = Inr obj"
  shows "distinct (map fst obj)"
proof -
  have "distinct (map fst (fold (\<lambda>e. AList.update (fst e) (snd e)) (Fields t) []))"
    by (rule fold_update_distinct) simp
  with assms show ?thesis
    by (auto simp: ToJSONObject_def Let_def split: sum.splits if_splits
        intro!: addIfNonEmpty_distinct AList.distinct_update)
qed

lemma json_entries_map_of:
  "map_of (json_entries obj) k = map_option json_view (map_of obj k)"
proof -
  have "json_entries obj = map (\<lambda>(k, v). (k, json_view v)) obj"
    by (simp add: json_entries_def case_prod_beta)
  then show ?thesis by (simp add: map_of_map)
qed

lemma decoded_lookup:
  assumes "distinct (map fst m)" and "set m = set (json_entries obj)" and "distinct (map fst obj)"
  shows "map_of m k = map_option json_view (map_of obj k)"
proof -
  have "distinct (map fst (json_entries obj))"
    using assms(3) by (simp add: json_entries_def comp_def)
  with assms(1,2) have "map_of m = map_of (json_entries obj)"
    by (simp add: map_of_inject_set)
  then show ?thesis by (simp add: json_entries_map_of)
qed

lemma encoded_map_title: "encoded_map ext t rt ''title'' = Some (VString (Title t))"
  by (simp add: encoded_map_def Let_def put_nonempty_apply)

lemma encoded_map_revision: "encoded_map ext t rt ''revision'' = Some (VString rt)"
  by (simp add: encoded_map_def Let_def put_nonempty_apply)

lemma encoded_map_tags:
  "encoded_map ext t rt ''tags'' =
     (if Tags t \<noteq> [] then Some (VStrings (Tags t)) else map_of (Fields t) ''tags'')"
  by (simp add: encoded_map_def Let_def put_nonempty_apply)

lemma encoded_map_optional:
  "encoded_map ext t rt ''bag'' = (if Bag t \<noteq> [] then Some (VString (Bag t)) else map_of (Fields t) ''bag'')"
  "encoded_map ext t rt ''recipe'' = (if Recipe t \<noteq> [] then Some (VString (Recipe t)) else map_of (Fields t) ''recipe'')"
  "encoded_map ext t rt ''type'' = (if Type t \<noteq> [] then Some (VString (Type t)) else map_of (Fields t) ''type'')"
  "encoded_map ext t rt ''text'' = (if Text t \<noteq> [] then Some (VString (Text t)) else map_of (Fields t) ''text'')"
  "encoded_map ext t rt ''permissions'' = (if Permissions t \<noteq> [] then Some (VString (Permissions t)) else map_of (Fields t) ''permissions'')"
  "encoded_map ext t rt ''created'' = (if Created t \<noteq> [] then Some (VString (Created t)) else map_of (Fields t) ''created'')"
  "encoded_map ext t rt ''creator'' = (if Creator t \<noteq> [] then Some (VString (Creator t)) else map_of (Fields t) ''creator'')"
  "encoded_map ext t rt ''modified'' = (if Modified t \<noteq> [] then Some (VString (Modified t)) else map_of (Fields t) ''modified'')"
  "encoded_map ext t rt ''modifier'' = (if Modifier t \<noteq> [] then Some (VString (Modifier t)) else map_of (Fields t) ''modifier'')"
  by (simp_all add: encoded_map_def Let_def put_nonempty_apply)

lemma encoded_map_fields: "encoded_map ext t rt ''fields'' = map_of (Fields t) ''fields''"
  by (simp add: encoded_map_def Let_def put_nonempty_apply)

lemma encoded_map_other:
  "k \<notin> reserved_keys \<Longrightarrow>
   encoded_map ext t rt k = put_nonempty ''tiddlykeep-ref'' (blob_String ext (Ref t)) (map_of (Fields t)) k"
  by (simp add: encoded_map_def Let_def put_nonempty_apply reserved_keys_def)

lemma Tiddler_zero_fields:
  "Title (Tiddler_zero :: ('tm::zero) Tiddler) = []"
  "Bag (Tiddler_zero :: ('tm::zero) Tiddler) = []"
  "Recipe (Tiddler_zero :: ('tm::zero) Tiddler) = []"
  "Tags (Tiddler_zero :: ('tm::zero) Tiddler) = []"
  "Type (Tiddler_zero :: ('tm::zero) Tiddler) = []"
  "Text (Tiddler_zero :: ('tm::zero) Tiddler) = []"
  "Permissions (Tiddler_zero :: ('tm::zero) Tiddler) = []"
  "Created (Tiddler_zero :: ('tm::zero) Tiddler) = []"
  "Creator (Tiddler_zero :: ('tm::zero) Tiddler) = []"
  "Modified (Tiddler_zero :: ('tm::zero) Tiddler) = []"
  "Modifier (Tiddler_zero :: ('tm::zero) Tiddler) = []"
  "Ref (Tiddler_zero :: ('tm::zero) Tiddler) = ZeroRef"
  "TextRef (Tiddler_zero :: ('tm::zero) Tiddler) = ZeroRef"
  "MetaRef (Tiddler_zero :: ('tm::zero) Tiddler) = ZeroRef"
  by (simp_all add: Tiddler_zero_def Tiddler_of_ref_def TiddlerRef_zero_def)

lemma reserved_keys_mem:
  "''title'' \<in> reserved_keys" "''revision'' \<in> reserved_keys" "''tags'' \<in> reserved_keys"
  "''type'' \<in> reserved_keys" "''bag'' \<in> reserved_keys" "''recipe'' \<in> reserved_keys"
  "''permissions'' \<in> reserved_keys" "''creator'' \<in> reserved_keys" "''created'' \<in> reserved_keys"
  "''modifier'' \<in> reserved_keys" "''modified'' \<in> reserved_keys" "''text'' \<in> reserved_keys"
  "''fields'' \<in> reserved_keys" "''tiddlykeep-ref'' \<notin> reserved_keys"
  by (simp_all add: reserved_keys_def)

lemma toString_VString: "toString ext (VString s) = s"
  by (simp add: toString_def)

lemma map_toString_VString: "map (toString ext \<circ> VString) ss = ss"
  by (induction ss) (simp_all add: toString_VString)

text \<open>How a string-valued field that is written only when non-empty comes back.\<close>

lemma optional_field_back:
  assumes "map_of m key = map_option json_view (if x \<noteq> [] then Some (VString x) else None)"
  shows "(case map_of m key of Some v \<Rightarrow> toString ext v | None \<Rightarrow> []) = x"
  using assms by (cases "x = []") (simp_all add: toString_VString)

text \<open>
  Claim C2, as amended. Let the fields of \<open>t\<close> have distinct keys, none of them a key the
  decoder reserves, and values that the JSON library gives back unchanged; let the decoded
  map have distinct keys and exactly the entries of the encoded object, each value as the
  JSON library gives it back; and let the time library parse the text of the revision back
  to the revision. Then decoding the JSON of \<open>t\<close> into a fresh tiddler reproduces the title,
  revision, text, type, tags, bag, recipe, permissions, creator, created, modifier and
  modified of \<open>t\<close>. The storage ref is not reproduced: the three handles of the result are
  zero, and the string written under \<open>tiddlykeep-ref\<close>, when it is not empty, comes back as
  an entry of the fields under that key; apart from that entry the fields are those of \<open>t\<close>.
\<close>

theorem JSON_roundtrip_without_ref:
  assumes enc: "ToJSONObject ext t = Inr obj" and mar: "json_Marshal ext obj = Inr data"
    and unm: "json_Unmarshal ext data = Inr m"
    and keys: "distinct (map fst m)" and ents: "set m = set (json_entries obj)"
    and tm: "\<forall>s. time_MarshalText ext (Revision t) = Inr s \<longrightarrow> time_Parse ext s = Some (Revision t)"
    and fkeys: "distinct (map fst (Fields t))" "fst ` set (Fields t) \<inter> reserved_keys = {}"
    and fvals: "\<forall>v \<in> snd ` set (Fields t). json_view v = v"
  shows "MarshalJSON ext t = Inr data \<and>
    (\<exists>t'. UnmarshalJSON ext data Tiddler_zero = Inr t' \<and>
       Title t' = Title t \<and> Revision t' = Revision t \<and> Text t' = Text t \<and> Type t' = Type t \<and>
       Tags t' = Tags t \<and> Bag t' = Bag t \<and> Recipe t' = Recipe t \<and>
       Permissions t' = Permissions t \<and> Creator t' = Creator t \<and> Created t' = Created t \<and>
       Modifier t' = Modifier t \<and> Modified t' = Modified t \<and>
       map_of (Fields t') =
         (if blob_String ext (Ref t) = [] then map_of (Fields t)
          else (map_of (Fields t))(''tiddlykeep-ref'' \<mapsto> VString (blob_String ext (Ref t)))) \<and>
       Ref t' = ZeroRef \<and> TextRef t' = ZeroRef \<and> MetaRef t' = ZeroRef)"
proof -
  let ?t' = "MergeFrom ext m Tiddler_zero"
  from ToJSONObject_map_of [OF enc fkeys(1)] obtain rt
    where rt: "time_MarshalText ext (Revision t) = Inr rt"
      and mo: "map_of obj = encoded_map ext t rt"
    by blast
  have look: "map_of m k = map_option json_view (encoded_map ext t rt k)" for k
    using decoded_lookup [OF keys ents ToJSONObject_distinct [OF enc]] mo by simp
  have absent: "map_of (Fields t) k = None" if "k \<in> reserved_keys" for k
    using that fkeys(2) by (auto simp: map_of_eq_None_iff)
  have M: "MarshalJSON ext t = Inr data"
    by (simp add: MarshalJSON_def enc mar)
  have U: "UnmarshalJSON ext data Tiddler_zero = Inr ?t'"
    by (simp add: UnmarshalJSON_def unm)
  have Title: "Title ?t' = Title t"
    by (simp add: MergeFrom_Title [OF keys] look encoded_map_title toString_VString)
  have Revision: "Revision ?t' = Revision t"
    using tm rt by (simp add: MergeFrom_Revision [OF keys] look encoded_map_revision toString_VString)
  have Text: "Text ?t' = Text t"
    unfolding MergeFrom_Text Tiddler_zero_fields
    by (rule optional_field_back) (simp add: look encoded_map_optional absent reserved_keys_mem)
  have Type: "Type ?t' = Type t"
    unfolding MergeFrom_Type [OF keys] Tiddler_zero_fields
    by (rule optional_field_back) (simp add: look encoded_map_optional absent reserved_keys_mem)
  have Bag: "Bag ?t' = Bag t"
    unfolding MergeFrom_Bag [OF keys] Tiddler_zero_fields
    by (rule optional_field_back) (simp add: look encoded_map_optional absent reserved_keys_mem)
  have Recipe: "Recipe ?t' = Recipe t"
    unfolding MergeFrom_Recipe [OF keys] Tiddler_zero_fields
    by (rule optional_field_back) (simp add: look encoded_map_optional absent reserved_keys_mem)
  have Permissions: "Permissions ?t' = Permissions t"
    unfolding MergeFrom_Permissions [OF keys] Tiddler_zero_fields
    by (rule optional_field_back) (simp add: look encoded_map_optional absent reserved_keys_mem)
  have Creator: "Creator ?t' = Creator t"
    unfolding MergeFrom_Creator [OF keys] Tiddler_zero_fields
    by (rule optional_field_back) (simp add: look encoded_map_optional absent reserved_keys_mem)
  have Created: "Created ?t' = Created t"
    unfolding MergeFrom_Created [OF keys] Tiddler_zero_fields
    by (rule optional_field_back) (simp add: look encoded_map_optional absent reserved_keys_mem)
  have Modifier: "Modifier ?t' = Modifier t"
    unfolding MergeFrom_Modifier [OF keys] Tiddler_zero_fields
    by (rule optional_field_back) (simp add: look encoded_map_optional absent reserved_keys_mem)
  have Modified: "Modified ?t' = Modified t"
    unfolding MergeFrom_Modified [OF keys] Tiddler_zero_fields
    by (rule optional_field_back) (simp add: look encoded_map_optional absent reserved_keys_mem)
  have Tags: "Tags ?t' = Tags t"
    by (cases "Tags t = []")
       (simp_all add: MergeFrom_Tags [OF keys] look encoded_map_tags absent reserved_keys_mem
          Tiddler_zero_fields map_toString_VString)
  have nofields: "map_of m ''fields'' = None"
    by (simp add: look encoded_map_fields absent reserved_keys_mem)
  have stable: "map_option json_view (map_of (Fields t) k) = map_of (Fields t) k" for k
  proof (cases "map_of (Fields t) k")
    case None
    then show ?thesis by simp
  next
    case (Some v)
    then have "(k, v) \<in> set (Fields t)" by (rule map_of_SomeD)
    then have "v \<in> snd ` set (Fields t)" by force
    with fvals have "json_view v = v" by blast
    with Some show ?thesis by simp
  qed
  have Fields: "map_of (Fields ?t') k =
      put_nonempty ''tiddlykeep-ref'' (blob_String ext (Ref t)) (map_of (Fields t)) k" for k
  proof (cases "k \<in> reserved_keys")
    case True
    then have "k \<noteq> ''tiddlykeep-ref''" using reserved_keys_mem(14) by blast
    with True show ?thesis
      by (simp add: MergeFrom_Fields [OF keys] nofields put_nonempty_apply absent)
  next
    case False
    have "map_of m k = put_nonempty ''tiddlykeep-ref'' (blob_String ext (Ref t)) (map_of (Fields t)) k"
      using stable [of k] by (simp add: look encoded_map_other [OF False] put_nonempty_apply)
    with False show ?thesis
      by (simp add: MergeFrom_Fields [OF keys] nofields split: option.split)
  qed
  have Fields': "map_of (Fields ?t') =
         (if blob_String ext (Ref t) = [] then map_of (Fields t)
          else (map_of (Fields t))(''tiddlykeep-ref'' \<mapsto> VString (blob_String ext (Ref t))))"
    by (rule ext) (simp add: Fields put_nonempty_def)
  have Refs: "Ref ?t' = ZeroRef" "TextRef ?t' = ZeroRef" "MetaRef ?t' = ZeroRef"
    by (simp_all add: MergeFrom_refs Tiddler_zero_fields)
  from U Title Revision Text Type Tags Bag Recipe Permissions Creator Created Modifier Modified
    Fields' Refs
  have "\<exists>t'. UnmarshalJSON ext data Tiddler_zero = Inr t' \<and>
       Title t' = Title t \<and> Revision t' = Revision t \<and> Text t' = Text t \<and> Type t' = Type t \<and>
       Tags t' = Tags t \<and> Bag t' = Bag t \<and> Recipe t' = Recipe t \<and>
       Permissions t' = Permissions t \<and> Creator t' = Creator t \<and> Created t' = Created t \<and>
       Modifier t' = Modifier t \<and> Modified t' = Modified t \<and>
       map_of (Fields t') =
         (if blob_String ext (Ref t) = [] then map_of (Fields t)
          else (map_of (Fields t))(''tiddlykeep-ref'' \<mapsto> VString (blob_String ext (Ref t)))) \<and>
       Ref t' = ZeroRef \<and> TextRef t' = ZeroRef \<and> MetaRef t' = ZeroRef"
    by (intro exI [of _ ?t'] conjI)
  with M show ?thesis by (rule conjI)
qed

theorem JSON_roundtrip_loses_ref_counterexample:
  "Title refTiddler \<noteq> [] \<and>
   MarshalJSON lib refTiddler = Inr refJSON \<and>
   UnmarshalJSON lib refJSON Tiddler_zero = Inr refDecoded \<and>
   Ref refTiddler = DigestRef ''sha224-node0'' \<and> Ref refDecoded = ZeroRef \<and>
   Fields refTiddler = [] \<and> Fields refDecoded = [(''tiddlykeep-ref'', VString ''sha224-node0'')] \<and>
   refDecoded \<noteq> refTiddler"
proof -
  have a: "Title refTiddler \<noteq> []" by code_simp
  have b: "MarshalJSON lib refTiddler = Inr refJSON" by code_simp
  have c: "UnmarshalJSON lib refJSON Tiddler_zero = Inr refDecoded" by code_simp
  have d: "Ref refTiddler = DigestRef ''sha224-node0''" by code_simp
  have e: "Ref refDecoded = ZeroRef" by code_simp
  have f: "Fields refTiddler = []" by code_simp
  have g: "Fields refDecoded = [(''tiddlykeep-ref'', VString ''sha224-node0'')]" by code_simp
  from d e have "refDecoded \<noteq> refTiddler" by auto
  with a b c d e f g show ?thesis by simp
qed

theorem JSON_roundtrip_without_ref_witness:
  "MarshalJSON lib colorTiddler = Inr colorJSON \<and>
   UnmarshalJSON lib colorJSON Tiddler_zero = Inr colorDecoded \<and>
   Tags colorDecoded = Tags colorTiddler \<and> Revision colorDecoded = Revision colorTiddler \<and>
   map_of (Fields colorDecoded) =
     (map_of (Fields colorTiddler))(''tiddlykeep-ref'' \<mapsto> VString ''sha224-node0'') \<and>
   Ref colorTiddler = DigestRef ''sha224-node0'' \<and> Ref colorDecoded = ZeroRef"
proof -
  have enc: "ToJSONObject lib colorTiddler = Inr colorObject" by code_simp
  have mar: "json_Marshal lib colorObject = Inr colorJSON" by code_simp
  have unm: "json_Unmarshal lib colorJSON = Inr colorRead" by code_simp
  have keys: "distinct (map fst colorRead)" by code_simp
  have ents: "set colorRead = set (json_entries colorObject)" by code_simp
  have rev: "Revision colorTiddler = 63687272767" by code_simp
  have tm: "\<forall>s. time_MarshalText lib (Revision colorTiddler) = Inr s \<longrightarrow>
      time_Parse lib s = Some (Revision colorTiddler)"
    unfolding rev by (simp add: lib_def)
  have f: "Fields colorTiddler = [(''color'', VString ''red'')]" by code_simp
  have fkeys: "distinct (map fst (Fields colorTiddler))"
    "fst ` set (Fields colorTiddler) \<inter> reserved_keys = {}"
    unfolding f by (simp_all add: reserved_keys_def)
  have fvals: "\<forall>v \<in> snd ` set (Fields colorTiddler). json_view v = v"
    unfolding f by simp
  have u: "UnmarshalJSON lib colorJSON Tiddler_zero = Inr colorDecoded" by code_simp
  have s: "blob_String lib (Ref colorTiddler) = ''sha224-node0''" by code_simp
  have r: "Ref colorTiddler = DigestRef ''sha224-node0''" by code_simp
  from JSON_roundtrip_without_ref [OF enc mar unm keys ents tm fkeys fvals] u s
  have "MarshalJSON lib colorTiddler = Inr colorJSON"
    and "Tags colorDecoded = Tags colorTiddler" and "Revision colorDecoded = Revision colorTiddler"
    and "map_of (Fields colorDecoded) =
      (map_of (Fields colorTiddler))(''tiddlykeep-ref'' \<mapsto> VString ''sha224-node0'')"
    and "Ref colorDecoded = ZeroRef"
    by auto
  with u r show ?thesis by simp
qed


end
